theory Spec2Isabelle
  imports Complex_Main "HOL-Library.Log_Nat"
begin

section \<open>JavaScript values\<close>

subsection \<open>Strings\<close>

text \<open>
  A JavaScript string is its sequence of UTF-16 code units; \<open>length\<close> counts code units,
  as \<open>String.prototype.length\<close> does. \<open>str\<close> writes an ASCII literal.
\<close>

type_synonym jsstring = "nat list"

definition str :: "string \<Rightarrow> jsstring" where
  "str s = map of_char s"

text \<open>
  The code units that \<open>String.prototype.trim\<close> strips and that the regular expression
  class \<open>\s\<close> matches: ECMAScript's WhiteSpace and LineTerminator (TAB, LF, VT, FF, CR,
  SP, NBSP, U+1680, U+2000..U+200A, U+2028, U+2029, U+202F, U+205F, U+3000, U+FEFF).
\<close>

definition isWhiteSpace :: "nat \<Rightarrow> bool" where
  "isWhiteSpace c =
     (c = 9 \<or> c = 10 \<or> c = 11 \<or> c = 12 \<or> c = 13 \<or> c = 32 \<or> c = 160 \<or> c = 5760
      \<or> (8192 \<le> c \<and> c \<le> 8202)
      \<or> c = 8232 \<or> c = 8233 \<or> c = 8239 \<or> c = 8287 \<or> c = 12288 \<or> c = 65279)"

definition trim :: "jsstring \<Rightarrow> jsstring" where
  "trim s = rev (dropWhile isWhiteSpace (rev (dropWhile isWhiteSpace s)))"

text \<open>\<open>content.replace(/\s+/g, "")\<close>: every whitespace code unit is removed.\<close>

definition stripWhiteSpace :: "jsstring \<Rightarrow> jsstring" where
  "stripWhiteSpace s = filter (\<lambda>c. \<not> isWhiteSpace c) s"

definition endsWith :: "jsstring \<Rightarrow> jsstring \<Rightarrow> bool" where
  "endsWith s suffix = (length suffix \<le> length s \<and> drop (length s - length suffix) s = suffix)"

text \<open>
  Case conversion of the ASCII letters; every other code unit is kept. Where the source
  compares the converted string with the ASCII literals \<open>NA\<close>, \<open>N/A\<close>, \<open>true\<close> and \<open>1\<close>
  this decides as the Unicode case mappings do, since no code unit outside ASCII maps to
  a letter of those literals alone. \<open>normalizeCurrency\<close> returns the converted string:
  there the model is exact on ASCII text, and what is stated of the converted string is
  stated of ASCII text.
\<close>

definition isAscii :: "jsstring \<Rightarrow> bool" where
  "isAscii s = list_all (\<lambda>c. c < 128) s"

definition toUpperCase :: "jsstring \<Rightarrow> jsstring" where
  "toUpperCase s = map (\<lambda>c. if 97 \<le> c \<and> c \<le> 122 then c - 32 else c) s"

definition toLowerCase :: "jsstring \<Rightarrow> jsstring" where
  "toLowerCase s = map (\<lambda>c. if 65 \<le> c \<and> c \<le> 90 then c + 32 else c) s"

text \<open>\<open>s || undefined\<close> on a string: the empty string is falsy.\<close>

definition orUndefined :: "jsstring \<Rightarrow> jsstring option" where
  "orUndefined s = (if s = [] then None else Some s)"

text \<open>\<open>a ?? b\<close>: the right operand is taken exactly when the left one is null or undefined.\<close>

definition nullish :: "'a option \<Rightarrow> 'a option \<Rightarrow> 'a option" where
  "nullish a b = (case a of None \<Rightarrow> b | Some v \<Rightarrow> Some v)"

fun join :: "jsstring \<Rightarrow> jsstring list \<Rightarrow> jsstring" where
  "join sep [] = []"
| "join sep [x] = x"
| "join sep (x # y # ys) = x @ sep @ join sep (y # ys)"

subsection \<open>Numbers\<close>

text \<open>
  A JavaScript number is a binary64 value: a finite value, one of the two infinities, or
  NaN. A finite value is represented by the rational it denotes. The sign of zero is not
  modelled (no operation of the source distinguishes \<open>-0\<close> from \<open>0\<close>).
\<close>

datatype jsnum = Fin rat | PosInf | NegInf | NaN

text \<open>
  Rounding of a real value to binary64, to nearest with ties to even, as every arithmetic
  operation and every conversion from a decimal text does it. \<open>ilog2 x\<close> is the exponent
  \<open>e\<close> with \<open>2^e \<le> x < 2^(e+1)\<close>; the spacing of the binary64 values around \<open>x\<close> is
  \<open>2^(e - 52)\<close>, and \<open>2^(-1074)\<close> below the normal range; a value that rounds to \<open>2^1024\<close> or
  more overflows to an infinity.
\<close>

definition round_even :: "rat \<Rightarrow> int" where
  "round_even x =
     (let f = \<lfloor>x\<rfloor>; d = x - of_int f
      in if d < 1 / 2 then f else if 1 / 2 < d then f + 1 else if even f then f else f + 1)"

definition pow2 :: "int \<Rightarrow> rat" where
  "pow2 k = (if 0 \<le> k then 2 ^ nat k else 1 / 2 ^ nat (- k))"

definition ilog2 :: "rat \<Rightarrow> int" where
  "ilog2 x =
     (let k = bitlen (fst (quotient_of x)) - bitlen (snd (quotient_of x))
      in if pow2 k \<le> x then k else k - 1)"

definition round64 :: "rat \<Rightarrow> jsnum" where
  "round64 x =
     (if x = 0 then Fin 0
      else
        (let e = max (ilog2 \<bar>x\<bar>) (- 1022);
             u = pow2 (e - 52);
             m = round_even (x / u)
         in if 1024 \<le> e \<or> (e = 1023 \<and> 2 ^ 53 \<le> \<bar>m\<bar>)
            then (if 0 < x then PosInf else NegInf)
            else Fin (of_int m * u)))"

definition isFinite :: "jsnum \<Rightarrow> bool" where
  "isFinite n = (case n of Fin _ \<Rightarrow> True | _ \<Rightarrow> False)"

definition isNaN :: "jsnum \<Rightarrow> bool" where
  "isNaN n = (n = NaN)"

fun js_add :: "jsnum \<Rightarrow> jsnum \<Rightarrow> jsnum" where
  "js_add (Fin a) (Fin b) = round64 (a + b)"
| "js_add NaN _ = NaN"
| "js_add _ NaN = NaN"
| "js_add PosInf NegInf = NaN"
| "js_add NegInf PosInf = NaN"
| "js_add PosInf _ = PosInf"
| "js_add _ PosInf = PosInf"
| "js_add NegInf _ = NegInf"
| "js_add _ NegInf = NegInf"

fun js_neg :: "jsnum \<Rightarrow> jsnum" where
  "js_neg (Fin a) = Fin (- a)"
| "js_neg PosInf = NegInf"
| "js_neg NegInf = PosInf"
| "js_neg NaN = NaN"

definition js_sub :: "jsnum \<Rightarrow> jsnum \<Rightarrow> jsnum" where
  "js_sub a b = js_add a (js_neg b)"

fun js_sign :: "jsnum \<Rightarrow> rat" where
  "js_sign (Fin a) = sgn a"
| "js_sign PosInf = 1"
| "js_sign NegInf = - 1"
| "js_sign NaN = 0"

definition js_mul :: "jsnum \<Rightarrow> jsnum \<Rightarrow> jsnum" where
  "js_mul x y =
     (if x = NaN \<or> y = NaN then NaN
      else case (x, y) of
        (Fin a, Fin b) \<Rightarrow> round64 (a * b)
      | _ \<Rightarrow> (if js_sign x * js_sign y = 0 then NaN
              else if 0 < js_sign x * js_sign y then PosInf else NegInf))"

text \<open>Division by a positive binary64 constant (the source only divides by 100).\<close>

fun js_div_pos :: "jsnum \<Rightarrow> rat \<Rightarrow> jsnum" where
  "js_div_pos (Fin a) d = round64 (a / d)"
| "js_div_pos PosInf d = PosInf"
| "js_div_pos NegInf d = NegInf"
| "js_div_pos NaN d = NaN"

fun Math_abs :: "jsnum \<Rightarrow> jsnum" where
  "Math_abs (Fin a) = Fin \<bar>a\<bar>"
| "Math_abs PosInf = PosInf"
| "Math_abs NegInf = PosInf"
| "Math_abs NaN = NaN"

text \<open>\<open>a > b\<close>: false as soon as one side is NaN.\<close>

fun js_gt :: "jsnum \<Rightarrow> jsnum \<Rightarrow> bool" where
  "js_gt (Fin a) (Fin b) = (b < a)"
| "js_gt NaN _ = False"
| "js_gt _ NaN = False"
| "js_gt PosInf PosInf = False"
| "js_gt PosInf _ = True"
| "js_gt NegInf _ = False"
| "js_gt (Fin a) PosInf = False"
| "js_gt (Fin a) NegInf = True"

text \<open>\<open>n || undefined\<close> on a number: zero and NaN are falsy.\<close>

definition numOrUndefined :: "jsnum \<Rightarrow> jsnum option" where
  "numOrUndefined n = (if n = Fin 0 \<or> n = NaN then None else Some n)"

text \<open>
  \<open>Number(x.toFixed(f))\<close>. \<open>toFixed\<close> prints a non-finite number by name and a number of
  magnitude at least \<open>10^21\<close> in full, so both come back unchanged; otherwise it prints
  the integer \<open>n\<close> for which \<open>n / 10^f\<close> is nearest to the exact magnitude of the binary64
  value, the larger one of two, and \<open>Number\<close> reads the decimal text back as a binary64
  value.
\<close>

definition Number_toFixed :: "nat \<Rightarrow> jsnum \<Rightarrow> jsnum" where
  "Number_toFixed f x =
     (case x of
        Fin r \<Rightarrow>
          if 10 ^ 21 \<le> \<bar>r\<bar> then Fin r
          else round64 (sgn r * (of_int \<lfloor>\<bar>r\<bar> * 10 ^ f + 1 / 2\<rfloor> / 10 ^ f))
      | _ \<Rightarrow> x)"

text \<open>
  \<open>Number.parseFloat\<close>: leading whitespace is skipped and the longest prefix that is a
  decimal literal (sign, \<open>Infinity\<close> or digits with an optional fraction and exponent) is
  read, and its value is rounded to binary64; NaN when there is none.
\<close>

definition isDigit :: "nat \<Rightarrow> bool" where
  "isDigit c = (48 \<le> c \<and> c \<le> 57)"

definition digitsValue :: "jsstring \<Rightarrow> int" where
  "digitsValue ds = foldl (\<lambda>acc c. 10 * acc + (int c - 48)) 0 ds"

definition exponentPart :: "jsstring \<Rightarrow> int" where
  "exponentPart r =
     (case r of
        [] \<Rightarrow> 0
      | c # r1 \<Rightarrow>
          if c = 101 \<or> c = 69 then
            (case r1 of
               [] \<Rightarrow> 0
             | d # r2 \<Rightarrow>
                 if d = 45 then - digitsValue (takeWhile isDigit r2)
                 else if d = 43 then digitsValue (takeWhile isDigit r2)
                 else digitsValue (takeWhile isDigit r1))
          else 0)"

definition pow10 :: "int \<Rightarrow> rat" where
  "pow10 e = (if 0 \<le> e then 10 ^ nat e else 1 / 10 ^ nat (- e))"

definition parseFloat :: "jsstring \<Rightarrow> jsnum" where
  "parseFloat s =
     (let t = dropWhile isWhiteSpace s;
          neg = (case t of [] \<Rightarrow> False | c # _ \<Rightarrow> c = 45);
          u = (case t of [] \<Rightarrow> [] | c # r \<Rightarrow> if c = 45 \<or> c = 43 then r else t)
      in if take 8 u = str ''Infinity'' then (if neg then NegInf else PosInf)
         else
           let ip = takeWhile isDigit u;
               r1 = dropWhile isDigit u;
               hasDot = (case r1 of [] \<Rightarrow> False | c # _ \<Rightarrow> c = 46);
               fp = (if hasDot then takeWhile isDigit (tl r1) else []);
               r2 = (if hasDot then dropWhile isDigit (tl r1) else r1)
           in if ip = [] \<and> fp = [] then NaN
              else
                let m = of_int (digitsValue ip) + of_int (digitsValue fp) / 10 ^ length fp;
                    v = m * pow10 (exponentPart r2)
                in round64 (if neg then - v else v))"

subsection \<open>Errors\<close>

datatype js_error = TypeError | ParseError | Error jsstring

text \<open>\<open>try { body } catch { handler }\<close>: whatever the body throws is replaced by the handler.\<close>

definition try_catch :: "js_error + 'a \<Rightarrow> js_error + 'a \<Rightarrow> js_error + 'a" where
  "try_catch body handler = (case body of Inl _ \<Rightarrow> handler | Inr v \<Rightarrow> Inr v)"

section \<open>The XML tree\<close>

text \<open>
  The DOM as the parser reads it: an element has a namespace URI, a prefix, a local name,
  attributes and child nodes; a child is an element, character data (text or CDATA), or a
  node whose text is not part of its parent's \<open>textContent\<close> (a comment or a processing
  instruction).
\<close>

datatype element =
  Element (namespaceURI: "jsstring option") (prefix: "jsstring option") (localName: jsstring)
    (attributes: "(jsstring \<times> jsstring) list") (childNodes: "node list")
and node = ElementNode element | TextNode jsstring | CommentNode jsstring

fun textContent :: "element \<Rightarrow> jsstring" and nodeTextContent :: "node \<Rightarrow> jsstring" where
  "textContent (Element ns p l a cs) = concat (map nodeTextContent cs)"
| "nodeTextContent (ElementNode e) = textContent e"
| "nodeTextContent (TextNode t) = t"
| "nodeTextContent (CommentNode t) = []"

text \<open>The elements below an element, in document order (the element itself is not one).\<close>

fun descendants :: "element \<Rightarrow> element list" and nodeDescendants :: "node \<Rightarrow> element list" where
  "descendants (Element ns p l a cs) = concat (map nodeDescendants cs)"
| "nodeDescendants (ElementNode e) = e # descendants e"
| "nodeDescendants (TextNode t) = []"
| "nodeDescendants (CommentNode t) = []"

definition getElementsByTagNameNS :: "element \<Rightarrow> jsstring \<Rightarrow> jsstring \<Rightarrow> element list" where
  "getElementsByTagNameNS parent namespace tag =
     filter (\<lambda>e. namespaceURI e = Some namespace \<and> localName e = tag) (descendants parent)"

definition tagName :: "element \<Rightarrow> jsstring" where
  "tagName e = (case prefix e of None \<Rightarrow> localName e | Some p \<Rightarrow> p @ str '':'' @ localName e)"

text \<open>\<open>getAttribute\<close>: the value of the first attribute of that name, null when there is none.\<close>

definition getAttribute :: "element \<Rightarrow> jsstring \<Rightarrow> jsstring option" where
  "getAttribute e name = map_of (attributes e) name"

text \<open>
  What \<open>DOMParser.parseFromString\<close> does with a text: it throws, or it returns a document,
  whose \<open>documentElement\<close> may be null. \<open>getElementsByTagName\<close> on the document matches the
  qualified name of the document element and of the elements below it.
\<close>

datatype dom_parse = ParserThrows js_error | ParsedDocument "element option"

definition getElementsByTagName :: "element option \<Rightarrow> jsstring \<Rightarrow> element list" where
  "getElementsByTagName doc name =
     (case doc of
        None \<Rightarrow> []
      | Some root' \<Rightarrow> filter (\<lambda>e. tagName e = name) (root' # descendants root'))"

subsection \<open>DOM helpers\<close>

definition CBC_NS :: jsstring where
  "CBC_NS = str ''urn:oasis:names:specification:ubl:schema:xsd:CommonBasicComponents-2''"

definition CAC_NS :: jsstring where
  "CAC_NS = str ''urn:oasis:names:specification:ubl:schema:xsd:CommonAggregateComponents-2''"

definition cbcText :: "element \<Rightarrow> jsstring \<Rightarrow> jsstring" where
  "cbcText parent tag =
     (case getElementsByTagNameNS parent CBC_NS tag of
        [] \<Rightarrow> []
      | el # _ \<Rightarrow> trim (textContent el))"

definition cacElement :: "element \<Rightarrow> jsstring \<Rightarrow> element option" where
  "cacElement parent tag =
     (case getElementsByTagNameNS parent CAC_NS tag of [] \<Rightarrow> None | el # _ \<Rightarrow> Some el)"

definition cacElements :: "element \<Rightarrow> jsstring \<Rightarrow> element list" where
  "cacElements parent tag = getElementsByTagNameNS parent CAC_NS tag"

definition cbcNumber :: "element \<Rightarrow> jsstring \<Rightarrow> jsnum" where
  "cbcNumber parent tag =
     (let n = parseFloat (cbcText parent tag) in if isNaN n then Fin 0 else n)"

text \<open>The loop over \<open>parent.childNodes\<close>: nodes that are not elements are skipped.\<close>

fun childElementsLoop :: "node list \<Rightarrow> jsstring \<Rightarrow> jsstring \<Rightarrow> element list" where
  "childElementsLoop [] namespace tag = []"
| "childElementsLoop (ElementNode e # rest) namespace tag =
     (if namespaceURI e = Some namespace \<and> localName e = tag
      then e # childElementsLoop rest namespace tag
      else childElementsLoop rest namespace tag)"
| "childElementsLoop (_ # rest) namespace tag = childElementsLoop rest namespace tag"

definition childElementsByTagNs :: "element \<Rightarrow> jsstring \<Rightarrow> jsstring \<Rightarrow> element list" where
  "childElementsByTagNs parent namespace tag = childElementsLoop (childNodes parent) namespace tag"

definition cbcDirectText :: "element \<Rightarrow> jsstring \<Rightarrow> jsstring" where
  "cbcDirectText parent tag =
     (case childElementsByTagNs parent CBC_NS tag of
        [] \<Rightarrow> []
      | el # _ \<Rightarrow> trim (textContent el))"

definition cbcDirectNumber :: "element \<Rightarrow> jsstring \<Rightarrow> jsnum option" where
  "cbcDirectNumber parent tag =
     (let v = cbcDirectText parent tag
      in if v = [] then None
         else let parsed = parseFloat v in if isNaN parsed then None else Some parsed)"

definition cacDirectElement :: "element \<Rightarrow> jsstring \<Rightarrow> element option" where
  "cacDirectElement parent tag =
     (case childElementsByTagNs parent CAC_NS tag of [] \<Rightarrow> None | el # _ \<Rightarrow> Some el)"

definition cacDirectElements :: "element \<Rightarrow> jsstring \<Rightarrow> element list" where
  "cacDirectElements parent tag = childElementsByTagNs parent CAC_NS tag"

section \<open>The document model\<close>

text \<open>
  The parsed types. An optional field (\<open>field?: T\<close>) is an \<open>option\<close>; \<open>undefined\<close> and
  \<open>null\<close> are both \<open>None\<close>.
\<close>

record UblAddress =
  street :: jsstring
  additionalStreet :: "jsstring option"
  city :: jsstring
  postalZone :: jsstring
  countrySubentity :: "jsstring option"
  countryCode :: jsstring

record UblContact =
  name :: "jsstring option"
  phone :: "jsstring option"
  email :: "jsstring option"

record UblParty =
  name :: jsstring
  registrationName :: "jsstring option"
  companyLegalForm :: "jsstring option"
  vatId :: "jsstring option"
  taxSchemeId :: "jsstring option"
  companyId :: "jsstring option"
  endpointId :: "jsstring option"
  endpointSchemeId :: "jsstring option"
  address :: "UblAddress option"
  contact :: "UblContact option"

record UblAllowanceCharge =
  chargeIndicator :: bool
  amount :: jsnum
  baseAmount :: "jsnum option"
  multiplierFactorNumeric :: "jsnum option"
  reason :: "jsstring option"
  reasonCode :: "jsstring option"
  taxPercent :: "jsnum option"
  taxCategoryId :: "jsstring option"
  taxSchemeId :: "jsstring option"

record UblTaxSubtotal =
  taxableAmount :: jsnum
  taxAmount :: jsnum
  taxPercent :: jsnum
  taxCategoryId :: "jsstring option"
  taxSchemeId :: "jsstring option"
  taxExemptionReason :: "jsstring option"

record UblLine =
  id' :: jsstring
  description :: jsstring
  quantity :: jsnum
  unitCode :: jsstring
  unitPrice :: jsnum
  lineExtensionAmount :: jsnum
  taxPercent :: "jsnum option"
  taxAmount :: "jsnum option"
  taxCategoryId :: "jsstring option"
  taxSchemeId :: "jsstring option"
  taxSubtotals :: "UblTaxSubtotal list option"
  allowanceCharges :: "UblAllowanceCharge list option"
  discountAmount :: "jsnum option"
  chargeAmount :: "jsnum option"
  itemName :: "jsstring option"
  sellersItemId :: "jsstring option"
  buyersItemId :: "jsstring option"

record UblMonetaryTotal =
  lineExtensionAmount :: jsnum
  taxExclusiveAmount :: jsnum
  taxInclusiveAmount :: jsnum
  allowanceTotalAmount :: "jsnum option"
  chargeTotalAmount :: "jsnum option"
  prepaidAmount :: "jsnum option"
  payableRoundingAmount :: "jsnum option"
  payableAmount :: jsnum

record UblPaymentMeans =
  code :: jsstring
  codeName :: "jsstring option"
  paymentId :: "jsstring option"
  iban :: "jsstring option"
  bic :: "jsstring option"
  accountName :: "jsstring option"

record UblInvoicePeriod =
  startDate :: "jsstring option"
  endDate :: "jsstring option"
  descriptionCode :: "jsstring option"

record UblAttachment =
  id' :: jsstring
  filename :: "jsstring option"
  mimeCode :: "jsstring option"
  description :: "jsstring option"
  base64Content :: jsstring

record UblDelivery =
  actualDeliveryDate :: "jsstring option"
  address :: "UblAddress option"

datatype DocumentType = Invoice | CreditNote

text \<open>
  \<open>UblInvoice\<close>. The type of the field \<open>attachments\<close> is a parameter: the raw echo of
  the normalizer is the same object with the sanitized attachments in that field.
\<close>

record 'a UblInvoiceOf =
  documentType :: DocumentType
  customizationId :: "jsstring option"
  profileId :: "jsstring option"
  id' :: jsstring
  invoiceTypeCode :: "jsstring option"
  issueDate :: jsstring
  dueDate :: "jsstring option"
  taxPointDate :: "jsstring option"
  currency :: jsstring
  buyerReference :: "jsstring option"
  orderReference :: "jsstring option"
  salesOrderId :: "jsstring option"
  contractReference :: "jsstring option"
  projectReference :: "jsstring option"
  seller :: UblParty
  buyer :: UblParty
  delivery :: "UblDelivery option"
  lines :: "UblLine list"
  taxSubtotals :: "UblTaxSubtotal list"
  monetaryTotal :: UblMonetaryTotal
  paymentMeans :: "UblPaymentMeans option"
  paymentMeansList :: "UblPaymentMeans list option"
  invoicePeriod :: "UblInvoicePeriod option"
  note' :: "jsstring option"
  paymentTermsNote :: "jsstring option"
  attachments :: 'a
  allowanceCharges :: "UblAllowanceCharge list option"

type_synonym UblInvoice = "UblAttachment list option UblInvoiceOf"

section \<open>Section parsers\<close>

text \<open>\<open>xs[0]\<close>: undefined on an empty list.\<close>

definition first :: "'a list \<Rightarrow> 'a option" where
  "first xs = (case xs of [] \<Rightarrow> None | x # _ \<Rightarrow> Some x)"

definition parseAddressFromElement :: "element option \<Rightarrow> UblAddress option" where
  "parseAddressFromElement addressEl =
     (case addressEl of
        None \<Rightarrow> None
      | Some a \<Rightarrow>
          Some \<lparr> street = cbcText a (str ''StreetName''),
                 additionalStreet = orUndefined (cbcText a (str ''AdditionalStreetName'')),
                 city = cbcText a (str ''CityName''),
                 postalZone = cbcText a (str ''PostalZone''),
                 countrySubentity = orUndefined (cbcText a (str ''CountrySubentity'')),
                 countryCode =
                   (case cacElement a (str ''Country'') of
                      None \<Rightarrow> []
                    | Some country \<Rightarrow> cbcText country (str ''IdentificationCode'')) \<rparr>)"

definition parseAddress :: "element \<Rightarrow> UblAddress option" where
  "parseAddress party = parseAddressFromElement (cacElement party (str ''PostalAddress''))"

definition parseTaxSchemeId :: "element option \<Rightarrow> jsstring option" where
  "parseTaxSchemeId parent =
     (case parent of
        None \<Rightarrow> None
      | Some p \<Rightarrow>
          (case cacElement p (str ''TaxScheme'') of
             None \<Rightarrow> None
           | Some taxScheme \<Rightarrow> orUndefined (cbcText taxScheme (str ''ID''))))"

definition parseContact :: "element \<Rightarrow> UblContact option" where
  "parseContact party =
     (case cacElement party (str ''Contact'') of
        None \<Rightarrow> None
      | Some c \<Rightarrow>
          (let nameText = cbcText c (str ''Name'');
               phoneText = cbcText c (str ''Telephone'');
               emailText = cbcText c (str ''ElectronicMail'')
           in if nameText = [] \<and> phoneText = [] \<and> emailText = [] then None
              else Some \<lparr> UblContact.name = orUndefined nameText,
                          phone = orUndefined phoneText,
                          email = orUndefined emailText \<rparr>))"

definition parseParty :: "element \<Rightarrow> jsstring \<Rightarrow> UblParty" where
  "parseParty root' role =
     (let wrapper = cacElement root' role;
          party = (case wrapper of None \<Rightarrow> None | Some w \<Rightarrow> cacElement w (str ''Party''))
      in case party of
           None \<Rightarrow>
             \<lparr> UblParty.name = str ''Unknown'', registrationName = None,
               companyLegalForm = None, vatId = None, UblParty.taxSchemeId = None,
               companyId = None, endpointId = None, endpointSchemeId = None,
               UblParty.address = None, contact = None \<rparr>
         | Some pa \<Rightarrow>
             (let partyName = cacElement pa (str ''PartyName'');
                  legalEntity = cacElement pa (str ''PartyLegalEntity'');
                  taxScheme = cacElement pa (str ''PartyTaxScheme'');
                  partyId = cacElement pa (str ''PartyIdentification'');
                  endpointEl = first (getElementsByTagNameNS pa CBC_NS (str ''EndpointID''))
              in \<lparr> UblParty.name =
                     (case partyName of None \<Rightarrow> [] | Some pn \<Rightarrow> cbcText pn (str ''Name'')),
                   registrationName =
                     (case legalEntity of
                        None \<Rightarrow> None
                      | Some le \<Rightarrow> orUndefined (cbcText le (str ''RegistrationName''))),
                   companyLegalForm =
                     (case legalEntity of
                        None \<Rightarrow> None
                      | Some le \<Rightarrow> orUndefined (cbcText le (str ''CompanyLegalForm''))),
                   vatId =
                     (case taxScheme of
                        None \<Rightarrow> None
                      | Some ts \<Rightarrow> orUndefined (cbcText ts (str ''CompanyID''))),
                   UblParty.taxSchemeId = parseTaxSchemeId taxScheme,
                   companyId =
                     (case legalEntity of
                        Some le \<Rightarrow> orUndefined (cbcText le (str ''CompanyID''))
                      | None \<Rightarrow>
                          (case partyId of
                             Some pid \<Rightarrow> orUndefined (cbcText pid (str ''ID''))
                           | None \<Rightarrow> None)),
                   endpointId =
                     (case endpointEl of
                        None \<Rightarrow> None
                      | Some e \<Rightarrow> orUndefined (trim (textContent e))),
                   endpointSchemeId =
                     (case endpointEl of
                        None \<Rightarrow> None
                      | Some e \<Rightarrow>
                          (case getAttribute e (str ''schemeID'') of
                             None \<Rightarrow> None
                           | Some v \<Rightarrow> orUndefined v)),
                   UblParty.address = parseAddress pa,
                   contact = parseContact pa \<rparr>))"

definition parseTaxSubtotal :: "element \<Rightarrow> UblTaxSubtotal" where
  "parseTaxSubtotal sub =
     (let cat = cacElement sub (str ''TaxCategory'')
      in \<lparr> taxableAmount = cbcNumber sub (str ''TaxableAmount''),
           UblTaxSubtotal.taxAmount = cbcNumber sub (str ''TaxAmount''),
           UblTaxSubtotal.taxPercent =
             (case cat of None \<Rightarrow> Fin 0 | Some c \<Rightarrow> cbcNumber c (str ''Percent'')),
           UblTaxSubtotal.taxCategoryId =
             (case cat of None \<Rightarrow> None | Some c \<Rightarrow> orUndefined (cbcText c (str ''ID''))),
           UblTaxSubtotal.taxSchemeId = parseTaxSchemeId cat,
           taxExemptionReason =
             (case cat of
                None \<Rightarrow> None
              | Some c \<Rightarrow> orUndefined (cbcText c (str ''TaxExemptionReason''))) \<rparr>)"

definition parseTaxSubtotalsFromTaxTotal :: "element \<Rightarrow> UblTaxSubtotal list" where
  "parseTaxSubtotalsFromTaxTotal taxTotal =
     map parseTaxSubtotal (cacDirectElements taxTotal (str ''TaxSubtotal''))"

definition parseTaxSubtotals :: "element \<Rightarrow> UblTaxSubtotal list" where
  "parseTaxSubtotals root' =
     (let taxTotals = cacDirectElements root' (str ''TaxTotal'')
      in if length taxTotals = 0 then []
         else concat (map parseTaxSubtotalsFromTaxTotal taxTotals))"

definition parseAllowanceCharge :: "element \<Rightarrow> UblAllowanceCharge" where
  "parseAllowanceCharge charge =
     (let taxCategory = cacElement charge (str ''TaxCategory'');
          indicatorRaw = toLowerCase (cbcDirectText charge (str ''ChargeIndicator''));
          indicator = (indicatorRaw = str ''true'' \<or> indicatorRaw = str ''1'')
      in \<lparr> chargeIndicator = indicator,
           amount = cbcNumber charge (str ''Amount''),
           baseAmount = cbcDirectNumber charge (str ''BaseAmount''),
           multiplierFactorNumeric = cbcDirectNumber charge (str ''MultiplierFactorNumeric''),
           reason = orUndefined (cbcText charge (str ''AllowanceChargeReason'')),
           reasonCode = orUndefined (cbcText charge (str ''AllowanceChargeReasonCode'')),
           UblAllowanceCharge.taxPercent =
             (case taxCategory of
                None \<Rightarrow> None
              | Some c \<Rightarrow> Some (cbcNumber c (str ''Percent''))),
           UblAllowanceCharge.taxCategoryId =
             (case taxCategory of
                None \<Rightarrow> None
              | Some c \<Rightarrow> orUndefined (cbcText c (str ''ID''))),
           UblAllowanceCharge.taxSchemeId = parseTaxSchemeId taxCategory \<rparr>)"

definition parseAllowanceCharges :: "element \<Rightarrow> UblAllowanceCharge list" where
  "parseAllowanceCharges parent =
     map parseAllowanceCharge (cacDirectElements parent (str ''AllowanceCharge''))"

text \<open>One line element; \<open>parseLines\<close> maps it over the line elements of the document.\<close>

definition parseLine :: "bool \<Rightarrow> element \<Rightarrow> UblLine" where
  "parseLine isCreditNote line =
     (let qtyTag = (if isCreditNote then str ''CreditedQuantity'' else str ''InvoicedQuantity'');
          item = cacElement line (str ''Item'');
          price = cacElement line (str ''Price'');
          taxCategory =
            (case item of None \<Rightarrow> None | Some i \<Rightarrow> cacElement i (str ''ClassifiedTaxCategory''));
          sellersId =
            (case item of
               None \<Rightarrow> None
             | Some i \<Rightarrow> cacElement i (str ''SellersItemIdentification''));
          buyersId =
            (case item of
               None \<Rightarrow> None
             | Some i \<Rightarrow> cacElement i (str ''BuyersItemIdentification''));
          qtyEl = first (getElementsByTagNameNS line CBC_NS qtyTag);
          lineExt = cbcNumber line (str ''LineExtensionAmount'');
          lineTaxTotal = cacDirectElement line (str ''TaxTotal'');
          lineTaxSubtotals =
            (case lineTaxTotal of None \<Rightarrow> [] | Some t \<Rightarrow> parseTaxSubtotalsFromTaxTotal t);
          taxAmountFromSubtotals =
            foldl (\<lambda>acc subtotal. js_add acc (UblTaxSubtotal.taxAmount subtotal)) (Fin 0)
              lineTaxSubtotals;
          taxAmountFromLineTotal =
            (case lineTaxTotal of
               None \<Rightarrow> None
             | Some t \<Rightarrow> cbcDirectNumber t (str ''TaxAmount''));
          pct =
            nullish
              (case first lineTaxSubtotals of
                 None \<Rightarrow> None
               | Some s \<Rightarrow> Some (UblTaxSubtotal.taxPercent s))
              (case taxCategory of
                 None \<Rightarrow> None
               | Some c \<Rightarrow> Some (cbcNumber c (str ''Percent'')));
          computedTaxAmount =
            (case pct of
               None \<Rightarrow> None
             | Some p \<Rightarrow> Some (Number_toFixed 2 (js_div_pos (js_mul lineExt p) 100)));
          charges = parseAllowanceCharges line;
          discountSum =
            foldl (\<lambda>acc charge.
                     if chargeIndicator charge then acc else js_add acc (Math_abs (amount charge)))
              (Fin 0) charges;
          chargeSum =
            foldl (\<lambda>acc charge.
                     if chargeIndicator charge then js_add acc (Math_abs (amount charge)) else acc)
              (Fin 0) charges
      in \<lparr> UblLine.id' = cbcText line (str ''ID''),
           UblLine.description =
             (case item of None \<Rightarrow> [] | Some i \<Rightarrow> cbcText i (str ''Description'')),
           quantity = cbcNumber line qtyTag,
           unitCode =
             (case qtyEl of
                None \<Rightarrow> []
              | Some q \<Rightarrow> (case getAttribute q (str ''unitCode'') of None \<Rightarrow> [] | Some v \<Rightarrow> v)),
           unitPrice =
             (case price of None \<Rightarrow> Fin 0 | Some pr \<Rightarrow> cbcNumber pr (str ''PriceAmount'')),
           UblLine.lineExtensionAmount = lineExt,
           UblLine.taxPercent = pct,
           UblLine.taxAmount =
             nullish taxAmountFromLineTotal
               (if length lineTaxSubtotals > 0 then Some taxAmountFromSubtotals
                else computedTaxAmount),
           UblLine.taxCategoryId =
             nullish
               (case first lineTaxSubtotals of
                  None \<Rightarrow> None
                | Some s \<Rightarrow> UblTaxSubtotal.taxCategoryId s)
               (case taxCategory of
                  None \<Rightarrow> None
                | Some c \<Rightarrow> orUndefined (cbcText c (str ''ID''))),
           UblLine.taxSchemeId =
             nullish
               (case first lineTaxSubtotals of
                  None \<Rightarrow> None
                | Some s \<Rightarrow> UblTaxSubtotal.taxSchemeId s)
               (parseTaxSchemeId taxCategory),
           UblLine.taxSubtotals =
             (if length lineTaxSubtotals > 0 then Some lineTaxSubtotals else None),
           UblLine.allowanceCharges = (if length charges > 0 then Some charges else None),
           discountAmount = (if js_gt discountSum (Fin 0) then Some discountSum else None),
           chargeAmount = (if js_gt chargeSum (Fin 0) then Some chargeSum else None),
           itemName =
             (case item of None \<Rightarrow> None | Some i \<Rightarrow> orUndefined (cbcText i (str ''Name''))),
           sellersItemId =
             (case sellersId of None \<Rightarrow> None | Some i \<Rightarrow> orUndefined (cbcText i (str ''ID''))),
           buyersItemId =
             (case buyersId of None \<Rightarrow> None | Some i \<Rightarrow> orUndefined (cbcText i (str ''ID''))) \<rparr>)"

definition parseLines :: "element \<Rightarrow> bool \<Rightarrow> UblLine list" where
  "parseLines root' isCreditNote =
     (let lineTag = (if isCreditNote then str ''CreditNoteLine'' else str ''InvoiceLine'')
      in map (parseLine isCreditNote) (cacElements root' lineTag))"

definition parseMonetaryTotal :: "element \<Rightarrow> UblMonetaryTotal" where
  "parseMonetaryTotal root' =
     (case cacDirectElement root' (str ''LegalMonetaryTotal'') of
        None \<Rightarrow>
          \<lparr> UblMonetaryTotal.lineExtensionAmount = Fin 0,
            taxExclusiveAmount = Fin 0,
            taxInclusiveAmount = Fin 0,
            allowanceTotalAmount = None,
            chargeTotalAmount = None,
            prepaidAmount = None,
            payableRoundingAmount = None,
            payableAmount = Fin 0 \<rparr>
      | Some totalEl \<Rightarrow>
          \<lparr> UblMonetaryTotal.lineExtensionAmount = cbcNumber totalEl (str ''LineExtensionAmount''),
            taxExclusiveAmount = cbcNumber totalEl (str ''TaxExclusiveAmount''),
            taxInclusiveAmount = cbcNumber totalEl (str ''TaxInclusiveAmount''),
            allowanceTotalAmount = numOrUndefined (cbcNumber totalEl (str ''AllowanceTotalAmount'')),
            chargeTotalAmount = numOrUndefined (cbcNumber totalEl (str ''ChargeTotalAmount'')),
            prepaidAmount = numOrUndefined (cbcNumber totalEl (str ''PrepaidAmount'')),
            payableRoundingAmount =
              numOrUndefined (cbcNumber totalEl (str ''PayableRoundingAmount'')),
            payableAmount = cbcNumber totalEl (str ''PayableAmount'') \<rparr>)"

definition parsePaymentMeansElement :: "element \<Rightarrow> UblPaymentMeans" where
  "parsePaymentMeansElement pm =
     (let account = cacElement pm (str ''PayeeFinancialAccount'');
          branch =
            (case account of
               None \<Rightarrow> None
             | Some a \<Rightarrow> cacElement a (str ''FinancialInstitutionBranch''));
          paymentMeansCodeEl = first (getElementsByTagNameNS pm CBC_NS (str ''PaymentMeansCode''))
      in \<lparr> code = cbcText pm (str ''PaymentMeansCode''),
           codeName =
             (case paymentMeansCodeEl of
                None \<Rightarrow> None
              | Some e \<Rightarrow>
                  (case getAttribute e (str ''name'') of None \<Rightarrow> None | Some v \<Rightarrow> orUndefined v)),
           paymentId = orUndefined (cbcText pm (str ''PaymentID'')),
           iban = (case account of None \<Rightarrow> None | Some a \<Rightarrow> orUndefined (cbcText a (str ''ID''))),
           bic = (case branch of None \<Rightarrow> None | Some b \<Rightarrow> orUndefined (cbcText b (str ''ID''))),
           accountName =
             (case account of
                None \<Rightarrow> None
              | Some a \<Rightarrow> orUndefined (cbcText a (str ''Name''))) \<rparr>)"

definition parsePaymentMeansList :: "element \<Rightarrow> UblPaymentMeans list option" where
  "parsePaymentMeansList root' =
     (let l = map parsePaymentMeansElement (cacElements root' (str ''PaymentMeans''))
      in if length l > 0 then Some l else None)"

definition parseInvoicePeriod :: "element \<Rightarrow> UblInvoicePeriod option" where
  "parseInvoicePeriod root' =
     (case cacElement root' (str ''InvoicePeriod'') of
        None \<Rightarrow> None
      | Some period \<Rightarrow>
          (let startText = cbcText period (str ''StartDate'');
               endText = cbcText period (str ''EndDate'')
           in if startText = [] \<and> endText = [] then None
              else Some \<lparr> startDate = orUndefined startText,
                          endDate = orUndefined endText,
                          descriptionCode =
                            orUndefined (cbcText period (str ''DescriptionCode'')) \<rparr>))"

definition parseDelivery :: "element \<Rightarrow> UblDelivery option" where
  "parseDelivery root' =
     (case cacElement root' (str ''Delivery'') of
        None \<Rightarrow> None
      | Some d \<Rightarrow>
          (let actualDate = orUndefined (cbcText d (str ''ActualDeliveryDate''));
               deliveryLocation = cacElement d (str ''DeliveryLocation'');
               addr =
                 parseAddressFromElement
                   (case deliveryLocation of
                      None \<Rightarrow> None
                    | Some l \<Rightarrow> cacElement l (str ''Address''))
           in if actualDate = None \<and> addr = None then None
              else Some \<lparr> actualDeliveryDate = actualDate, UblDelivery.address = addr \<rparr>))"

definition parsePaymentTermsNote :: "element \<Rightarrow> jsstring option" where
  "parsePaymentTermsNote root' =
     (case cacElement root' (str ''PaymentTerms'') of
        None \<Rightarrow> None
      | Some paymentTerms \<Rightarrow> orUndefined (cbcText paymentTerms (str ''Note'')))"

text \<open>
  The source walks every \<open>Note\<close> below the root and keeps those whose parent is the root;
  these are the \<open>Note\<close> children of the root, in order.
\<close>

definition parseNotes :: "element \<Rightarrow> jsstring option" where
  "parseNotes root' =
     (let notes =
            filter (\<lambda>t. t \<noteq> [])
              (map (\<lambda>el. trim (textContent el)) (childElementsByTagNs root' CBC_NS (str ''Note'')))
      in if length notes > 0 then Some (join (str [CHR 0x0A]) notes) else None)"

fun parseAttachmentsLoop :: "element list \<Rightarrow> UblAttachment list" where
  "parseAttachmentsLoop [] = []"
| "parseAttachmentsLoop (ref # refs) =
     (case cacElement ref (str ''Attachment'') of
        None \<Rightarrow> parseAttachmentsLoop refs
      | Some attachment \<Rightarrow>
          (case first (getElementsByTagNameNS attachment CBC_NS
                         (str ''EmbeddedDocumentBinaryObject'')) of
             None \<Rightarrow> parseAttachmentsLoop refs
           | Some binaryEl \<Rightarrow>
               (let content = trim (textContent binaryEl)
                in if content = [] then parseAttachmentsLoop refs
                   else \<lparr> UblAttachment.id' = cbcText ref (str ''ID''),
                          filename =
                            (case getAttribute binaryEl (str ''filename'') of
                               None \<Rightarrow> None
                             | Some v \<Rightarrow> orUndefined v),
                          mimeCode =
                            (case getAttribute binaryEl (str ''mimeCode'') of
                               None \<Rightarrow> None
                             | Some v \<Rightarrow> orUndefined v),
                          UblAttachment.description =
                            orUndefined (cbcText ref (str ''DocumentDescription'')),
                          base64Content = content \<rparr>
                        # parseAttachmentsLoop refs)))"

definition parseAttachments :: "element \<Rightarrow> UblAttachment list option" where
  "parseAttachments root' =
     (let found = parseAttachmentsLoop (cacElements root' (str ''AdditionalDocumentReference''))
      in if length found > 0 then Some found else None)"

section \<open>Main parser\<close>

text \<open>The object that \<open>parseUblInvoice\<close> returns for a root with a document type and an ID.\<close>

definition documentModel :: "element \<Rightarrow> DocumentType \<Rightarrow> jsstring \<Rightarrow> UblInvoice" where
  "documentModel root' docType idText =
     (let isCreditNote = (docType = CreditNote);
          pmList = parsePaymentMeansList root';
          orderRef = cacElement root' (str ''OrderReference'');
          contractRef = cacElement root' (str ''ContractDocumentReference'');
          projectRef = cacElement root' (str ''ProjectReference'')
      in \<lparr> documentType = docType,
           customizationId = orUndefined (cbcText root' (str ''CustomizationID'')),
           profileId = orUndefined (cbcText root' (str ''ProfileID'')),
           UblInvoiceOf.id' = idText,
           invoiceTypeCode = orUndefined (cbcText root' (str ''InvoiceTypeCode'')),
           issueDate = cbcText root' (str ''IssueDate''),
           dueDate = orUndefined (cbcText root' (str ''DueDate'')),
           taxPointDate = orUndefined (cbcText root' (str ''TaxPointDate'')),
           currency = cbcText root' (str ''DocumentCurrencyCode''),
           buyerReference = orUndefined (cbcText root' (str ''BuyerReference'')),
           orderReference =
             (case orderRef of None \<Rightarrow> None | Some r \<Rightarrow> Some (cbcText r (str ''ID''))),
           salesOrderId =
             (case orderRef of
                None \<Rightarrow> None
              | Some r \<Rightarrow> orUndefined (cbcText r (str ''SalesOrderID''))),
           contractReference =
             (case contractRef of None \<Rightarrow> None | Some r \<Rightarrow> Some (cbcText r (str ''ID''))),
           projectReference =
             (case projectRef of None \<Rightarrow> None | Some r \<Rightarrow> Some (cbcText r (str ''ID''))),
           seller = parseParty root' (str ''AccountingSupplierParty''),
           buyer = parseParty root' (str ''AccountingCustomerParty''),
           delivery = parseDelivery root',
           lines = parseLines root' isCreditNote,
           UblInvoiceOf.taxSubtotals = parseTaxSubtotals root',
           monetaryTotal = parseMonetaryTotal root',
           paymentMeans = (case pmList of None \<Rightarrow> None | Some l \<Rightarrow> first l),
           paymentMeansList = pmList,
           invoicePeriod = parseInvoicePeriod root',
           note' = parseNotes root',
           paymentTermsNote = parsePaymentTermsNote root',
           attachments = parseAttachments root',
           UblInvoiceOf.allowanceCharges = Some (parseAllowanceCharges root') \<rparr>)"

text \<open>
  The body of the \<open>try\<close> block. The XML parser is the host's: it is a parameter. Reading
  \<open>localName\<close> of a null \<open>documentElement\<close> is a TypeError.
\<close>

definition parseUblInvoice_body ::
    "(jsstring \<Rightarrow> dom_parse) \<Rightarrow> jsstring \<Rightarrow> js_error + UblInvoice option" where
  "parseUblInvoice_body parseFromString xml =
     (case parseFromString xml of
        ParserThrows e \<Rightarrow> Inl e
      | ParsedDocument doc \<Rightarrow>
          if length (getElementsByTagName doc (str ''parsererror'')) > 0 then Inr None
          else
            (case doc of
               None \<Rightarrow> Inl TypeError
             | Some root' \<Rightarrow>
                 if localName root' \<noteq> str ''Invoice'' \<and> localName root' \<noteq> str ''CreditNote''
                 then Inr None
                 else
                   (let docType =
                          (if localName root' = str ''Invoice'' then Invoice else CreditNote);
                        idText = cbcText root' (str ''ID'')
                    in if idText = [] then Inr None
                       else Inr (Some (documentModel root' docType idText)))))"

definition parseUblInvoice ::
    "(jsstring \<Rightarrow> dom_parse) \<Rightarrow> jsstring \<Rightarrow> js_error + UblInvoice option" where
  "parseUblInvoice parseFromString xml =
     try_catch (parseUblInvoice_body parseFromString xml) (Inr None)"

section \<open>The normalized DTO\<close>

record SanitizedAttachment =
  id' :: "jsstring option"
  filename :: "jsstring option"
  mime_code :: "jsstring option"
  description :: "jsstring option"
  size_bytes :: int

record SanitizedAllowanceCharge =
  charge_indicator :: bool
  amount :: "jsnum option"
  base_amount :: "jsnum option"
  multiplier_factor_numeric :: "jsnum option"
  reason :: "jsstring option"
  reason_code :: "jsstring option"
  tax_percent :: "jsnum option"
  tax_category_id :: "jsstring option"
  tax_scheme_id :: "jsstring option"

record StructuredAddress =
  line1 :: "jsstring option"
  line2 :: "jsstring option"
  city :: "jsstring option"
  state :: "jsstring option"
  postal_code :: "jsstring option"
  country :: "jsstring option"

record DtoSupplier =
  name :: "jsstring option"
  address :: "jsstring option"
  tax_id :: "jsstring option"
  iban :: "jsstring option"
  bic :: "jsstring option"

record DtoReceiver =
  name :: "jsstring option"
  address :: "jsstring option"
  tax_id :: "jsstring option"

record DtoPaymentMeans =
  code :: "jsstring option"
  code_name :: "jsstring option"
  payment_id :: "jsstring option"
  iban :: "jsstring option"
  bic :: "jsstring option"
  account_name :: "jsstring option"

record DtoDelivery =
  actual_delivery_date :: "jsstring option"
  address :: "StructuredAddress option"

record DtoPartyExtra =
  endpoint_id :: "jsstring option"
  endpoint_scheme_id :: "jsstring option"
  registration_name :: "jsstring option"
  company_legal_form :: "jsstring option"
  tax_scheme_id :: "jsstring option"
  contact_name :: "jsstring option"
  contact_phone :: "jsstring option"
  contact_email :: "jsstring option"

record InvoiceExtra =
  document_type :: DocumentType
  customization_id :: "jsstring option"
  profile_id :: "jsstring option"
  invoice_type_code :: "jsstring option"
  buyer_reference :: "jsstring option"
  order_reference_id :: "jsstring option"
  sales_order_id :: "jsstring option"
  contract_reference :: "jsstring option"
  project_reference :: "jsstring option"
  tax_point_date :: "jsstring option"
  invoice_period :: "UblInvoicePeriod option"
  note' :: "jsstring option"
  payment_means :: "DtoPaymentMeans option"
  payment_means_list :: "DtoPaymentMeans list"
  delivery :: "DtoDelivery option"
  supplier :: DtoPartyExtra
  receiver :: DtoPartyExtra
  supplier_address_structured :: "StructuredAddress option"
  receiver_address_structured :: "StructuredAddress option"
  tax_subtotals :: "UblTaxSubtotal list"
  allowance_charges :: "SanitizedAllowanceCharge list"
  attachments :: "SanitizedAttachment list"

record DtoInvoice =
  invoice_number :: "jsstring option"
  invoice_date :: "jsstring option"
  due_date :: "jsstring option"
  currency :: "jsstring option"
  subtotal :: "jsnum option"
  tax_total :: "jsnum option"
  total' :: "jsnum option"
  amount_due :: "jsnum option"
  amount_paid :: "jsnum option"
  discount_total :: "jsnum option"
  shipping_total :: "jsnum option"
  payment_terms :: "jsstring option"
  po_number :: "jsstring option"
  supplier :: DtoSupplier
  receiver :: DtoReceiver
  extra :: InvoiceExtra

record LineItemExtra =
  ubl_line_id :: "jsstring option"
  item_name :: "jsstring option"
  sellers_item_id :: "jsstring option"
  buyers_item_id :: "jsstring option"
  tax_category_id :: "jsstring option"
  tax_scheme_id :: "jsstring option"
  tax_subtotals :: "UblTaxSubtotal list"
  allowance_charges :: "SanitizedAllowanceCharge list"
  charge_amount :: "jsnum option"

record LineItem =
  description :: jsstring
  quantity :: "jsnum option"
  unit' :: "jsstring option"
  unit_price :: "jsnum option"
  amount :: "jsnum option"
  tax_amount :: "jsnum option"
  tax_rate :: "jsnum option"
  product_code :: "jsstring option"
  discount_amount :: "jsnum option"
  extra :: LineItemExtra

record Confidence =
  overall :: "jsnum option"
  fields' :: "(jsstring \<times> jsnum) list"

record InvoiceExtractionDTO =
  provider :: jsstring
  document_id :: jsstring
  invoice :: DtoInvoice
  line_items :: "LineItem list"
  confidence :: Confidence

text \<open>
  The raw echo: \<open>{...ubl, attachments: sanitizeAttachments(ubl.attachments)}\<close>. Every
  field of the document model is copied but \<open>attachments\<close>, which holds the sanitized
  records.
\<close>

type_synonym RawUblInvoice = "SanitizedAttachment list UblInvoiceOf"

record RawPayload =
  format :: jsstring
  invoice :: RawUblInvoice

text \<open>
  The host functions the package calls: the XML parser, \<open>Date.parse\<close> (\<open>None\<close> for NaN)
  and \<open>Date.prototype.toISOString\<close> on a valid time value.
\<close>

record host =
  parseFromString :: "jsstring \<Rightarrow> dom_parse"
  Date_parse :: "jsstring \<Rightarrow> int option"
  toISOString :: "int \<Rightarrow> jsstring"

section \<open>Normalization\<close>

subsection \<open>Utility helpers\<close>

definition normalizeText :: "jsstring option \<Rightarrow> jsstring option" where
  "normalizeText v =
     (case v of
        None \<Rightarrow> None
      | Some s \<Rightarrow>
          if s = [] then None
          else
            (let trimmed = trim s
             in if trimmed = [] then None
                else
                  (let upper = toUpperCase trimmed
                   in if upper = str ''NA'' \<or> upper = str ''N/A'' then None
                      else Some trimmed)))"

definition toNumberOrNull :: "jsnum option \<Rightarrow> jsnum option" where
  "toNumberOrNull v =
     (if isFinite (case v of None \<Rightarrow> NaN | Some n \<Rightarrow> n) then v else None)"

definition normalizeCurrency :: "jsstring option \<Rightarrow> jsstring option" where
  "normalizeCurrency v =
     (case v of
        None \<Rightarrow> None
      | Some s \<Rightarrow>
          if s = [] then None
          else (let trimmed = trim s in if trimmed = [] then None else Some (toUpperCase trimmed)))"

definition parseDate :: "host \<Rightarrow> jsstring option \<Rightarrow> jsstring option" where
  "parseDate h v =
     (case v of
        None \<Rightarrow> None
      | Some s \<Rightarrow>
          if s = [] then None
          else
            (let trimmed = trim s
             in if trimmed = [] then None
                else
                  (case Date_parse h trimmed of
                     None \<Rightarrow> None
                   | Some timestamp \<Rightarrow> Some (take 10 (toISOString h timestamp)))))"

subsection \<open>Address helpers\<close>

text \<open>\<open>parts.filter((part) => part && part.trim().length > 0)\<close>.\<close>

definition nonBlankParts :: "jsstring option list \<Rightarrow> jsstring list" where
  "nonBlankParts parts =
     concat (map (\<lambda>part. case part of
                            None \<Rightarrow> []
                          | Some s \<Rightarrow> if s \<noteq> [] \<and> length (trim s) > 0 then [s] else [])
               parts)"

definition addressToString :: "UblAddress option \<Rightarrow> jsstring option" where
  "addressToString a =
     (case a of
        None \<Rightarrow> None
      | Some ad \<Rightarrow>
          (let streetLine = join (str '' '') (nonBlankParts [Some (street ad), additionalStreet ad]);
               cityLine = join (str '' '') (nonBlankParts [Some (postalZone ad), Some (UblAddress.city ad)]);
               countryLine =
                 join (str '' '') (nonBlankParts [countrySubentity ad, Some (countryCode ad)]);
               ls = filter (\<lambda>l. length l > 0) [streetLine, cityLine, countryLine]
           in if length ls > 0 then Some (join (str [CHR 0x0A]) ls) else None))"

definition addressToStructured :: "UblAddress option \<Rightarrow> StructuredAddress option" where
  "addressToStructured a =
     (case a of
        None \<Rightarrow> None
      | Some ad \<Rightarrow>
          (let l1 = join (str '' '') (nonBlankParts [Some (street ad), additionalStreet ad]);
               result =
                 \<lparr> line1 = normalizeText (Some l1),
                   line2 = None,
                   StructuredAddress.city = normalizeText (Some (UblAddress.city ad)),
                   state = normalizeText (countrySubentity ad),
                   postal_code = normalizeText (Some (postalZone ad)),
                   country = normalizeText (Some (countryCode ad)) \<rparr>;
               hasValue =
                 list_ex (\<lambda>x. case x of None \<Rightarrow> False | Some s \<Rightarrow> s \<noteq> [])
                   [line1 result, line2 result, StructuredAddress.city result, state result,
                    postal_code result, country result]
           in if hasValue then Some result else None))"

subsection \<open>Attachment and charge sanitizers\<close>

definition base64ByteLength :: "jsstring \<Rightarrow> int" where
  "base64ByteLength content =
     (let sanitized = stripWhiteSpace content
      in if sanitized = [] then 0
         else
           (let paddingLength =
                  (if endsWith sanitized (str ''=='') then 2
                   else if endsWith sanitized (str ''='') then 1 else 0)
            in (int (length sanitized) * 3) div 4 - paddingLength))"

definition sanitizeAttachments :: "UblAttachment list option \<Rightarrow> SanitizedAttachment list" where
  "sanitizeAttachments atts =
     map (\<lambda>attachment.
            \<lparr> SanitizedAttachment.id' = normalizeText (Some (UblAttachment.id' attachment)),
              SanitizedAttachment.filename = normalizeText (UblAttachment.filename attachment),
              mime_code = normalizeText (mimeCode attachment),
              SanitizedAttachment.description =
                normalizeText (UblAttachment.description attachment),
              size_bytes = base64ByteLength (base64Content attachment) \<rparr>)
       (case atts of None \<Rightarrow> [] | Some l \<Rightarrow> l)"

definition sanitizeAllowanceCharges ::
    "UblAllowanceCharge list option \<Rightarrow> SanitizedAllowanceCharge list" where
  "sanitizeAllowanceCharges charges =
     map (\<lambda>charge.
            \<lparr> charge_indicator = chargeIndicator charge,
              SanitizedAllowanceCharge.amount = toNumberOrNull (Some (UblAllowanceCharge.amount charge)),
              base_amount = toNumberOrNull (baseAmount charge),
              multiplier_factor_numeric = toNumberOrNull (multiplierFactorNumeric charge),
              SanitizedAllowanceCharge.reason = normalizeText (UblAllowanceCharge.reason charge),
              reason_code = normalizeText (reasonCode charge),
              tax_percent = toNumberOrNull (UblAllowanceCharge.taxPercent charge),
              SanitizedAllowanceCharge.tax_category_id =
                normalizeText (UblAllowanceCharge.taxCategoryId charge),
              SanitizedAllowanceCharge.tax_scheme_id =
                normalizeText (UblAllowanceCharge.taxSchemeId charge) \<rparr>)
       (case charges of None \<Rightarrow> [] | Some l \<Rightarrow> l)"

definition sanitizeRawUbl :: "UblInvoice \<Rightarrow> RawUblInvoice" where
  "sanitizeRawUbl ubl =
     \<lparr> UblInvoiceOf.documentType = UblInvoiceOf.documentType ubl,
       UblInvoiceOf.customizationId = UblInvoiceOf.customizationId ubl,
       UblInvoiceOf.profileId = UblInvoiceOf.profileId ubl,
       UblInvoiceOf.id' = UblInvoiceOf.id' ubl,
       UblInvoiceOf.invoiceTypeCode = UblInvoiceOf.invoiceTypeCode ubl,
       UblInvoiceOf.issueDate = UblInvoiceOf.issueDate ubl,
       UblInvoiceOf.dueDate = UblInvoiceOf.dueDate ubl,
       UblInvoiceOf.taxPointDate = UblInvoiceOf.taxPointDate ubl,
       UblInvoiceOf.currency = UblInvoiceOf.currency ubl,
       UblInvoiceOf.buyerReference = UblInvoiceOf.buyerReference ubl,
       UblInvoiceOf.orderReference = UblInvoiceOf.orderReference ubl,
       UblInvoiceOf.salesOrderId = UblInvoiceOf.salesOrderId ubl,
       UblInvoiceOf.contractReference = UblInvoiceOf.contractReference ubl,
       UblInvoiceOf.projectReference = UblInvoiceOf.projectReference ubl,
       UblInvoiceOf.seller = UblInvoiceOf.seller ubl,
       UblInvoiceOf.buyer = UblInvoiceOf.buyer ubl,
       UblInvoiceOf.delivery = UblInvoiceOf.delivery ubl,
       UblInvoiceOf.lines = UblInvoiceOf.lines ubl,
       UblInvoiceOf.taxSubtotals = UblInvoiceOf.taxSubtotals ubl,
       UblInvoiceOf.monetaryTotal = UblInvoiceOf.monetaryTotal ubl,
       UblInvoiceOf.paymentMeans = UblInvoiceOf.paymentMeans ubl,
       UblInvoiceOf.paymentMeansList = UblInvoiceOf.paymentMeansList ubl,
       UblInvoiceOf.invoicePeriod = UblInvoiceOf.invoicePeriod ubl,
       UblInvoiceOf.note' = UblInvoiceOf.note' ubl,
       UblInvoiceOf.paymentTermsNote = UblInvoiceOf.paymentTermsNote ubl,
       UblInvoiceOf.attachments = sanitizeAttachments (UblInvoiceOf.attachments ubl),
       UblInvoiceOf.allowanceCharges = UblInvoiceOf.allowanceCharges ubl \<rparr>"

subsection \<open>Summation helpers\<close>

definition sumTaxTotal :: "UblInvoice \<Rightarrow> jsnum" where
  "sumTaxTotal ubl =
     (let subtotalSum =
            foldl (\<lambda>acc subtotal. js_add acc (UblTaxSubtotal.taxAmount subtotal)) (Fin 0)
              (UblInvoiceOf.taxSubtotals ubl)
      in if length (UblInvoiceOf.taxSubtotals ubl) > 0 \<and> isFinite subtotalSum then subtotalSum
         else js_sub (taxInclusiveAmount (UblInvoiceOf.monetaryTotal ubl))
                (taxExclusiveAmount (UblInvoiceOf.monetaryTotal ubl)))"

definition sumAllowanceChargesByType :: "UblAllowanceCharge list option \<Rightarrow> bool \<Rightarrow> jsnum" where
  "sumAllowanceChargesByType charges indicator =
     foldl (\<lambda>acc charge.
              if chargeIndicator charge \<noteq> indicator then acc
              else js_add acc (Math_abs (UblAllowanceCharge.amount charge)))
       (Fin 0) (case charges of None \<Rightarrow> [] | Some l \<Rightarrow> l)"

subsection \<open>Public API\<close>

text \<open>The callback of \<open>ubl.lines.map\<close>.\<close>

definition lineItem :: "UblLine \<Rightarrow> LineItem" where
  "lineItem line =
     \<lparr> LineItem.description =
         (case nullish (normalizeText (Some (UblLine.description line)))
                 (normalizeText (itemName line)) of
            None \<Rightarrow> str ''Line item''
          | Some d \<Rightarrow> d),
       LineItem.quantity = toNumberOrNull (Some (UblLine.quantity line)),
       unit' = normalizeText (Some (unitCode line)),
       unit_price = toNumberOrNull (Some (unitPrice line)),
       LineItem.amount = toNumberOrNull (Some (UblLine.lineExtensionAmount line)),
       tax_amount = toNumberOrNull (UblLine.taxAmount line),
       tax_rate = toNumberOrNull (UblLine.taxPercent line),
       product_code =
         nullish (normalizeText (sellersItemId line)) (normalizeText (buyersItemId line)),
       discount_amount = toNumberOrNull (discountAmount line),
       LineItem.extra =
         \<lparr> ubl_line_id = normalizeText (Some (UblLine.id' line)),
           item_name = normalizeText (itemName line),
           sellers_item_id = normalizeText (sellersItemId line),
           buyers_item_id = normalizeText (buyersItemId line),
           LineItemExtra.tax_category_id = normalizeText (UblLine.taxCategoryId line),
           LineItemExtra.tax_scheme_id = normalizeText (UblLine.taxSchemeId line),
           LineItemExtra.tax_subtotals =
             (case UblLine.taxSubtotals line of None \<Rightarrow> [] | Some l \<Rightarrow> l),
           LineItemExtra.allowance_charges =
             sanitizeAllowanceCharges (UblLine.allowanceCharges line),
           charge_amount = toNumberOrNull (chargeAmount line) \<rparr> \<rparr>"

text \<open>
  The object literal of a payment means, which the source writes out for \<open>payment_means\<close>
  and again for each entry of \<open>payment_means_list\<close>.
\<close>

definition dtoPaymentMeans :: "UblPaymentMeans \<Rightarrow> DtoPaymentMeans" where
  "dtoPaymentMeans pm =
     \<lparr> DtoPaymentMeans.code = normalizeText (Some (UblPaymentMeans.code pm)),
       code_name = normalizeText (codeName pm),
       payment_id = normalizeText (paymentId pm),
       DtoPaymentMeans.iban = normalizeText (UblPaymentMeans.iban pm),
       DtoPaymentMeans.bic = normalizeText (UblPaymentMeans.bic pm),
       account_name = normalizeText (accountName pm) \<rparr>"

text \<open>
  The object literal of \<open>extra.supplier\<close> and \<open>extra.receiver\<close>, written out for the seller
  and again for the buyer.
\<close>

definition dtoPartyExtra :: "UblParty \<Rightarrow> DtoPartyExtra" where
  "dtoPartyExtra party =
     \<lparr> endpoint_id = normalizeText (endpointId party),
       endpoint_scheme_id = normalizeText (endpointSchemeId party),
       registration_name = normalizeText (registrationName party),
       company_legal_form = normalizeText (companyLegalForm party),
       DtoPartyExtra.tax_scheme_id = normalizeText (UblParty.taxSchemeId party),
       contact_name =
         normalizeText (case contact party of None \<Rightarrow> None | Some c \<Rightarrow> UblContact.name c),
       contact_phone =
         normalizeText (case contact party of None \<Rightarrow> None | Some c \<Rightarrow> phone c),
       contact_email =
         normalizeText (case contact party of None \<Rightarrow> None | Some c \<Rightarrow> email c) \<rparr>"

text \<open>The record \<open>extracted\<close> that \<open>normalizeUblResponse\<close> builds from a parsed document.\<close>

definition extracted :: "host \<Rightarrow> UblInvoice \<Rightarrow> jsstring \<Rightarrow> InvoiceExtractionDTO" where
  "extracted h ubl documentId =
     (let mt = UblInvoiceOf.monetaryTotal ubl;
          subtotalV =
            nullish (toNumberOrNull (Some (taxExclusiveAmount mt)))
              (toNumberOrNull (Some (UblMonetaryTotal.lineExtensionAmount mt)));
          totalV =
            nullish (toNumberOrNull (Some (taxInclusiveAmount mt)))
              (toNumberOrNull (Some (payableAmount mt)));
          amountDue = toNumberOrNull (Some (payableAmount mt));
          prepaid = toNumberOrNull (prepaidAmount mt);
          amountPaid =
            nullish prepaid
              (case (totalV, amountDue) of
                 (Some t, Some d) \<Rightarrow> if js_gt t d then toNumberOrNull (Some (js_sub t d)) else None
               | _ \<Rightarrow> None);
          taxTotal = toNumberOrNull (Some (sumTaxTotal ubl));
          hasHeaderAllowanceCharges =
            (length (case UblInvoiceOf.allowanceCharges ubl of None \<Rightarrow> [] | Some l \<Rightarrow> l) > 0);
          headerDiscountTotal = sumAllowanceChargesByType (UblInvoiceOf.allowanceCharges ubl) False;
          headerChargeTotal = sumAllowanceChargesByType (UblInvoiceOf.allowanceCharges ubl) True;
          currencyV = normalizeCurrency (Some (UblInvoiceOf.currency ubl));
          paymentTerms = normalizeText (UblInvoiceOf.paymentTermsNote ubl);
          poNumber =
            nullish (normalizeText (UblInvoiceOf.orderReference ubl))
              (normalizeText (UblInvoiceOf.salesOrderId ubl));
          lineItems = map lineItem (UblInvoiceOf.lines ubl);
          supplierAddress = addressToString (UblParty.address (UblInvoiceOf.seller ubl));
          receiverAddress = addressToString (UblParty.address (UblInvoiceOf.buyer ubl));
          supplierAddressStructured = addressToStructured (UblParty.address (UblInvoiceOf.seller ubl));
          receiverAddressStructured = addressToStructured (UblParty.address (UblInvoiceOf.buyer ubl));
          attachmentMetadata = sanitizeAttachments (UblInvoiceOf.attachments ubl);
          pmList =
            (case UblInvoiceOf.paymentMeansList ubl of
               Some l \<Rightarrow>
                 if length l > 0 then l
                 else (case UblInvoiceOf.paymentMeans ubl of Some pm \<Rightarrow> [pm] | None \<Rightarrow> [])
             | None \<Rightarrow> (case UblInvoiceOf.paymentMeans ubl of Some pm \<Rightarrow> [pm] | None \<Rightarrow> []))
      in \<lparr> provider = str ''ubl_xml'',
           document_id = documentId,
           InvoiceExtractionDTO.invoice =
             \<lparr> invoice_number = normalizeText (Some (UblInvoiceOf.id' ubl)),
               invoice_date = parseDate h (Some (UblInvoiceOf.issueDate ubl)),
               due_date = parseDate h (UblInvoiceOf.dueDate ubl),
               DtoInvoice.currency = currencyV,
               subtotal = subtotalV,
               tax_total = taxTotal,
               total' = totalV,
               amount_due = amountDue,
               amount_paid = amountPaid,
               discount_total =
                 nullish (toNumberOrNull (allowanceTotalAmount mt))
                   (if hasHeaderAllowanceCharges then toNumberOrNull (Some headerDiscountTotal)
                    else None),
               shipping_total =
                 nullish (toNumberOrNull (chargeTotalAmount mt))
                   (if hasHeaderAllowanceCharges then toNumberOrNull (Some headerChargeTotal)
                    else None),
               payment_terms = paymentTerms,
               po_number = poNumber,
               DtoInvoice.supplier =
                 \<lparr> DtoSupplier.name =
                     nullish (normalizeText (Some (UblParty.name (UblInvoiceOf.seller ubl))))
                       (normalizeText (registrationName (UblInvoiceOf.seller ubl))),
                   DtoSupplier.address = supplierAddress,
                   DtoSupplier.tax_id =
                     nullish (normalizeText (vatId (UblInvoiceOf.seller ubl)))
                       (normalizeText (companyId (UblInvoiceOf.seller ubl))),
                   DtoSupplier.iban =
                     normalizeText
                       (case UblInvoiceOf.paymentMeans ubl of
                          None \<Rightarrow> None
                        | Some pm \<Rightarrow> UblPaymentMeans.iban pm),
                   DtoSupplier.bic =
                     normalizeText
                       (case UblInvoiceOf.paymentMeans ubl of
                          None \<Rightarrow> None
                        | Some pm \<Rightarrow> UblPaymentMeans.bic pm) \<rparr>,
               DtoInvoice.receiver =
                 \<lparr> DtoReceiver.name =
                     nullish (normalizeText (Some (UblParty.name (UblInvoiceOf.buyer ubl))))
                       (normalizeText (registrationName (UblInvoiceOf.buyer ubl))),
                   DtoReceiver.address = receiverAddress,
                   DtoReceiver.tax_id =
                     nullish (normalizeText (vatId (UblInvoiceOf.buyer ubl)))
                       (normalizeText (companyId (UblInvoiceOf.buyer ubl))) \<rparr>,
               DtoInvoice.extra =
                 \<lparr> document_type = UblInvoiceOf.documentType ubl,
                   customization_id = normalizeText (UblInvoiceOf.customizationId ubl),
                   profile_id = normalizeText (UblInvoiceOf.profileId ubl),
                   invoice_type_code = normalizeText (UblInvoiceOf.invoiceTypeCode ubl),
                   buyer_reference = normalizeText (UblInvoiceOf.buyerReference ubl),
                   order_reference_id = normalizeText (UblInvoiceOf.orderReference ubl),
                   sales_order_id = normalizeText (UblInvoiceOf.salesOrderId ubl),
                   contract_reference = normalizeText (UblInvoiceOf.contractReference ubl),
                   project_reference = normalizeText (UblInvoiceOf.projectReference ubl),
                   tax_point_date = parseDate h (UblInvoiceOf.taxPointDate ubl),
                   invoice_period = UblInvoiceOf.invoicePeriod ubl,
                   InvoiceExtra.note' = normalizeText (UblInvoiceOf.note' ubl),
                   payment_means =
                     (case UblInvoiceOf.paymentMeans ubl of
                        None \<Rightarrow> None
                      | Some pm \<Rightarrow> Some (dtoPaymentMeans pm)),
                   payment_means_list = map dtoPaymentMeans pmList,
                   InvoiceExtra.delivery =
                     (case UblInvoiceOf.delivery ubl of
                        None \<Rightarrow> None
                      | Some d \<Rightarrow>
                          Some \<lparr> actual_delivery_date = parseDate h (actualDeliveryDate d),
                                 DtoDelivery.address = addressToStructured (UblDelivery.address d) \<rparr>),
                   InvoiceExtra.supplier = dtoPartyExtra (UblInvoiceOf.seller ubl),
                   InvoiceExtra.receiver = dtoPartyExtra (UblInvoiceOf.buyer ubl),
                   supplier_address_structured = supplierAddressStructured,
                   receiver_address_structured = receiverAddressStructured,
                   InvoiceExtra.tax_subtotals = UblInvoiceOf.taxSubtotals ubl,
                   InvoiceExtra.allowance_charges =
                     sanitizeAllowanceCharges (UblInvoiceOf.allowanceCharges ubl),
                   InvoiceExtra.attachments = attachmentMetadata \<rparr> \<rparr>,
           line_items = lineItems,
           confidence =
             \<lparr> overall = Some (Fin 1),
               fields' =
                 [(str ''invoice_id'', Fin 1), (str ''invoice_date'', Fin 1),
                  (str ''due_date'', Fin 1), (str ''total_amount'', Fin 1),
                  (str ''supplier_name'', Fin 1)] \<rparr> \<rparr>)"

definition normalizeUblResponse ::
    "host \<Rightarrow> jsstring \<Rightarrow> jsstring \<Rightarrow> js_error + (InvoiceExtractionDTO \<times> RawPayload)" where
  "normalizeUblResponse h xml documentId =
     (case parseUblInvoice (parseFromString h) xml of
        Inl e \<Rightarrow> Inl e
      | Inr None \<Rightarrow> Inl (Error (str ''Failed to parse UBL invoice XML''))
      | Inr (Some ubl) \<Rightarrow>
          Inr (extracted h ubl documentId,
               \<lparr> format = str ''ubl_xml'', RawPayload.invoice = sanitizeRawUbl ubl \<rparr>))"

section \<open>Notions of the specification\<close>

text \<open>The element children of an element, and those of a given namespace and tag.\<close>

definition elementChildren :: "element \<Rightarrow> element list" where
  "elementChildren parent =
     concat (map (\<lambda>n. case n of ElementNode e \<Rightarrow> [e] | _ \<Rightarrow> []) (childNodes parent))"

definition directChildren :: "element \<Rightarrow> jsstring \<Rightarrow> jsstring \<Rightarrow> element list" where
  "directChildren parent namespace tag =
     filter (\<lambda>e. namespaceURI e = Some namespace \<and> localName e = tag) (elementChildren parent)"

text \<open>The sum of a list of numbers, from 0, as \<open>reduce\<close> adds them.\<close>

definition js_sum :: "jsnum list \<Rightarrow> jsnum" where
  "js_sum xs = foldl js_add (Fin 0) xs"

text \<open>
  The tax subtotals of a line element and its explicit tax amount: the \<open>TaxSubtotal\<close>
  children, and the \<open>TaxAmount\<close> child when it reads as a number, of the line's first
  \<open>TaxTotal\<close> child.
\<close>

definition explicitLineTaxAmount :: "element \<Rightarrow> jsnum option" where
  "explicitLineTaxAmount line =
     (case directChildren line CAC_NS (str ''TaxTotal'') of
        [] \<Rightarrow> None
      | taxTotal # _ \<Rightarrow>
          (case directChildren taxTotal CBC_NS (str ''TaxAmount'') of
             [] \<Rightarrow> None
           | el # _ \<Rightarrow>
               if trim (textContent el) = [] \<or> parseFloat (trim (textContent el)) = NaN then None
               else Some (parseFloat (trim (textContent el)))))"

definition lineTaxSubtotals :: "element \<Rightarrow> UblTaxSubtotal list" where
  "lineTaxSubtotals line =
     (case directChildren line CAC_NS (str ''TaxTotal'') of
        [] \<Rightarrow> []
      | taxTotal # _ \<Rightarrow> map parseTaxSubtotal (directChildren taxTotal CAC_NS (str ''TaxSubtotal'')))"

text \<open>
  Rounding to two decimal places: the whole number of hundredths nearest to the value, the
  one of larger magnitude of two, as a binary64 value. (A binary64 value of magnitude
  \<open>10^21\<close> or more is a whole number already.)
\<close>

definition nearestCents :: "rat \<Rightarrow> int" where
  "nearestCents r = (if 0 \<le> r then round (r * 100) else - round (- r * 100))"

definition roundToCents :: "jsnum \<Rightarrow> jsnum" where
  "roundToCents x =
     (case x of
        Fin r \<Rightarrow> if \<bar>r\<bar> < 10 ^ 21 then round64 (of_int (nearestCents r) / 100) else x
      | _ \<Rightarrow> x)"

text \<open>
  The resolution order of the tax amount of a line, for a given reading of the tax
  percent: (1) the explicit amount; (2) else the sum over the line's tax subtotals when
  there are any; (3) else, when there is a percent, that percentage of the line extension
  amount, rounded to two decimal places; (4) else absent.
\<close>

definition resolveTaxAmount :: "jsnum option \<Rightarrow> element \<Rightarrow> jsnum option" where
  "resolveTaxAmount percent line =
     (case explicitLineTaxAmount line of
        Some a \<Rightarrow> Some a
      | None \<Rightarrow>
          if lineTaxSubtotals line \<noteq> []
          then Some (js_sum (map UblTaxSubtotal.taxAmount (lineTaxSubtotals line)))
          else
            (case percent of
               Some p \<Rightarrow>
                 Some (roundToCents
                         (js_div_pos (js_mul (cbcNumber line (str ''LineExtensionAmount'')) p) 100))
             | None \<Rightarrow> None))"

text \<open>
  The tax percent as the parser has it: the percent of the first tax subtotal of the line;
  else, when the item has a classified tax category, the number read from the category's
  \<open>Percent\<close>, which is 0 when that element is missing or is not a number.
\<close>

definition lineTaxPercent :: "element \<Rightarrow> jsnum option" where
  "lineTaxPercent line =
     (case lineTaxSubtotals line of
        s # _ \<Rightarrow> Some (UblTaxSubtotal.taxPercent s)
      | [] \<Rightarrow>
          (case cacElement line (str ''Item'') of
             None \<Rightarrow> None
           | Some item \<Rightarrow>
               (case cacElement item (str ''ClassifiedTaxCategory'') of
                  None \<Rightarrow> None
                | Some c \<Rightarrow> Some (cbcNumber c (str ''Percent'')))))"

definition resolvedTaxAmount :: "element \<Rightarrow> jsnum option" where
  "resolvedTaxAmount line = resolveTaxAmount (lineTaxPercent line) line"

text \<open>
  Following the specification's words: a percent is determinable from the first tax
  subtotal of the line, else from the \<open>Percent\<close> of the item's classified tax category; a
  category without a \<open>Percent\<close> element determines none.
\<close>

definition claimedLineTaxPercent :: "element \<Rightarrow> jsnum option" where
  "claimedLineTaxPercent line =
     (case lineTaxSubtotals line of
        s # _ \<Rightarrow> Some (UblTaxSubtotal.taxPercent s)
      | [] \<Rightarrow>
          (case cacElement line (str ''Item'') of
             None \<Rightarrow> None
           | Some item \<Rightarrow>
               (case cacElement item (str ''ClassifiedTaxCategory'') of
                  None \<Rightarrow> None
                | Some c \<Rightarrow>
                    (case getElementsByTagNameNS c CBC_NS (str ''Percent'') of
                       [] \<Rightarrow> None
                     | el # _ \<Rightarrow> Some (cbcNumber c (str ''Percent''))))))"

definition claimedTaxAmount :: "element \<Rightarrow> jsnum option" where
  "claimedTaxAmount line = resolveTaxAmount (claimedLineTaxPercent line) line"

text \<open>The item of the line has a classified tax category, and that category has no \<open>Percent\<close>.\<close>

definition categoryWithoutPercent :: "element \<Rightarrow> bool" where
  "categoryWithoutPercent line =
     (case cacElement line (str ''Item'') of
        None \<Rightarrow> False
      | Some item \<Rightarrow>
          (case cacElement item (str ''ClassifiedTaxCategory'') of
             None \<Rightarrow> False
           | Some c \<Rightarrow> getElementsByTagNameNS c CBC_NS (str ''Percent'') = []))"

text \<open>
  The test of the code for a document that did not parse: the parser throws, the document
  holds an element named \<open>parsererror\<close>, or the document has no document element.
\<close>

definition parserReportsError :: "dom_parse \<Rightarrow> bool" where
  "parserReportsError outcome =
     (case outcome of
        ParserThrows e \<Rightarrow> True
      | ParsedDocument doc \<Rightarrow> doc = None \<or> getElementsByTagName doc (str ''parsererror'') \<noteq> [])"

text \<open>Following the specification's words: the root has an \<open>ID\<close> child that is not blank.\<close>

definition rootHasId :: "element \<Rightarrow> bool" where
  "rootHasId r = list_ex (\<lambda>e. trim (textContent e) \<noteq> []) (directChildren r CBC_NS (str ''ID''))"

text \<open>
  Following the specification's words: the tax total is the sum of the header tax
  subtotals when there are any and the sum is finite, and the tax-inclusive amount minus
  the tax-exclusive amount otherwise.
\<close>

definition headerTaxSum :: "UblInvoice \<Rightarrow> jsnum" where
  "headerTaxSum ubl = js_sum (map UblTaxSubtotal.taxAmount (UblInvoiceOf.taxSubtotals ubl))"

definition claimedTaxTotal :: "UblInvoice \<Rightarrow> jsnum option" where
  "claimedTaxTotal ubl =
     (if UblInvoiceOf.taxSubtotals ubl \<noteq> [] \<and> isFinite (headerTaxSum ubl) then Some (headerTaxSum ubl)
      else Some (js_sub (taxInclusiveAmount (monetaryTotal ubl))
                   (taxExclusiveAmount (monetaryTotal ubl))))"

text \<open>
  The header allowance/charges of a document, and the sum of the absolute amounts of those
  with a given indicator.
\<close>

definition headerCharges :: "UblInvoice \<Rightarrow> UblAllowanceCharge list" where
  "headerCharges ubl = (case UblInvoiceOf.allowanceCharges ubl of None \<Rightarrow> [] | Some l \<Rightarrow> l)"

definition absSumByIndicator :: "UblInvoice \<Rightarrow> bool \<Rightarrow> jsnum" where
  "absSumByIndicator ubl indicator =
     js_sum (map (\<lambda>c. Math_abs (UblAllowanceCharge.amount c))
               (filter (\<lambda>c. chargeIndicator c = indicator) (headerCharges ubl)))"

text \<open>
  Following the specification's words: the explicit total when it is present and finite;
  otherwise the sum over the header allowance/charges of that indicator when there are
  any; otherwise null.
\<close>

definition claimedTotalByIndicator :: "jsnum option \<Rightarrow> UblInvoice \<Rightarrow> bool \<Rightarrow> jsnum option" where
  "claimedTotalByIndicator explicit ubl indicator =
     (if isFinite (case explicit of None \<Rightarrow> NaN | Some n \<Rightarrow> n) then explicit
      else if headerCharges ubl \<noteq> [] then Some (absSumByIndicator ubl indicator)
      else None)"

text \<open>
  Following the specification's words: \<open>floor(L * 3 / 4) - pad\<close>, where \<open>L\<close> is the length
  of the content without whitespace and \<open>pad\<close> counts the trailing \<open>=\<close>, two at most.
\<close>

definition claimedByteLength :: "jsstring \<Rightarrow> int" where
  "claimedByteLength content =
     (let c = filter (\<lambda>u. \<not> isWhiteSpace u) content;
          pad = (if 2 \<le> length c \<and> last c = 61 \<and> last (butlast c) = 61 then 2
                 else if c \<noteq> [] \<and> last c = 61 then 1 else 0)
      in \<lfloor>(of_nat (length c) * 3 / 4 :: rat)\<rfloor> - pad)"

section \<open>Example documents\<close>

definition cbc :: "string \<Rightarrow> string \<Rightarrow> node" where
  "cbc tag txt =
     ElementNode (Element (Some CBC_NS) (Some (str ''cbc'')) (str tag) [] [TextNode (str txt)])"

definition cac :: "string \<Rightarrow> node list \<Rightarrow> node" where
  "cac tag children =
     ElementNode (Element (Some CAC_NS) (Some (str ''cac'')) (str tag) [] children)"

definition elementOf :: "node \<Rightarrow> element" where
  "elementOf n = (case n of ElementNode e \<Rightarrow> e | _ \<Rightarrow> Element None None [] [] [])"

definition invoiceRoot :: "node list \<Rightarrow> element" where
  "invoiceRoot children =
     Element (Some (str ''urn:oasis:names:specification:ubl:schema:xsd:Invoice-2'')) None
       (str ''Invoice'') [] children"

text \<open>A host whose XML parser returns the given document for every text.\<close>

definition hostOf :: "element \<Rightarrow> host" where
  "hostOf r =
     \<lparr> parseFromString = (\<lambda>xml. ParsedDocument (Some r)),
       Date_parse = (\<lambda>s. None),
       toISOString = (\<lambda>t. []) \<rparr>"

text \<open>A host whose XML parser throws.\<close>

definition throwingHost :: host where
  "throwingHost =
     \<lparr> parseFromString = (\<lambda>xml. ParserThrows (Error (str ''invalid''))),
       Date_parse = (\<lambda>s. None),
       toISOString = (\<lambda>t. []) \<rparr>"

text \<open>Scenario A: one line, no tax subtotal, 100 before tax and 121 with tax.\<close>

definition minimalInvoice :: element where
  "minimalInvoice =
     invoiceRoot
       [cbc ''ID'' ''INV-1'',
        cbc ''IssueDate'' ''2026-02-25'',
        cbc ''DocumentCurrencyCode'' ''EUR'',
        cac ''LegalMonetaryTotal''
          [cbc ''LineExtensionAmount'' ''100.00'',
           cbc ''TaxExclusiveAmount'' ''100.00'',
           cbc ''TaxInclusiveAmount'' ''121.00'',
           cbc ''PayableAmount'' ''121.00''],
        cac ''InvoiceLine''
          [cbc ''ID'' ''1'',
           cbc ''InvoicedQuantity'' ''2'',
           cbc ''LineExtensionAmount'' ''100.00'',
           cac ''Item''
             [cbc ''Name'' ''Consulting'',
              cac ''ClassifiedTaxCategory'' [cbc ''ID'' ''S'', cbc ''Percent'' ''21'']],
           cac ''Price'' [cbc ''PriceAmount'' ''50.00'']]]"

text \<open>
  A line whose explicit tax amount (20) disagrees with its subtotal (21) and with 21
  percent of its base (100).
\<close>

definition explicitTaxLine :: element where
  "explicitTaxLine =
     elementOf
       (cac ''InvoiceLine''
          [cbc ''ID'' ''1'',
           cbc ''LineExtensionAmount'' ''100.00'',
           cac ''TaxTotal''
             [cbc ''TaxAmount'' ''20.00'',
              cac ''TaxSubtotal''
                [cbc ''TaxableAmount'' ''100.00'',
                 cbc ''TaxAmount'' ''21.00'',
                 cac ''TaxCategory'' [cbc ''ID'' ''S'', cbc ''Percent'' ''21'']]]])"

text \<open>Two header tax totals with three subtotals, and a line with a tax total of its own.\<close>

definition subtotalOf :: "string \<Rightarrow> node" where
  "subtotalOf amt = cac ''TaxSubtotal'' [cbc ''TaxableAmount'' ''100'', cbc ''TaxAmount'' amt]"

definition headerTaxInvoice :: element where
  "headerTaxInvoice =
     invoiceRoot
       [cbc ''ID'' ''INV-3'',
        cac ''TaxTotal'' [cbc ''TaxAmount'' ''30'', subtotalOf ''10'', subtotalOf ''20''],
        cac ''InvoiceLine''
          [cbc ''ID'' ''1'',
           cac ''TaxTotal'' [cbc ''TaxAmount'' ''7'', subtotalOf ''7'']],
        cac ''TaxTotal'' [subtotalOf ''5'']]"

text \<open>An invoice whose root has no \<open>ID\<close> child; its line has one.\<close>

definition idOnlyInLine :: element where
  "idOnlyInLine =
     invoiceRoot
       [cbc ''IssueDate'' ''2026-02-25'',
        cac ''InvoiceLine'' [cbc ''ID'' ''1'', cbc ''LineExtensionAmount'' ''100.00'']]"

text \<open>
  Lines without a tax total: one of 0.50 at 21 percent, and one whose classified tax
  category has no \<open>Percent\<close>.
\<close>

definition halfAt21Line :: element where
  "halfAt21Line =
     elementOf
       (cac ''InvoiceLine''
          [cbc ''ID'' ''1'',
           cbc ''LineExtensionAmount'' ''0.50'',
           cac ''Item'' [cac ''ClassifiedTaxCategory'' [cbc ''ID'' ''S'', cbc ''Percent'' ''21'']]])"

definition noPercentLine :: element where
  "noPercentLine =
     elementOf
       (cac ''InvoiceLine''
          [cbc ''ID'' ''1'',
           cbc ''LineExtensionAmount'' ''100.00'',
           cac ''Item'' [cac ''ClassifiedTaxCategory'' [cbc ''ID'' ''O'']]])"

definition noPercentInvoice :: element where
  "noPercentInvoice = invoiceRoot [cbc ''ID'' ''INV-6'', ElementNode noPercentLine]"

text \<open>
  An invoice whose currency code and payment terms are written \<open>n/a\<close> and whose supplier
  has the street \<open>NA\<close>.
\<close>

definition naInvoice :: element where
  "naInvoice =
     invoiceRoot
       [cbc ''ID'' ''INV-7'',
        cbc ''DocumentCurrencyCode'' '' n/a '',
        cac ''AccountingSupplierParty''
          [cac ''Party''
             [cac ''PartyName'' [cbc ''Name'' ''Acme BV''],
              cac ''PostalAddress'' [cbc ''StreetName'' ''NA'']]],
        cac ''PaymentTerms'' [cbc ''Note'' '' n/a '']]"

text \<open>
  Invoices whose header tax subtotals are 0.1 and 0.2, and twice \<open>1e308\<close> beside the totals
  100 and 121.
\<close>

definition fractionalTaxInvoice :: element where
  "fractionalTaxInvoice =
     invoiceRoot
       [cbc ''ID'' ''INV-8'',
        cac ''TaxTotal'' [subtotalOf ''0.1'', subtotalOf ''0.2'']]"

definition overflowingTaxInvoice :: element where
  "overflowingTaxInvoice =
     invoiceRoot
       [cbc ''ID'' ''INV-9'',
        cac ''TaxTotal'' [subtotalOf ''1e308'', subtotalOf ''1e308''],
        cac ''LegalMonetaryTotal''
          [cbc ''TaxExclusiveAmount'' ''100.00'',
           cbc ''TaxInclusiveAmount'' ''121.00'',
           cbc ''PayableAmount'' ''121.00'']]"

text \<open>Invoices with two header allowances: of 0.1 and 0.2, and of \<open>1e308\<close> each.\<close>

definition allowanceOf :: "string \<Rightarrow> node" where
  "allowanceOf amt = cac ''AllowanceCharge'' [cbc ''ChargeIndicator'' ''false'', cbc ''Amount'' amt]"

definition fractionalAllowanceInvoice :: element where
  "fractionalAllowanceInvoice =
     invoiceRoot [cbc ''ID'' ''INV-10'', allowanceOf ''0.1'', allowanceOf ''0.2'']"

definition overflowingAllowanceInvoice :: element where
  "overflowingAllowanceInvoice =
     invoiceRoot [cbc ''ID'' ''INV-11'', allowanceOf ''1e308'', allowanceOf ''1e308'']"

definition htmlRoot :: element where
  "htmlRoot = Element None None (str ''html'') [] [TextNode (str ''Hi'')]"

text \<open>An invoice whose tax-inclusive amount is written \<open>Infinity\<close>.\<close>

definition infiniteTotalInvoice :: element where
  "infiniteTotalInvoice =
     invoiceRoot
       [cbc ''ID'' ''INV-2'',
        cac ''LegalMonetaryTotal''
          [cbc ''TaxExclusiveAmount'' ''100.00'',
           cbc ''TaxInclusiveAmount'' ''Infinity'',
           cbc ''PayableAmount'' ''121.00'']]"

text \<open>An invoice with a header allowance whose amount is written \<open>Infinity\<close>.\<close>

definition infiniteAllowanceInvoice :: element where
  "infiniteAllowanceInvoice =
     invoiceRoot
       [cbc ''ID'' ''INV-4'',
        cac ''AllowanceCharge'' [cbc ''ChargeIndicator'' ''false'', cbc ''Amount'' ''Infinity'']]"

text \<open>
  An invoice whose monetary total writes 0 for the four optional amounts, with a header
  allowance of 10 and a header charge of 4.
\<close>

definition zeroMonetaryTotal :: node where
  "zeroMonetaryTotal =
     cac ''LegalMonetaryTotal''
       [cbc ''TaxExclusiveAmount'' ''100.00'',
        cbc ''TaxInclusiveAmount'' ''121.00'',
        cbc ''AllowanceTotalAmount'' ''0.00'',
        cbc ''ChargeTotalAmount'' ''0'',
        cbc ''PrepaidAmount'' ''0.0'',
        cbc ''PayableRoundingAmount'' ''0'',
        cbc ''PayableAmount'' ''100.00'']"

definition zeroTotalsInvoice :: element where
  "zeroTotalsInvoice =
     invoiceRoot
       [cbc ''ID'' ''INV-5'',
        cac ''AllowanceCharge'' [cbc ''ChargeIndicator'' ''false'', cbc ''Amount'' ''10.00''],
        cac ''AllowanceCharge'' [cbc ''ChargeIndicator'' ''true'', cbc ''Amount'' ''4.00''],
        zeroMonetaryTotal]"

text \<open>Allowance/charge elements with differently written indicators.\<close>

definition chargeWith :: "string \<Rightarrow> element" where
  "chargeWith indicator =
     elementOf (cac ''AllowanceCharge'' [cbc ''ChargeIndicator'' indicator, cbc ''Amount'' ''5''])"

text \<open>An attachment whose payload \<open>SGVsbG8=\<close> (five bytes) is broken over two lines.\<close>

definition helloAttachment :: UblAttachment where
  "helloAttachment =
     \<lparr> UblAttachment.id' = str ''ATT-1'',
       UblAttachment.filename = Some (str ''invoice.pdf''),
       mimeCode = Some (str ''application/pdf''),
       UblAttachment.description = None,
       base64Content = str ''SGVs'' @ [10, 32] @ str ''bG8='' \<rparr>"

section \<open>Evaluation and structure lemmas\<close>

lemma str_eq_iff [simp]: "str a = str b \<longleftrightarrow> a = b"
  by (simp add: str_def inj_map_eq_map inj_of_char)

lemma str_Nil [simp]: "str s = [] \<longleftrightarrow> s = []" "[] = str s \<longleftrightarrow> s = []"
  by (auto simp: str_def)

lemma CBC_CAC [simp]: "CBC_NS \<noteq> CAC_NS" "CAC_NS \<noteq> CBC_NS"
  by (simp_all add: CBC_NS_def CAC_NS_def)

lemmas dom_eval = cbc_def cac_def elementOf_def invoiceRoot_def getElementsByTagNameNS_def
  getElementsByTagName_def tagName_def cbcText_def cacElement_def cacElements_def
  childElementsByTagNs_def cbcDirectText_def cacDirectElement_def cacDirectElements_def first_def

lemmas text_eval = trim_def str_def isWhiteSpace_def

lemmas num_eval = cbcNumber_def cbcDirectNumber_def parseFloat_def isDigit_def digitsValue_def
  exponentPart_def pow10_def isNaN_def Let_def numOrUndefined_def

lemma childElementsLoop_filter:
  "childElementsLoop cs namespace tag =
     filter (\<lambda>e. namespaceURI e = Some namespace \<and> localName e = tag)
       (concat (map (\<lambda>n. case n of ElementNode e \<Rightarrow> [e] | _ \<Rightarrow> []) cs))"
  by (induction cs namespace tag rule: childElementsLoop.induct) auto

lemma childElementsByTagNs_direct:
  "childElementsByTagNs parent namespace tag = directChildren parent namespace tag"
  by (simp add: childElementsByTagNs_def directChildren_def elementChildren_def
      childElementsLoop_filter)

lemma foldl_js_add_map: "foldl (\<lambda>acc x. js_add acc (f x)) z xs = foldl js_add z (map f xs)"
  by (induction xs arbitrary: z) simp_all

lemma parseFloat_empty: "parseFloat [] = NaN"
  by (simp add: parseFloat_def str_def)

lemma cbcNumber_missing:
  "getElementsByTagNameNS t CBC_NS tag = [] \<Longrightarrow> cbcNumber t tag = Fin 0"
  by (simp add: cbcNumber_def cbcText_def parseFloat_empty isNaN_def)

section \<open>Rounding to binary64\<close>

text \<open>A whole number of magnitude below \<open>2^53\<close> is a binary64 value: rounding keeps it.\<close>

lemma bitlen_one: "bitlen 1 = 1"
  using bitlen_twopow_add_eq [of 0 0] by simp

lemma round_even_of_int: "round_even (of_int j) = j"
  by (simp add: round_even_def)

lemma ilog2_of_int:
  assumes "0 < n"
  shows "ilog2 (of_int n) = bitlen n - 1"
proof -
  have q: "quotient_of (of_int n) = (n, 1)"
    by simp
  have b: "0 < bitlen n"
    using assms bitlen_ge_iff_power [of 1 n] by simp
  have "(2::int) ^ nat (bitlen n - 1) \<le> n"
    using bitlen_bounds [OF assms] by simp
  then have "(of_int ((2::int) ^ nat (bitlen n - 1)) :: rat) \<le> of_int n"
    by (simp only: of_int_le_iff)
  then have "pow2 (bitlen n - 1) \<le> of_int n"
    using b by (simp add: pow2_def)
  then show ?thesis
    using q by (simp add: ilog2_def bitlen_one)
qed

lemma round64_of_int:
  assumes "\<bar>n\<bar> < 2 ^ 53"
  shows "round64 (of_int n) = Fin (of_int n)"
proof (cases "n = 0")
  case True
  then show ?thesis by (simp add: round64_def)
next
  case False
  define e where "e = bitlen \<bar>n\<bar> - 1"
  have pos: "0 < \<bar>n\<bar>" using False by simp
  have e0: "0 \<le> e"
    using pos bitlen_ge_iff_power [of 1 "\<bar>n\<bar>"] unfolding e_def by simp linarith
  have e52: "e \<le> 52"
    using assms bitlen_le_iff_power [of "\<bar>n\<bar>" 53] by (simp add: e_def)
  have il: "ilog2 \<bar>of_int n :: rat\<bar> = e"
    using ilog2_of_int [OF pos] by (simp add: e_def)
  define k where "k = nat (52 - e)"
  have u: "pow2 (e - 52) = 1 / 2 ^ k"
    using e52 by (cases "e = 52") (simp_all add: pow2_def k_def)
  have m: "round_even (of_int n * 2 ^ k) = n * 2 ^ k"
    using round_even_of_int [of "n * 2 ^ k"] by simp
  have mx: "max e (- 1022) = e"
    using e0 by simp
  show ?thesis
    using False e52 by (simp add: round64_def il mx Let_def m u)
qed

lemma round64_numeral [simp]:
  "numeral w < (2 ^ 53 :: int) \<Longrightarrow> round64 (numeral w) = Fin (numeral w)"
  using round64_of_int [of "numeral w"] by simp

lemma round64_neg_numeral [simp]:
  "numeral w < (2 ^ 53 :: int) \<Longrightarrow> round64 (- numeral w) = Fin (- numeral w)"
  using round64_of_int [of "- numeral w"] by simp

lemma round64_0 [simp]: "round64 0 = Fin 0"
  by (simp add: round64_def)

lemma round64_1 [simp]: "round64 1 = Fin 1"
  using round64_of_int [of 1] by simp

lemma pow2_powi: "pow2 k = 2 powi k"
  by (simp add: pow2_def power_int_def power_one_over inverse_eq_divide)

lemma pow2_pos: "0 < pow2 k"
  by (simp add: pow2_def)

lemma pow2_add: "pow2 (i + j) = pow2 i * pow2 j"
  by (simp add: pow2_powi power_int_add)

lemma pow2_diff: "pow2 (i - j) = pow2 i / pow2 j"
  by (simp add: pow2_powi power_int_diff)

lemma pow2_less_iff: "pow2 i < pow2 j \<longleftrightarrow> i < j"
proof
  assume "pow2 i < pow2 j"
  show "i < j"
  proof (rule ccontr)
    assume "\<not> i < j"
    then have "j \<le> i" by simp
    then have "(2::rat) powi j \<le> 2 powi i"
      by (rule power_int_increasing) simp
    with \<open>pow2 i < pow2 j\<close> show False
      by (simp add: pow2_powi)
  qed
next
  assume "i < j"
  then have "(2::rat) powi i < 2 powi j"
    by (rule power_int_strict_increasing) simp
  then show "pow2 i < pow2 j"
    by (simp add: pow2_powi)
qed

lemma bitlen_pow2_bounds:
  assumes "0 < n"
  shows "pow2 (bitlen n - 1) \<le> of_int n" and "of_int n < pow2 (bitlen n)"
proof -
  have b: "1 \<le> bitlen n"
    using assms bitlen_ge_iff_power [of 1 n] by simp
  have "(2::int) ^ nat (bitlen n - 1) \<le> n" "n < 2 ^ nat (bitlen n)"
    using bitlen_bounds [OF assms] by simp_all
  then have "(of_int ((2::int) ^ nat (bitlen n - 1)) :: rat) \<le> of_int n"
    "(of_int n :: rat) < of_int (2 ^ nat (bitlen n))"
    by (simp_all only: of_int_le_iff of_int_less_iff)
  then show "pow2 (bitlen n - 1) \<le> of_int n" and "of_int n < pow2 (bitlen n)"
    using b by (simp_all add: pow2_def)
qed

text \<open>The exponent: \<open>2^(ilog2 x) \<le> x < 2^(ilog2 x + 1)\<close> for every positive \<open>x\<close>.\<close>

lemma ilog2_bounds:
  assumes "0 < x"
  shows "pow2 (ilog2 x) \<le> x" and "x < pow2 (ilog2 x + 1)"
proof -
  obtain p q where pq: "quotient_of x = (p, q)"
    by (cases "quotient_of x")
  have q: "0 < q"
    using quotient_of_denom_pos [OF pq] .
  have x: "x = of_int p / of_int q"
    using quotient_of_div [OF pq] .
  have p: "0 < p"
    using assms q by (simp add: x zero_less_divide_iff)
  define k where "k = bitlen p - bitlen q"
  note bp = bitlen_pow2_bounds [OF p] and bq = bitlen_pow2_bounds [OF q]
  have qpos: "(0::rat) < of_int q" and ppos: "(0::rat) < of_int p"
    using p q by simp_all
  have up: "x < pow2 (k + 1)"
  proof -
    have "pow2 (k + 1) = pow2 (bitlen p) / pow2 (bitlen q - 1)"
      by (simp add: k_def pow2_diff [symmetric] algebra_simps)
    moreover have "of_int p / of_int q < pow2 (bitlen p) / pow2 (bitlen q - 1)"
      using bp(2) bq(1) qpos ppos pow2_pos [of "bitlen q - 1"]
      by (intro frac_less) simp_all
    ultimately show ?thesis by (simp add: x)
  qed
  have lo: "pow2 (k - 1) < x"
  proof -
    have "pow2 (k - 1) = pow2 (bitlen p - 1) / pow2 (bitlen q)"
      by (simp add: k_def pow2_diff [symmetric] algebra_simps)
    moreover have "pow2 (bitlen p - 1) / pow2 (bitlen q) < of_int p / of_int q"
      using bp(1) bq(2) qpos pow2_pos [of "bitlen p - 1"]
      by (intro frac_less2) simp_all
    ultimately show ?thesis by (simp add: x)
  qed
  have i: "ilog2 x = (if pow2 k \<le> x then k else k - 1)"
    by (simp add: ilog2_def pq k_def)
  show "pow2 (ilog2 x) \<le> x"
    using lo by (simp add: i)
  show "x < pow2 (ilog2 x + 1)"
    using up by (simp add: i)
qed

lemma ilog2_eqI:
  assumes "pow2 e \<le> x" and "x < pow2 (e + 1)"
  shows "ilog2 x = e"
proof -
  have x: "0 < x"
    using assms(1) pow2_pos [of e] by simp
  have "pow2 (ilog2 x) < pow2 (e + 1)" "pow2 e < pow2 (ilog2 x + 1)"
    using ilog2_bounds [OF x] assms by simp_all
  then show ?thesis
    by (simp add: pow2_less_iff)
qed

text \<open>Overflow: a value of magnitude \<open>2^1024\<close> or more rounds to an infinity.\<close>

lemma round64_overflow:
  assumes "2 ^ 1024 \<le> x"
  shows "round64 x = PosInf"
proof -
  have x: "0 < x" using assms by (simp add: order.strict_trans2 [OF _ assms])
  have "pow2 1024 \<le> x" using assms by (simp add: pow2_def)
  also have "x < pow2 (ilog2 x + 1)" using ilog2_bounds [OF x] by simp
  finally have "1024 \<le> ilog2 x" by (simp add: pow2_less_iff)
  then show ?thesis
    using x by (simp add: round64_def Let_def)
qed

lemma round_even_eqI:
  assumes "\<bar>x - of_int m\<bar> < 1 / 2"
  shows "round_even x = m"
proof (cases "of_int m \<le> x")
  case True
  then have "\<lfloor>x\<rfloor> = m"
    using assms by (intro floor_unique) (simp_all add: abs_if split: if_splits)
  then show ?thesis
    using assms True by (simp add: round_even_def Let_def abs_if split: if_splits)
next
  case False
  then have "\<lfloor>x\<rfloor> = m - 1"
    using assms by (intro floor_unique) (simp_all add: abs_if split: if_splits)
  then show ?thesis
    using assms False by (simp add: round_even_def Let_def abs_if split: if_splits)
qed

text \<open>
  Evaluation of the rounding away from the ties: with \<open>2^e \<le> |x| < 2^(e+1)\<close> in the normal
  range and \<open>m\<close> the integer nearest to \<open>x / 2^(e-52)\<close>, the result is \<open>m * 2^(e-52)\<close>.
\<close>

lemma round64_eqI:
  assumes "pow2 e \<le> \<bar>x\<bar>" and "\<bar>x\<bar> < pow2 (e + 1)" and "- 1022 \<le> e"
    and "e < 1023 \<or> (e = 1023 \<and> \<bar>m\<bar> < 2 ^ 53)"
    and "\<bar>x / pow2 (e - 52) - of_int m\<bar> < 1 / 2"
  shows "round64 x = Fin (of_int m * pow2 (e - 52))"
proof -
  have x: "x \<noteq> 0"
    using assms(1) pow2_pos [of e] by auto
  have i: "ilog2 \<bar>x\<bar> = e"
    using assms(1,2) by (rule ilog2_eqI)
  have r: "round_even (x / pow2 (e - 52)) = m"
    using assms(5) by (rule round_even_eqI)
  show ?thesis
    using x assms(3,4) by (auto simp: round64_def i Let_def r max_def)
qed

text \<open>The binary64 value of \<open>1e308\<close>; twice that value is infinite.\<close>

lemma round64_1e308: "round64 (10 ^ 308) = Fin (5010420900022432 * 2 ^ 971)"
  using round64_eqI [of 1023 "10 ^ 308" 5010420900022432]
  by (simp add: pow2_def abs_if field_simps)

lemma overflow_1e308: "js_add (round64 (10 ^ 308)) (round64 (10 ^ 308)) = PosInf"
  unfolding round64_1e308 js_add.simps
  by (rule round64_overflow) simp

text \<open>The binary64 values of some decimal fractions.\<close>

lemma round64_consts [simp]:
  "round64 (1 / 2) = Fin (1 / 2)"
  "round64 (1 / 10) = Fin (3602879701896397 / 36028797018963968)"
  "round64 (1 / 5) = Fin (3602879701896397 / 18014398509481984)"
  "round64 (11 / 100) = Fin (7926335344172073 / 72057594037927936)"
  "round64 (21 / 200) = Fin (7566047373982433 / 72057594037927936)"
  "round64 (3 / 10) = Fin (5404319552844595 / 18014398509481984)"
  by code_simp+

text \<open>
  The sum of the binary64 values of 0.1 and 0.2 is the binary64 value of
  0.30000000000000004, which is not that of 0.3.
\<close>

lemma tenth_plus_fifth:
  "js_add (Fin (3602879701896397 / 36028797018963968)) (Fin (3602879701896397 / 18014398509481984)) =
     Fin (1351079888211149 / 4503599627370496)"
  "round64 (30000000000000004 / 100000000000000000) = Fin (1351079888211149 / 4503599627370496)"
  by code_simp+

section \<open>Charge indicator\<close>

text \<open>
  C8. The charge indicator of an allowance/charge element is read from the trimmed text of
  its first \<open>ChargeIndicator\<close> child, lower-cased: it is true exactly when that text is
  \<open>true\<close> or \<open>1\<close>, and false for every other text and when there is no such child.
\<close>

theorem chargeIndicator_reading:
  "chargeIndicator (parseAllowanceCharge charge) =
     (case directChildren charge CBC_NS (str ''ChargeIndicator'') of
        [] \<Rightarrow> False
      | el # _ \<Rightarrow>
          toLowerCase (trim (textContent el)) = str ''true''
          \<or> toLowerCase (trim (textContent el)) = str ''1'')"
  by (simp add: parseAllowanceCharge_def Let_def cbcDirectText_def childElementsByTagNs_direct
      toLowerCase_def str_def split: list.splits)

theorem chargeIndicator_witness:
  "chargeIndicator (parseAllowanceCharge (chargeWith ''true''))
   \<and> chargeIndicator (parseAllowanceCharge (chargeWith '' TRUE ''))
   \<and> chargeIndicator (parseAllowanceCharge (chargeWith ''1''))
   \<and> \<not> chargeIndicator (parseAllowanceCharge (chargeWith ''false''))
   \<and> \<not> chargeIndicator (parseAllowanceCharge (chargeWith ''yes''))
   \<and> \<not> chargeIndicator (parseAllowanceCharge (chargeWith ''''))
   \<and> \<not> chargeIndicator (parseAllowanceCharge (elementOf (cac ''AllowanceCharge'' [cbc ''Amount'' ''5''])))"
  using chargeIndicator_reading [of "chargeWith ''true''"]
    chargeIndicator_reading [of "chargeWith '' TRUE ''"]
    chargeIndicator_reading [of "chargeWith ''1''"]
    chargeIndicator_reading [of "chargeWith ''false''"]
    chargeIndicator_reading [of "chargeWith ''yes''"]
    chargeIndicator_reading [of "chargeWith ''''"]
    chargeIndicator_reading [of "elementOf (cac ''AllowanceCharge'' [cbc ''Amount'' ''5''])"]
  by (simp add: chargeWith_def directChildren_def elementChildren_def dom_eval toLowerCase_def
      text_eval)

section \<open>Header tax subtotals\<close>

lemma parseTaxSubtotalsFromTaxTotal_direct:
  "parseTaxSubtotalsFromTaxTotal =
     (\<lambda>taxTotal. map parseTaxSubtotal (directChildren taxTotal CAC_NS (str ''TaxSubtotal'')))"
  by (rule ext) (simp add: parseTaxSubtotalsFromTaxTotal_def cacDirectElements_def
      childElementsByTagNs_direct)

lemma parseTaxSubtotals_direct:
  "parseTaxSubtotals r =
     concat (map (\<lambda>taxTotal. map parseTaxSubtotal (directChildren taxTotal CAC_NS (str ''TaxSubtotal'')))
               (directChildren r CAC_NS (str ''TaxTotal'')))"
  by (simp add: parseTaxSubtotals_def Let_def cacDirectElements_def childElementsByTagNs_direct
      parseTaxSubtotalsFromTaxTotal_direct)

lemma documentModel_taxSubtotals:
  "UblInvoiceOf.taxSubtotals (documentModel r t i) = parseTaxSubtotals r"
  by (simp add: documentModel_def Let_def)

lemma parseUblInvoice_Some:
  assumes "parseUblInvoice p xml = Inr (Some u)"
  shows "\<exists>r t. p xml = ParsedDocument (Some r) \<and> u = documentModel r t (cbcText r (str ''ID''))"
  using assms
  by (auto simp: parseUblInvoice_def parseUblInvoice_body_def try_catch_def Let_def
      split: dom_parse.splits option.splits if_splits)

text \<open>
  C6. The header tax subtotals are the subtotals of the \<open>TaxSubtotal\<close> children of every
  \<open>TaxTotal\<close> child of the root, in document order; this is the list of the parsed
  document, and a root without a \<open>TaxTotal\<close> child has none, whatever lies deeper.
\<close>

theorem header_taxSubtotals_flattened:
  "parseTaxSubtotals r =
     concat (map (\<lambda>taxTotal. map parseTaxSubtotal (directChildren taxTotal CAC_NS (str ''TaxSubtotal'')))
               (directChildren r CAC_NS (str ''TaxTotal'')))
   \<and> (parseUblInvoice p xml = Inr (Some u) \<and> p xml = ParsedDocument (Some r)
        \<longrightarrow> UblInvoiceOf.taxSubtotals u = parseTaxSubtotals r)
   \<and> (directChildren r CAC_NS (str ''TaxTotal'') = [] \<longrightarrow> parseTaxSubtotals r = [])"
proof (intro conjI impI)
  show "parseTaxSubtotals r =
     concat (map (\<lambda>taxTotal. map parseTaxSubtotal (directChildren taxTotal CAC_NS (str ''TaxSubtotal'')))
               (directChildren r CAC_NS (str ''TaxTotal'')))"
    by (rule parseTaxSubtotals_direct)
next
  assume a: "parseUblInvoice p xml = Inr (Some u) \<and> p xml = ParsedDocument (Some r)"
  then obtain r' t where "p xml = ParsedDocument (Some r')" "u = documentModel r' t (cbcText r' (str ''ID''))"
    using parseUblInvoice_Some by blast
  with a show "UblInvoiceOf.taxSubtotals u = parseTaxSubtotals r"
    by (simp add: documentModel_taxSubtotals)
next
  assume "directChildren r CAC_NS (str ''TaxTotal'') = []"
  then show "parseTaxSubtotals r = []"
    by (simp add: parseTaxSubtotals_direct)
qed

lemma parseUblInvoice_hostOf:
  assumes "getElementsByTagName (Some r) (str ''parsererror'') = []"
    and "localName r = str ''Invoice''"
    and "cbcText r (str ''ID'') = i" and "i \<noteq> []"
  shows "parseUblInvoice (parseFromString (hostOf r)) xml = Inr (Some (documentModel r Invoice i))"
  using assms
  by (simp add: parseUblInvoice_def parseUblInvoice_body_def try_catch_def hostOf_def Let_def)

lemma headerTaxInvoice_parsed:
  "parseUblInvoice (parseFromString (hostOf headerTaxInvoice)) [] =
     Inr (Some (documentModel headerTaxInvoice Invoice (str ''INV-3'')))"
  by (rule parseUblInvoice_hostOf)
     (simp_all add: headerTaxInvoice_def subtotalOf_def dom_eval text_eval)

theorem header_taxSubtotals_witness:
  "map UblTaxSubtotal.taxAmount (parseTaxSubtotals headerTaxInvoice) = [Fin 10, Fin 20, Fin 5]
   \<and> length (getElementsByTagNameNS headerTaxInvoice CAC_NS (str ''TaxTotal'')) = 3
   \<and> parseUblInvoice (parseFromString (hostOf headerTaxInvoice)) [] =
       Inr (Some (documentModel headerTaxInvoice Invoice (str ''INV-3'')))
   \<and> map UblTaxSubtotal.taxAmount
        (UblInvoiceOf.taxSubtotals (documentModel headerTaxInvoice Invoice (str ''INV-3''))) =
       [Fin 10, Fin 20, Fin 5]
   \<and> getElementsByTagNameNS idOnlyInLine CAC_NS (str ''TaxTotal'') = []
   \<and> parseTaxSubtotals idOnlyInLine = []"
proof -
  have d: "map (\<lambda>e. map (\<lambda>s. cbcNumber s (str ''TaxAmount'')) (directChildren e CAC_NS (str ''TaxSubtotal'')))
             (directChildren headerTaxInvoice CAC_NS (str ''TaxTotal'')) = [[Fin 10, Fin 20], [Fin 5]]"
    by (simp add: headerTaxInvoice_def subtotalOf_def directChildren_def elementChildren_def
        dom_eval text_eval num_eval)
  have t: "map UblTaxSubtotal.taxAmount (parseTaxSubtotals headerTaxInvoice) = [Fin 10, Fin 20, Fin 5]"
    using header_taxSubtotals_flattened [of headerTaxInvoice "parseFromString (hostOf headerTaxInvoice)" "[]"
        "documentModel headerTaxInvoice Invoice (str ''INV-3'')"] d
    by (simp add: map_concat comp_def parseTaxSubtotal_def Let_def)
  have n: "length (getElementsByTagNameNS headerTaxInvoice CAC_NS (str ''TaxTotal'')) = 3"
    by (simp add: headerTaxInvoice_def subtotalOf_def dom_eval)
  have u: "UblInvoiceOf.taxSubtotals (documentModel headerTaxInvoice Invoice (str ''INV-3'')) =
             parseTaxSubtotals headerTaxInvoice"
    using header_taxSubtotals_flattened [of headerTaxInvoice "parseFromString (hostOf headerTaxInvoice)" "[]"
        "documentModel headerTaxInvoice Invoice (str ''INV-3'')"] headerTaxInvoice_parsed
    by (simp add: hostOf_def)
  have e: "directChildren idOnlyInLine CAC_NS (str ''TaxTotal'') = []"
    by (simp add: idOnlyInLine_def directChildren_def elementChildren_def dom_eval)
  have e': "getElementsByTagNameNS idOnlyInLine CAC_NS (str ''TaxTotal'') = []"
    by (simp add: idOnlyInLine_def dom_eval)
  show ?thesis
    using t n u e e' headerTaxInvoice_parsed
      header_taxSubtotals_flattened [of idOnlyInLine "parseFromString (hostOf idOnlyInLine)" "[]"
        "documentModel idOnlyInLine Invoice (str ''1'')"]
    by simp
qed

section \<open>Attachments\<close>

lemma endsWith_two: "endsWith c (str ''=='') \<longleftrightarrow> 2 \<le> length c \<and> last c = 61 \<and> last (butlast c) = 61"
proof (cases c rule: rev_cases)
  case Nil
  then show ?thesis by (simp add: endsWith_def str_def)
next
  case (snoc ys y)
  then show ?thesis
    by (cases ys rule: rev_cases) (auto simp: endsWith_def str_def butlast_append)
qed

lemma endsWith_one: "endsWith c (str ''='') \<longleftrightarrow> c \<noteq> [] \<and> last c = 61"
  by (cases c rule: rev_cases) (auto simp: endsWith_def str_def)

lemma floor_three_quarters: "\<lfloor>(of_nat n * 3 / 4 :: rat)\<rfloor> = (int n * 3) div 4"
proof -
  have "(of_nat n * 3 / 4 :: rat) = of_int (int n * 3) / of_int 4"
    by simp
  then show ?thesis
    by (simp only: floor_divide_of_int_eq)
qed

lemma base64ByteLength_claimed: "base64ByteLength content = claimedByteLength content"
  by (simp add: base64ByteLength_def claimedByteLength_def stripWhiteSpace_def Let_def
      endsWith_two endsWith_one floor_three_quarters)

text \<open>
  C5. A sanitized attachment is the record of the normalized id, file name, MIME code and
  description and of the size \<open>floor(L * 3 / 4) - pad\<close>; the DTO metadata and the raw echo
  both hold these records; and attachments that agree on the four texts and on that size
  give the same records, whatever their payloads are.
\<close>

theorem sanitized_attachment_payload_free:
  "sanitizeAttachments atts =
     map (\<lambda>a. \<lparr> SanitizedAttachment.id' = normalizeText (Some (UblAttachment.id' a)),
                 SanitizedAttachment.filename = normalizeText (UblAttachment.filename a),
                 mime_code = normalizeText (mimeCode a),
                 SanitizedAttachment.description = normalizeText (UblAttachment.description a),
                 size_bytes = claimedByteLength (base64Content a) \<rparr>)
       (case atts of None \<Rightarrow> [] | Some l \<Rightarrow> l)
   \<and> InvoiceExtra.attachments (DtoInvoice.extra (InvoiceExtractionDTO.invoice (extracted h ubl d))) =
       sanitizeAttachments (UblInvoiceOf.attachments ubl)
   \<and> UblInvoiceOf.attachments (sanitizeRawUbl ubl) = sanitizeAttachments (UblInvoiceOf.attachments ubl)
   \<and> (map (\<lambda>a. (UblAttachment.id' a, UblAttachment.filename a, mimeCode a,
                  UblAttachment.description a, claimedByteLength (base64Content a))) l =
        map (\<lambda>a. (UblAttachment.id' a, UblAttachment.filename a, mimeCode a,
                  UblAttachment.description a, claimedByteLength (base64Content a))) l'
        \<longrightarrow> sanitizeAttachments (Some l) = sanitizeAttachments (Some l'))"
proof (intro conjI impI)
  show "sanitizeAttachments atts =
     map (\<lambda>a. \<lparr> SanitizedAttachment.id' = normalizeText (Some (UblAttachment.id' a)),
                 SanitizedAttachment.filename = normalizeText (UblAttachment.filename a),
                 mime_code = normalizeText (mimeCode a),
                 SanitizedAttachment.description = normalizeText (UblAttachment.description a),
                 size_bytes = claimedByteLength (base64Content a) \<rparr>)
       (case atts of None \<Rightarrow> [] | Some l \<Rightarrow> l)"
    by (simp add: sanitizeAttachments_def base64ByteLength_claimed)
next
  show "InvoiceExtra.attachments (DtoInvoice.extra (InvoiceExtractionDTO.invoice (extracted h ubl d))) =
       sanitizeAttachments (UblInvoiceOf.attachments ubl)"
    by (simp add: extracted_def Let_def)
next
  show "UblInvoiceOf.attachments (sanitizeRawUbl ubl) = sanitizeAttachments (UblInvoiceOf.attachments ubl)"
    by (simp add: sanitizeRawUbl_def)
next
  let ?f = "\<lambda>a. (UblAttachment.id' a, UblAttachment.filename a, mimeCode a,
                  UblAttachment.description a, claimedByteLength (base64Content a))"
  let ?g = "\<lambda>(i, f, m, ds, n).
              \<lparr> SanitizedAttachment.id' = normalizeText (Some i),
                SanitizedAttachment.filename = normalizeText f,
                mime_code = normalizeText m,
                SanitizedAttachment.description = normalizeText ds,
                size_bytes = n \<rparr>"
  assume eq: "map ?f l = map ?f l'"
  have s: "sanitizeAttachments (Some xs) = map ?g (map ?f xs)" for xs
    by (simp add: sanitizeAttachments_def base64ByteLength_claimed)
  show "sanitizeAttachments (Some l) = sanitizeAttachments (Some l')"
    unfolding s eq ..
qed

lemma claimedByteLength_hello: "claimedByteLength (base64Content helloAttachment) = 5"
  by (simp add: claimedByteLength_def helloAttachment_def text_eval Let_def floor_three_quarters)

lemma claimedByteLength_world: "claimedByteLength (str ''V29ybGQ='') = 5"
  by (simp add: claimedByteLength_def text_eval Let_def floor_three_quarters)

theorem sanitized_attachment_witness:
  "sanitizeAttachments (Some [helloAttachment]) =
     [\<lparr> SanitizedAttachment.id' = Some (str ''ATT-1''),
        SanitizedAttachment.filename = Some (str ''invoice.pdf''),
        mime_code = Some (str ''application/pdf''),
        SanitizedAttachment.description = None,
        size_bytes = 5 \<rparr>]
   \<and> sanitizeAttachments (Some [helloAttachment \<lparr> base64Content := str ''V29ybGQ='' \<rparr>]) =
       sanitizeAttachments (Some [helloAttachment])"
proof -
  have n: "normalizeText (Some (str ''ATT-1'')) = Some (str ''ATT-1'')"
    "normalizeText (Some (str ''invoice.pdf'')) = Some (str ''invoice.pdf'')"
    "normalizeText (Some (str ''application/pdf'')) = Some (str ''application/pdf'')"
    "normalizeText None = None"
    by (simp_all add: normalizeText_def toUpperCase_def text_eval Let_def)
  have a: "sanitizeAttachments (Some [helloAttachment]) =
     [\<lparr> SanitizedAttachment.id' = Some (str ''ATT-1''),
        SanitizedAttachment.filename = Some (str ''invoice.pdf''),
        mime_code = Some (str ''application/pdf''),
        SanitizedAttachment.description = None,
        size_bytes = 5 \<rparr>]"
    using sanitized_attachment_payload_free [of "Some [helloAttachment]"] claimedByteLength_hello n
    by (simp add: helloAttachment_def)
  have b: "sanitizeAttachments (Some [helloAttachment \<lparr> base64Content := str ''V29ybGQ='' \<rparr>]) =
       sanitizeAttachments (Some [helloAttachment])"
    using sanitized_attachment_payload_free
      [of None _ _ _ "[helloAttachment \<lparr> base64Content := str ''V29ybGQ='' \<rparr>]" "[helloAttachment]"]
      claimedByteLength_hello claimedByteLength_world
    by simp
  from a b show ?thesis by simp
qed

section \<open>The parser never throws\<close>

text \<open>
  C10. \<open>parseUblInvoice\<close> returns a document model or null for every parser and every
  text: whatever the body of its \<open>try\<close> block throws becomes the null result, and what the
  body returns is returned.
\<close>

theorem parseUblInvoice_never_throws:
  "(\<exists>r. parseUblInvoice p xml = Inr r)
   \<and> (\<forall>e. parseUblInvoice_body p xml = Inl e \<longrightarrow> parseUblInvoice p xml = Inr None)
   \<and> (\<forall>r. parseUblInvoice_body p xml = Inr r \<longrightarrow> parseUblInvoice p xml = Inr r)"
  by (cases "parseUblInvoice_body p xml") (simp_all add: parseUblInvoice_def try_catch_def)

theorem parseUblInvoice_never_throws_witness:
  "parseUblInvoice_body (parseFromString throwingHost) (str ''<bad'') = Inl (Error (str ''invalid''))
   \<and> parseUblInvoice (parseFromString throwingHost) (str ''<bad'') = Inr None
   \<and> parseUblInvoice_body (\<lambda>xml. ParsedDocument None) [] = Inl TypeError
   \<and> parseUblInvoice (\<lambda>xml. ParsedDocument None) [] = Inr None"
proof -
  have a: "parseUblInvoice_body (parseFromString throwingHost) (str ''<bad'') = Inl (Error (str ''invalid''))"
    by (simp add: parseUblInvoice_body_def throwingHost_def)
  have b: "parseUblInvoice_body (\<lambda>xml. ParsedDocument None) [] = Inl TypeError"
    by (simp add: parseUblInvoice_body_def getElementsByTagName_def)
  show ?thesis
    using a b parseUblInvoice_never_throws [of "parseFromString throwingHost" "str ''<bad''"]
      parseUblInvoice_never_throws [of "\<lambda>xml. ParsedDocument None" "[]"]
    by simp
qed

section \<open>Text normalization\<close>


lemma toUpperCase_NA:
  "toUpperCase t = str ''NA'' \<longleftrightarrow> t \<in> {str ''NA'', str ''Na'', str ''nA'', str ''na''}"
proof -
  have c: "\<And>a::nat. (if 97 \<le> a \<and> a \<le> 122 then a - 32 else a) = 78 \<longleftrightarrow> a = 78 \<or> a = 110"
    by auto
  have d: "\<And>a::nat. (if 97 \<le> a \<and> a \<le> 122 then a - 32 else a) = 65 \<longleftrightarrow> a = 65 \<or> a = 97"
    by auto
  show ?thesis
    apply (cases t; simp add: toUpperCase_def str_def)
    subgoal for a t1
      apply (cases t1; simp)
      subgoal for b t2
        using c[of a] d[of b] by (cases t2) auto
      done
    done
qed

lemma toUpperCase_N_A:
  "toUpperCase t = str ''N/A'' \<longleftrightarrow> t \<in> {str ''N/A'', str ''N/a'', str ''n/A'', str ''n/a''}"
proof -
  have c: "\<And>a::nat. (if 97 \<le> a \<and> a \<le> 122 then a - 32 else a) = 78 \<longleftrightarrow> a = 78 \<or> a = 110"
    by auto
  have d: "\<And>a::nat. (if 97 \<le> a \<and> a \<le> 122 then a - 32 else a) = 65 \<longleftrightarrow> a = 65 \<or> a = 97"
    by auto
  have e: "\<And>a::nat. (if 97 \<le> a \<and> a \<le> 122 then a - 32 else a) = 47 \<longleftrightarrow> a = 47"
    by auto
  show ?thesis
    apply (cases t; simp add: toUpperCase_def str_def)
    subgoal for a t1
      apply (cases t1; simp)
      subgoal for b t2
        apply (cases t2; simp)
        subgoal for c' t3
          using c[of a] e[of b] d[of c'] by (cases t3) auto
        done
      done
    done
qed

lemma normalizeText_rule:
  "normalizeText v =
     (case v of
        None \<Rightarrow> None
      | Some s \<Rightarrow>
          if trim s = []
             \<or> trim s \<in> {str ''NA'', str ''Na'', str ''nA'', str ''na''}
             \<or> trim s \<in> {str ''N/A'', str ''N/a'', str ''n/A'', str ''n/a''}
          then None
          else Some (trim s))"
proof (cases v)
  case None
  then show ?thesis by (simp add: normalizeText_def)
next
  case (Some s)
  have "trim [] = []" by (simp add: trim_def)
  then show ?thesis
    using Some toUpperCase_NA [of "trim s"] toUpperCase_N_A [of "trim s"]
    by (auto simp: normalizeText_def Let_def simp del: insert_iff)
qed

lemma extracted_invoice_texts:
  "invoice_number (InvoiceExtractionDTO.invoice (extracted h ubl d)) =
     normalizeText (Some (UblInvoiceOf.id' ubl))"
  "payment_terms (InvoiceExtractionDTO.invoice (extracted h ubl d)) =
     normalizeText (UblInvoiceOf.paymentTermsNote ubl)"
  "po_number (InvoiceExtractionDTO.invoice (extracted h ubl d)) =
     nullish (normalizeText (UblInvoiceOf.orderReference ubl))
       (normalizeText (UblInvoiceOf.salesOrderId ubl))"
  "DtoInvoice.currency (InvoiceExtractionDTO.invoice (extracted h ubl d)) =
     normalizeCurrency (Some (UblInvoiceOf.currency ubl))"
  "invoice_date (InvoiceExtractionDTO.invoice (extracted h ubl d)) =
     parseDate h (Some (UblInvoiceOf.issueDate ubl))"
  "due_date (InvoiceExtractionDTO.invoice (extracted h ubl d)) =
     parseDate h (UblInvoiceOf.dueDate ubl)"
  "line_items (extracted h ubl d) = map lineItem (UblInvoiceOf.lines ubl)"
  by (simp_all add: extracted_def Let_def)

lemma extracted_supplier_texts:
  "DtoInvoice.supplier (InvoiceExtractionDTO.invoice (extracted h ubl d)) =
     \<lparr> DtoSupplier.name =
         nullish (normalizeText (Some (UblParty.name (UblInvoiceOf.seller ubl))))
           (normalizeText (registrationName (UblInvoiceOf.seller ubl))),
       DtoSupplier.address = addressToString (UblParty.address (UblInvoiceOf.seller ubl)),
       DtoSupplier.tax_id =
         nullish (normalizeText (vatId (UblInvoiceOf.seller ubl)))
           (normalizeText (companyId (UblInvoiceOf.seller ubl))),
       DtoSupplier.iban =
         normalizeText
           (case UblInvoiceOf.paymentMeans ubl of
              None \<Rightarrow> None
            | Some pm \<Rightarrow> UblPaymentMeans.iban pm),
       DtoSupplier.bic =
         normalizeText
           (case UblInvoiceOf.paymentMeans ubl of
              None \<Rightarrow> None
            | Some pm \<Rightarrow> UblPaymentMeans.bic pm) \<rparr>"
  "DtoInvoice.receiver (InvoiceExtractionDTO.invoice (extracted h ubl d)) =
     \<lparr> DtoReceiver.name =
         nullish (normalizeText (Some (UblParty.name (UblInvoiceOf.buyer ubl))))
           (normalizeText (registrationName (UblInvoiceOf.buyer ubl))),
       DtoReceiver.address = addressToString (UblParty.address (UblInvoiceOf.buyer ubl)),
       DtoReceiver.tax_id =
         nullish (normalizeText (vatId (UblInvoiceOf.buyer ubl)))
           (normalizeText (companyId (UblInvoiceOf.buyer ubl))) \<rparr>"
  by (simp_all add: extracted_def Let_def)

lemma extracted_extra_texts:
  "customization_id (DtoInvoice.extra (InvoiceExtractionDTO.invoice (extracted h ubl d))) =
     normalizeText (UblInvoiceOf.customizationId ubl)"
  "profile_id (DtoInvoice.extra (InvoiceExtractionDTO.invoice (extracted h ubl d))) =
     normalizeText (UblInvoiceOf.profileId ubl)"
  "invoice_type_code (DtoInvoice.extra (InvoiceExtractionDTO.invoice (extracted h ubl d))) =
     normalizeText (UblInvoiceOf.invoiceTypeCode ubl)"
  "buyer_reference (DtoInvoice.extra (InvoiceExtractionDTO.invoice (extracted h ubl d))) =
     normalizeText (UblInvoiceOf.buyerReference ubl)"
  "order_reference_id (DtoInvoice.extra (InvoiceExtractionDTO.invoice (extracted h ubl d))) =
     normalizeText (UblInvoiceOf.orderReference ubl)"
  "sales_order_id (DtoInvoice.extra (InvoiceExtractionDTO.invoice (extracted h ubl d))) =
     normalizeText (UblInvoiceOf.salesOrderId ubl)"
  "contract_reference (DtoInvoice.extra (InvoiceExtractionDTO.invoice (extracted h ubl d))) =
     normalizeText (UblInvoiceOf.contractReference ubl)"
  "project_reference (DtoInvoice.extra (InvoiceExtractionDTO.invoice (extracted h ubl d))) =
     normalizeText (UblInvoiceOf.projectReference ubl)"
  "InvoiceExtra.note' (DtoInvoice.extra (InvoiceExtractionDTO.invoice (extracted h ubl d))) =
     normalizeText (UblInvoiceOf.note' ubl)"
  "tax_point_date (DtoInvoice.extra (InvoiceExtractionDTO.invoice (extracted h ubl d))) =
     parseDate h (UblInvoiceOf.taxPointDate ubl)"
  "invoice_period (DtoInvoice.extra (InvoiceExtractionDTO.invoice (extracted h ubl d))) =
     UblInvoiceOf.invoicePeriod ubl"
  "InvoiceExtra.tax_subtotals (DtoInvoice.extra (InvoiceExtractionDTO.invoice (extracted h ubl d))) =
     UblInvoiceOf.taxSubtotals ubl"
  by (simp_all add: extracted_def Let_def)

lemma extracted_extra_records:
  "payment_means (DtoInvoice.extra (InvoiceExtractionDTO.invoice (extracted h ubl d))) =
     map_option dtoPaymentMeans (UblInvoiceOf.paymentMeans ubl)"
  "payment_means_list (DtoInvoice.extra (InvoiceExtractionDTO.invoice (extracted h ubl d))) =
     map dtoPaymentMeans
       (case UblInvoiceOf.paymentMeansList ubl of
          Some l \<Rightarrow>
            if length l > 0 then l
            else (case UblInvoiceOf.paymentMeans ubl of Some pm \<Rightarrow> [pm] | None \<Rightarrow> [])
        | None \<Rightarrow> (case UblInvoiceOf.paymentMeans ubl of Some pm \<Rightarrow> [pm] | None \<Rightarrow> []))"
  "InvoiceExtra.supplier (DtoInvoice.extra (InvoiceExtractionDTO.invoice (extracted h ubl d))) =
     dtoPartyExtra (UblInvoiceOf.seller ubl)"
  "InvoiceExtra.receiver (DtoInvoice.extra (InvoiceExtractionDTO.invoice (extracted h ubl d))) =
     dtoPartyExtra (UblInvoiceOf.buyer ubl)"
  "supplier_address_structured (DtoInvoice.extra (InvoiceExtractionDTO.invoice (extracted h ubl d))) =
     addressToStructured (UblParty.address (UblInvoiceOf.seller ubl))"
  "receiver_address_structured (DtoInvoice.extra (InvoiceExtractionDTO.invoice (extracted h ubl d))) =
     addressToStructured (UblParty.address (UblInvoiceOf.buyer ubl))"
  "map_option DtoDelivery.address
     (InvoiceExtra.delivery (DtoInvoice.extra (InvoiceExtractionDTO.invoice (extracted h ubl d)))) =
     map_option (\<lambda>dl. addressToStructured (UblDelivery.address dl)) (UblInvoiceOf.delivery ubl)"
  "InvoiceExtra.allowance_charges (DtoInvoice.extra (InvoiceExtractionDTO.invoice (extracted h ubl d))) =
     sanitizeAllowanceCharges (UblInvoiceOf.allowanceCharges ubl)"
  "InvoiceExtra.attachments (DtoInvoice.extra (InvoiceExtractionDTO.invoice (extracted h ubl d))) =
     sanitizeAttachments (UblInvoiceOf.attachments ubl)"
  by (simp_all add: extracted_def Let_def split: option.splits)

lemma addressToStructured_texts:
  assumes "addressToStructured a = Some s"
  shows "\<exists>ad. a = Some ad
           \<and> line1 s =
               normalizeText (Some (join (str '' '') (nonBlankParts [Some (street ad), additionalStreet ad])))
           \<and> line2 s = None
           \<and> StructuredAddress.city s = normalizeText (Some (UblAddress.city ad))
           \<and> state s = normalizeText (countrySubentity ad)
           \<and> postal_code s = normalizeText (Some (postalZone ad))
           \<and> country s = normalizeText (Some (countryCode ad))"
proof (cases a)
  case None
  then show ?thesis using assms by (simp add: addressToStructured_def)
next
  case (Some ad)
  then show ?thesis
    using assms by (auto simp: addressToStructured_def Let_def split: if_splits)
qed

text \<open>
  C7, as amended. Text normalization gives absent for a missing input, for an input whose
  trimmed form is empty, and for one whose trimmed form is \<open>NA\<close> or \<open>N/A\<close> in any casing;
  otherwise it gives the trimmed input, casing unchanged. It is what the DTO holds in:
  the invoice number, the payment terms, the PO number, the names and tax ids of supplier
  and receiver, the supplier's IBAN and BIC, the reference, profile, type and note texts
  of the extra block, the fields of a payment means and of a party's extra block, the
  lines of a structured address, the attachment metadata, the texts of an
  allowance/charge, and the unit, product code, description and extra texts of a line
  item. It is not what the DTO holds in: the currency (absent only when blank; the trimmed
  code in upper case otherwise, stated here for ASCII codes), the dates (parsed), the
  address texts of supplier and receiver (joined from the parts that are not blank), and
  the invoice period and tax subtotals (echoed).
\<close>

theorem text_fields_normalized:
  "normalizeText v =
     (case v of
        None \<Rightarrow> None
      | Some s \<Rightarrow>
          if trim s = []
             \<or> trim s \<in> {str ''NA'', str ''Na'', str ''nA'', str ''na''}
             \<or> trim s \<in> {str ''N/A'', str ''N/a'', str ''n/A'', str ''n/a''}
          then None
          else Some (trim s))
   \<and> invoice_number (InvoiceExtractionDTO.invoice (extracted h ubl d)) =
       normalizeText (Some (UblInvoiceOf.id' ubl))
   \<and> payment_terms (InvoiceExtractionDTO.invoice (extracted h ubl d)) =
       normalizeText (UblInvoiceOf.paymentTermsNote ubl)
   \<and> po_number (InvoiceExtractionDTO.invoice (extracted h ubl d)) =
       nullish (normalizeText (UblInvoiceOf.orderReference ubl))
         (normalizeText (UblInvoiceOf.salesOrderId ubl))
   \<and> DtoInvoice.supplier (InvoiceExtractionDTO.invoice (extracted h ubl d)) =
       \<lparr> DtoSupplier.name =
           nullish (normalizeText (Some (UblParty.name (UblInvoiceOf.seller ubl))))
             (normalizeText (registrationName (UblInvoiceOf.seller ubl))),
         DtoSupplier.address = addressToString (UblParty.address (UblInvoiceOf.seller ubl)),
         DtoSupplier.tax_id =
           nullish (normalizeText (vatId (UblInvoiceOf.seller ubl)))
             (normalizeText (companyId (UblInvoiceOf.seller ubl))),
         DtoSupplier.iban =
           normalizeText
             (case UblInvoiceOf.paymentMeans ubl of
                None \<Rightarrow> None
              | Some pm \<Rightarrow> UblPaymentMeans.iban pm),
         DtoSupplier.bic =
           normalizeText
             (case UblInvoiceOf.paymentMeans ubl of
                None \<Rightarrow> None
              | Some pm \<Rightarrow> UblPaymentMeans.bic pm) \<rparr>
   \<and> DtoInvoice.receiver (InvoiceExtractionDTO.invoice (extracted h ubl d)) =
       \<lparr> DtoReceiver.name =
           nullish (normalizeText (Some (UblParty.name (UblInvoiceOf.buyer ubl))))
             (normalizeText (registrationName (UblInvoiceOf.buyer ubl))),
         DtoReceiver.address = addressToString (UblParty.address (UblInvoiceOf.buyer ubl)),
         DtoReceiver.tax_id =
           nullish (normalizeText (vatId (UblInvoiceOf.buyer ubl)))
             (normalizeText (companyId (UblInvoiceOf.buyer ubl))) \<rparr>
   \<and> customization_id (DtoInvoice.extra (InvoiceExtractionDTO.invoice (extracted h ubl d))) =
       normalizeText (UblInvoiceOf.customizationId ubl)
   \<and> profile_id (DtoInvoice.extra (InvoiceExtractionDTO.invoice (extracted h ubl d))) =
       normalizeText (UblInvoiceOf.profileId ubl)
   \<and> invoice_type_code (DtoInvoice.extra (InvoiceExtractionDTO.invoice (extracted h ubl d))) =
       normalizeText (UblInvoiceOf.invoiceTypeCode ubl)
   \<and> buyer_reference (DtoInvoice.extra (InvoiceExtractionDTO.invoice (extracted h ubl d))) =
       normalizeText (UblInvoiceOf.buyerReference ubl)
   \<and> order_reference_id (DtoInvoice.extra (InvoiceExtractionDTO.invoice (extracted h ubl d))) =
       normalizeText (UblInvoiceOf.orderReference ubl)
   \<and> sales_order_id (DtoInvoice.extra (InvoiceExtractionDTO.invoice (extracted h ubl d))) =
       normalizeText (UblInvoiceOf.salesOrderId ubl)
   \<and> contract_reference (DtoInvoice.extra (InvoiceExtractionDTO.invoice (extracted h ubl d))) =
       normalizeText (UblInvoiceOf.contractReference ubl)
   \<and> project_reference (DtoInvoice.extra (InvoiceExtractionDTO.invoice (extracted h ubl d))) =
       normalizeText (UblInvoiceOf.projectReference ubl)
   \<and> InvoiceExtra.note' (DtoInvoice.extra (InvoiceExtractionDTO.invoice (extracted h ubl d))) =
       normalizeText (UblInvoiceOf.note' ubl)
   \<and> payment_means (DtoInvoice.extra (InvoiceExtractionDTO.invoice (extracted h ubl d))) =
       map_option dtoPaymentMeans (UblInvoiceOf.paymentMeans ubl)
   \<and> payment_means_list (DtoInvoice.extra (InvoiceExtractionDTO.invoice (extracted h ubl d))) =
       map dtoPaymentMeans
         (case UblInvoiceOf.paymentMeansList ubl of
            Some l \<Rightarrow>
              if length l > 0 then l
              else (case UblInvoiceOf.paymentMeans ubl of Some pm \<Rightarrow> [pm] | None \<Rightarrow> [])
          | None \<Rightarrow> (case UblInvoiceOf.paymentMeans ubl of Some pm \<Rightarrow> [pm] | None \<Rightarrow> []))
   \<and> dtoPaymentMeans pm =
       \<lparr> DtoPaymentMeans.code = normalizeText (Some (UblPaymentMeans.code pm)),
         code_name = normalizeText (codeName pm),
         payment_id = normalizeText (paymentId pm),
         DtoPaymentMeans.iban = normalizeText (UblPaymentMeans.iban pm),
         DtoPaymentMeans.bic = normalizeText (UblPaymentMeans.bic pm),
         account_name = normalizeText (accountName pm) \<rparr>
   \<and> InvoiceExtra.supplier (DtoInvoice.extra (InvoiceExtractionDTO.invoice (extracted h ubl d))) =
       dtoPartyExtra (UblInvoiceOf.seller ubl)
   \<and> InvoiceExtra.receiver (DtoInvoice.extra (InvoiceExtractionDTO.invoice (extracted h ubl d))) =
       dtoPartyExtra (UblInvoiceOf.buyer ubl)
   \<and> dtoPartyExtra party =
       \<lparr> endpoint_id = normalizeText (endpointId party),
         endpoint_scheme_id = normalizeText (endpointSchemeId party),
         registration_name = normalizeText (registrationName party),
         company_legal_form = normalizeText (companyLegalForm party),
         DtoPartyExtra.tax_scheme_id = normalizeText (UblParty.taxSchemeId party),
         contact_name =
           normalizeText (case contact party of None \<Rightarrow> None | Some c \<Rightarrow> UblContact.name c),
         contact_phone =
           normalizeText (case contact party of None \<Rightarrow> None | Some c \<Rightarrow> phone c),
         contact_email =
           normalizeText (case contact party of None \<Rightarrow> None | Some c \<Rightarrow> email c) \<rparr>
   \<and> supplier_address_structured (DtoInvoice.extra (InvoiceExtractionDTO.invoice (extracted h ubl d))) =
       addressToStructured (UblParty.address (UblInvoiceOf.seller ubl))
   \<and> receiver_address_structured (DtoInvoice.extra (InvoiceExtractionDTO.invoice (extracted h ubl d))) =
       addressToStructured (UblParty.address (UblInvoiceOf.buyer ubl))
   \<and> map_option DtoDelivery.address
        (InvoiceExtra.delivery (DtoInvoice.extra (InvoiceExtractionDTO.invoice (extracted h ubl d)))) =
       map_option (\<lambda>dl. addressToStructured (UblDelivery.address dl)) (UblInvoiceOf.delivery ubl)
   \<and> (addressToStructured a = Some s \<longrightarrow>
        (\<exists>ad. a = Some ad
           \<and> line1 s =
               normalizeText (Some (join (str '' '') (nonBlankParts [Some (street ad), additionalStreet ad])))
           \<and> line2 s = None
           \<and> StructuredAddress.city s = normalizeText (Some (UblAddress.city ad))
           \<and> state s = normalizeText (countrySubentity ad)
           \<and> postal_code s = normalizeText (Some (postalZone ad))
           \<and> country s = normalizeText (Some (countryCode ad))))
   \<and> InvoiceExtra.attachments (DtoInvoice.extra (InvoiceExtractionDTO.invoice (extracted h ubl d))) =
       sanitizeAttachments (UblInvoiceOf.attachments ubl)
   \<and> map (\<lambda>r. (SanitizedAttachment.id' r, SanitizedAttachment.filename r, mime_code r,
                 SanitizedAttachment.description r)) (sanitizeAttachments atts) =
       map (\<lambda>t. (normalizeText (Some (UblAttachment.id' t)), normalizeText (UblAttachment.filename t),
                  normalizeText (mimeCode t), normalizeText (UblAttachment.description t)))
         (case atts of None \<Rightarrow> [] | Some l \<Rightarrow> l)
   \<and> InvoiceExtra.allowance_charges (DtoInvoice.extra (InvoiceExtractionDTO.invoice (extracted h ubl d))) =
       sanitizeAllowanceCharges (UblInvoiceOf.allowanceCharges ubl)
   \<and> map (\<lambda>r. (SanitizedAllowanceCharge.reason r, reason_code r,
                 SanitizedAllowanceCharge.tax_category_id r,
                 SanitizedAllowanceCharge.tax_scheme_id r)) (sanitizeAllowanceCharges cs) =
       map (\<lambda>c. (normalizeText (UblAllowanceCharge.reason c), normalizeText (reasonCode c),
                  normalizeText (UblAllowanceCharge.taxCategoryId c),
                  normalizeText (UblAllowanceCharge.taxSchemeId c)))
         (case cs of None \<Rightarrow> [] | Some l \<Rightarrow> l)
   \<and> line_items (extracted h ubl d) = map lineItem (UblInvoiceOf.lines ubl)
   \<and> LineItem.description (lineItem line) =
       (case nullish (normalizeText (Some (UblLine.description line)))
               (normalizeText (itemName line)) of
          None \<Rightarrow> str ''Line item''
        | Some t \<Rightarrow> t)
   \<and> unit' (lineItem line) = normalizeText (Some (unitCode line))
   \<and> product_code (lineItem line) =
       nullish (normalizeText (sellersItemId line)) (normalizeText (buyersItemId line))
   \<and> ubl_line_id (LineItem.extra (lineItem line)) = normalizeText (Some (UblLine.id' line))
   \<and> item_name (LineItem.extra (lineItem line)) = normalizeText (itemName line)
   \<and> sellers_item_id (LineItem.extra (lineItem line)) = normalizeText (sellersItemId line)
   \<and> buyers_item_id (LineItem.extra (lineItem line)) = normalizeText (buyersItemId line)
   \<and> LineItemExtra.tax_category_id (LineItem.extra (lineItem line)) =
       normalizeText (UblLine.taxCategoryId line)
   \<and> LineItemExtra.tax_scheme_id (LineItem.extra (lineItem line)) =
       normalizeText (UblLine.taxSchemeId line)
   \<and> LineItemExtra.allowance_charges (LineItem.extra (lineItem line)) =
       sanitizeAllowanceCharges (UblLine.allowanceCharges line)
   \<and> DtoInvoice.currency (InvoiceExtractionDTO.invoice (extracted h ubl d)) =
       normalizeCurrency (Some (UblInvoiceOf.currency ubl))
   \<and> (normalizeCurrency v = None \<longleftrightarrow> (case v of None \<Rightarrow> True | Some s \<Rightarrow> trim s = []))
   \<and> (\<forall>s. v = Some s \<and> trim s \<noteq> [] \<and> isAscii s
          \<longrightarrow> normalizeCurrency v = Some (toUpperCase (trim s)))
   \<and> invoice_date (InvoiceExtractionDTO.invoice (extracted h ubl d)) =
       parseDate h (Some (UblInvoiceOf.issueDate ubl))
   \<and> due_date (InvoiceExtractionDTO.invoice (extracted h ubl d)) =
       parseDate h (UblInvoiceOf.dueDate ubl)
   \<and> tax_point_date (DtoInvoice.extra (InvoiceExtractionDTO.invoice (extracted h ubl d))) =
       parseDate h (UblInvoiceOf.taxPointDate ubl)
   \<and> invoice_period (DtoInvoice.extra (InvoiceExtractionDTO.invoice (extracted h ubl d))) =
       UblInvoiceOf.invoicePeriod ubl
   \<and> InvoiceExtra.tax_subtotals (DtoInvoice.extra (InvoiceExtractionDTO.invoice (extracted h ubl d))) =
       UblInvoiceOf.taxSubtotals ubl"
proof -
  have t: "trim [] = []"
    by (simp add: trim_def)
  have c: "normalizeCurrency v = None \<longleftrightarrow> (case v of None \<Rightarrow> True | Some s \<Rightarrow> trim s = [])"
    "\<forall>s. v = Some s \<and> trim s \<noteq> [] \<and> isAscii s
          \<longrightarrow> normalizeCurrency v = Some (toUpperCase (trim s))"
    using t by (cases v; auto simp: normalizeCurrency_def Let_def)+
  have a: "map (\<lambda>r. (SanitizedAttachment.id' r, SanitizedAttachment.filename r, mime_code r,
                 SanitizedAttachment.description r)) (sanitizeAttachments atts) =
       map (\<lambda>t. (normalizeText (Some (UblAttachment.id' t)), normalizeText (UblAttachment.filename t),
                  normalizeText (mimeCode t), normalizeText (UblAttachment.description t)))
         (case atts of None \<Rightarrow> [] | Some l \<Rightarrow> l)"
    by (simp add: sanitizeAttachments_def comp_def)
  have g: "map (\<lambda>r. (SanitizedAllowanceCharge.reason r, reason_code r,
                 SanitizedAllowanceCharge.tax_category_id r,
                 SanitizedAllowanceCharge.tax_scheme_id r)) (sanitizeAllowanceCharges cs) =
       map (\<lambda>c. (normalizeText (UblAllowanceCharge.reason c), normalizeText (reasonCode c),
                  normalizeText (UblAllowanceCharge.taxCategoryId c),
                  normalizeText (UblAllowanceCharge.taxSchemeId c)))
         (case cs of None \<Rightarrow> [] | Some l \<Rightarrow> l)"
    by (simp add: sanitizeAllowanceCharges_def comp_def)
  have l: "LineItem.description (lineItem line) =
       (case nullish (normalizeText (Some (UblLine.description line)))
               (normalizeText (itemName line)) of
          None \<Rightarrow> str ''Line item''
        | Some t \<Rightarrow> t)"
    "unit' (lineItem line) = normalizeText (Some (unitCode line))"
    "product_code (lineItem line) =
       nullish (normalizeText (sellersItemId line)) (normalizeText (buyersItemId line))"
    "ubl_line_id (LineItem.extra (lineItem line)) = normalizeText (Some (UblLine.id' line))"
    "item_name (LineItem.extra (lineItem line)) = normalizeText (itemName line)"
    "sellers_item_id (LineItem.extra (lineItem line)) = normalizeText (sellersItemId line)"
    "buyers_item_id (LineItem.extra (lineItem line)) = normalizeText (buyersItemId line)"
    "LineItemExtra.tax_category_id (LineItem.extra (lineItem line)) =
       normalizeText (UblLine.taxCategoryId line)"
    "LineItemExtra.tax_scheme_id (LineItem.extra (lineItem line)) =
       normalizeText (UblLine.taxSchemeId line)"
    "LineItemExtra.allowance_charges (LineItem.extra (lineItem line)) =
       sanitizeAllowanceCharges (UblLine.allowanceCharges line)"
    by (simp_all add: lineItem_def)
  have s: "addressToStructured a = Some s \<longrightarrow>
        (\<exists>ad. a = Some ad
           \<and> line1 s =
               normalizeText (Some (join (str '' '') (nonBlankParts [Some (street ad), additionalStreet ad])))
           \<and> line2 s = None
           \<and> StructuredAddress.city s = normalizeText (Some (UblAddress.city ad))
           \<and> state s = normalizeText (countrySubentity ad)
           \<and> postal_code s = normalizeText (Some (postalZone ad))
           \<and> country s = normalizeText (Some (countryCode ad)))"
    using addressToStructured_texts [of a s] by blast
  show ?thesis
    apply (intro conjI)
    apply (rule normalizeText_rule)
    apply (rule extracted_invoice_texts extracted_supplier_texts extracted_extra_texts
        extracted_extra_records dtoPaymentMeans_def dtoPartyExtra_def s a g l c)+
    done
qed

lemma documentModel_texts:
  "UblInvoiceOf.id' (documentModel r t i) = i"
  "UblInvoiceOf.currency (documentModel r t i) = cbcText r (str ''DocumentCurrencyCode'')"
  "UblInvoiceOf.paymentTermsNote (documentModel r t i) = parsePaymentTermsNote r"
  "UblInvoiceOf.seller (documentModel r t i) = parseParty r (str ''AccountingSupplierParty'')"
  by (simp_all add: documentModel_def Let_def)

lemma naInvoice_parsed:
  "parseUblInvoice (parseFromString (hostOf naInvoice)) [] =
     Inr (Some (documentModel naInvoice Invoice (str ''INV-7'')))"
  by (rule parseUblInvoice_hostOf) (simp_all add: naInvoice_def dom_eval text_eval)

lemma naInvoice_model:
  "UblInvoiceOf.currency (documentModel naInvoice Invoice i) = str ''n/a''"
  "UblInvoiceOf.paymentTermsNote (documentModel naInvoice Invoice i) = Some (str ''n/a'')"
  "UblParty.name (UblInvoiceOf.seller (documentModel naInvoice Invoice i)) = str ''Acme BV''"
  "registrationName (UblInvoiceOf.seller (documentModel naInvoice Invoice i)) = None"
  "UblParty.address (UblInvoiceOf.seller (documentModel naInvoice Invoice i)) =
     Some \<lparr> street = str ''NA'', additionalStreet = None, UblAddress.city = [], postalZone = [],
            countrySubentity = None, countryCode = [] \<rparr>"
  by (simp_all add: documentModel_texts parsePaymentTermsNote_def parseParty_def parseAddress_def
      parseAddressFromElement_def orUndefined_def Let_def naInvoice_def dom_eval text_eval)

text \<open>
  For the currency and for the address text the statement fails: the invoice with the
  currency code \<open>n/a\<close> and the supplier street \<open>NA\<close> is parsed; text normalization gives
  absent for both texts, and the DTO has the currency \<open>N/A\<close> and the supplier address \<open>NA\<close>.
\<close>

theorem text_fields_counterexample:
  "parseUblInvoice (parseFromString (hostOf naInvoice)) [] =
     Inr (Some (documentModel naInvoice Invoice (str ''INV-7'')))
   \<and> UblInvoiceOf.currency (documentModel naInvoice Invoice (str ''INV-7'')) = str ''n/a''
   \<and> normalizeText (Some (str ''n/a'')) = None
   \<and> DtoInvoice.currency (InvoiceExtractionDTO.invoice
        (extracted (hostOf naInvoice) (documentModel naInvoice Invoice (str ''INV-7'')) (str ''doc''))) =
       Some (str ''N/A'')
   \<and> map_option street (UblParty.address (UblInvoiceOf.seller
        (documentModel naInvoice Invoice (str ''INV-7'')))) = Some (str ''NA'')
   \<and> normalizeText (Some (str ''NA'')) = None
   \<and> DtoSupplier.address (DtoInvoice.supplier (InvoiceExtractionDTO.invoice
        (extracted (hostOf naInvoice) (documentModel naInvoice Invoice (str ''INV-7'')) (str ''doc'')))) =
       Some (str ''NA'')"
proof -
  have n: "normalizeText (Some (str ''n/a'')) = None" "normalizeText (Some (str ''NA'')) = None"
    by (simp_all add: normalizeText_def toUpperCase_def Let_def text_eval)
  have c: "normalizeCurrency (Some (str ''n/a'')) = Some (str ''N/A'')"
    by (simp add: normalizeCurrency_def toUpperCase_def Let_def text_eval)
  have a: "addressToString
             (Some \<lparr> street = str ''NA'', additionalStreet = None, UblAddress.city = [], postalZone = [],
                     countrySubentity = None, countryCode = [] \<rparr>) = Some (str ''NA'')"
    by (simp add: addressToString_def nonBlankParts_def Let_def text_eval)
  show ?thesis
    using naInvoice_parsed n c a
    by (simp add: extracted_invoice_texts extracted_supplier_texts naInvoice_model)
qed

theorem text_fields_witness:
  "normalizeText None = None
   \<and> normalizeText (Some (str '''')) = None
   \<and> normalizeText (Some (str '' '')) = None
   \<and> normalizeText (Some (str ''NA'')) = None
   \<and> normalizeText (Some (str '' n/a '')) = None
   \<and> normalizeText (Some (str '' Acme BV '')) = Some (str ''Acme BV'')
   \<and> normalizeText (Some (str ''Nan'')) = Some (str ''Nan'')
   \<and> invoice_number (InvoiceExtractionDTO.invoice
        (extracted (hostOf naInvoice) (documentModel naInvoice Invoice (str ''INV-7'')) (str ''doc''))) =
       Some (str ''INV-7'')
   \<and> payment_terms (InvoiceExtractionDTO.invoice
        (extracted (hostOf naInvoice) (documentModel naInvoice Invoice (str ''INV-7'')) (str ''doc''))) =
       None
   \<and> DtoSupplier.name (DtoInvoice.supplier (InvoiceExtractionDTO.invoice
        (extracted (hostOf naInvoice) (documentModel naInvoice Invoice (str ''INV-7'')) (str ''doc'')))) =
       Some (str ''Acme BV'')
   \<and> addressToStructured
        (Some \<lparr> street = str ''Main St 1 '', additionalStreet = None, UblAddress.city = str '' Gent'',
                postalZone = str ''9000'', countrySubentity = Some (str ''n/a''),
                countryCode = str ''BE'' \<rparr>) =
       Some \<lparr> line1 = Some (str ''Main St 1''), line2 = None, StructuredAddress.city = Some (str ''Gent''),
              state = None, postal_code = Some (str ''9000''), country = Some (str ''BE'') \<rparr>
   \<and> normalizeText (Some (str '' Gent'')) = Some (str ''Gent'')
   \<and> normalizeCurrency (Some (str '' eur '')) = Some (str ''EUR'')"
proof -
  let ?ad = "\<lparr> street = str ''Main St 1 '', additionalStreet = None, UblAddress.city = str '' Gent'',
                postalZone = str ''9000'', countrySubentity = Some (str ''n/a''),
                countryCode = str ''BE'' \<rparr>"
  let ?s = "\<lparr> line1 = Some (str ''Main St 1''), line2 = None, StructuredAddress.city = Some (str ''Gent''),
              state = None, postal_code = Some (str ''9000''), country = Some (str ''BE'') \<rparr>"
  let ?u = "documentModel naInvoice Invoice (str ''INV-7'')"
  have h: "addressToStructured (Some ?ad) = Some ?s"
    by (simp add: addressToStructured_def nonBlankParts_def normalizeText_def toUpperCase_def Let_def
        text_eval)
  have g: "normalizeText (Some (str '' Gent'')) = Some (str ''Gent'')"
    using text_fields_normalized [where a = "Some ?ad" and s = ?s] h by simp
  have n: "normalizeText None = None"
    "normalizeText (Some (str '''')) = None"
    "normalizeText (Some (str '' '')) = None"
    "normalizeText (Some (str ''NA'')) = None"
    "normalizeText (Some (str '' n/a '')) = None"
    "normalizeText (Some (str '' Acme BV '')) = Some (str ''Acme BV'')"
    "normalizeText (Some (str ''Nan'')) = Some (str ''Nan'')"
    "normalizeText (Some (str ''INV-7'')) = Some (str ''INV-7'')"
    "normalizeText (Some (str ''n/a'')) = None"
    "normalizeText (Some (str ''Acme BV'')) = Some (str ''Acme BV'')"
    using text_fields_normalized [where v = None]
      text_fields_normalized [where v = "Some (str '''')"]
      text_fields_normalized [where v = "Some (str '' '')"]
      text_fields_normalized [where v = "Some (str ''NA'')"]
      text_fields_normalized [where v = "Some (str '' n/a '')"]
      text_fields_normalized [where v = "Some (str '' Acme BV '')"]
      text_fields_normalized [where v = "Some (str ''Nan'')"]
      text_fields_normalized [where v = "Some (str ''INV-7'')"]
      text_fields_normalized [where v = "Some (str ''n/a'')"]
      text_fields_normalized [where v = "Some (str ''Acme BV'')"]
    by (simp_all add: text_eval)
  have f: "invoice_number (InvoiceExtractionDTO.invoice (extracted (hostOf naInvoice) ?u (str ''doc''))) =
             normalizeText (Some (str ''INV-7''))"
    "payment_terms (InvoiceExtractionDTO.invoice (extracted (hostOf naInvoice) ?u (str ''doc''))) =
             normalizeText (Some (str ''n/a''))"
    "DtoSupplier.name (DtoInvoice.supplier (InvoiceExtractionDTO.invoice
        (extracted (hostOf naInvoice) ?u (str ''doc'')))) =
       nullish (normalizeText (Some (str ''Acme BV''))) (normalizeText None)"
    using text_fields_normalized [where h = "hostOf naInvoice" and ubl = ?u and d = "str ''doc''"]
    by (simp_all add: naInvoice_model documentModel_texts(1))
  have c: "normalizeCurrency (Some (str '' eur '')) = Some (str ''EUR'')"
    using text_fields_normalized [where v = "Some (str '' eur '')"]
    by (simp add: isAscii_def toUpperCase_def text_eval)
  show ?thesis
    using h g n f c by (simp add: nullish_def)
qed

section \<open>Line tax amount\<close>

text \<open>
  \<open>Number(x.toFixed(2))\<close> is the rounding to two decimal places; the number of hundredths
  it takes is at most half a hundredth away from the value, and of two such numbers it is
  the one of larger magnitude.
\<close>

lemma Number_toFixed_roundToCents: "Number_toFixed 2 x = roundToCents x"
proof (cases x)
  case (Fin r)
  consider "r = 0" | "0 < r" | "r < 0"
    by linarith
  then show ?thesis
  proof cases
    case 1
    then show ?thesis
      using Fin by (simp add: Number_toFixed_def roundToCents_def nearestCents_def)
  next
    case 2
    then show ?thesis
      using Fin by (simp add: Number_toFixed_def roundToCents_def nearestCents_def round_def)
  next
    case 3
    then show ?thesis
      using Fin by (simp add: Number_toFixed_def roundToCents_def nearestCents_def round_def)
  qed
qed (simp_all add: Number_toFixed_def roundToCents_def)

lemma nearestCents_nearest: "\<bar>of_int (nearestCents r) / 100 - r\<bar> \<le> 1 / 200"
proof (cases "0 \<le> r")
  case True
  have "\<bar>of_int (round (r * 100)) - r * 100\<bar> \<le> 1 / 2"
    by (rule of_int_round_abs_le)
  then show ?thesis
    using True by (simp add: nearestCents_def abs_if field_simps split: if_splits)
next
  case False
  have "\<bar>of_int (round (- r * 100)) - (- r * 100)\<bar> \<le> 1 / 2"
    by (rule of_int_round_abs_le)
  then show ?thesis
    using False by (simp add: nearestCents_def abs_if field_simps split: if_splits)
qed

lemma nearestCents_magnitude: "\<bar>nearestCents r\<bar> = \<lfloor>\<bar>r\<bar> * 100 + 1 / 2\<rfloor>"
proof (cases "0 \<le> r")
  case True
  then have "0 \<le> \<lfloor>r * 100 + 1 / 2\<rfloor>"
    by simp
  then show ?thesis
    using True by (simp add: nearestCents_def round_def)
next
  case False
  then have "0 \<le> \<lfloor>- (r * 100) + 1 / 2\<rfloor>"
    by simp
  then show ?thesis
    using False by (simp add: nearestCents_def round_def)
qed

lemma cacDirectElement_direct:
  "cacDirectElement parent tag =
     (case directChildren parent CAC_NS tag of [] \<Rightarrow> None | el # _ \<Rightarrow> Some el)"
  by (simp add: cacDirectElement_def childElementsByTagNs_direct)

lemma cbcDirectNumber_direct:
  "cbcDirectNumber parent tag =
     (case directChildren parent CBC_NS tag of
        [] \<Rightarrow> None
      | el # _ \<Rightarrow>
          if trim (textContent el) = [] \<or> parseFloat (trim (textContent el)) = NaN then None
          else Some (parseFloat (trim (textContent el))))"
  by (simp add: cbcDirectNumber_def cbcDirectText_def childElementsByTagNs_direct Let_def isNaN_def
      split: list.splits)

lemma parseLine_taxPercent_code:
  "UblLine.taxPercent (parseLine isCreditNote line) =
     nullish
       (case first (case cacDirectElement line (str ''TaxTotal'') of
                     None \<Rightarrow> []
                   | Some t \<Rightarrow> parseTaxSubtotalsFromTaxTotal t) of
          None \<Rightarrow> None
        | Some s \<Rightarrow> Some (UblTaxSubtotal.taxPercent s))
       (case (case cacElement line (str ''Item'') of
                None \<Rightarrow> None
              | Some i \<Rightarrow> cacElement i (str ''ClassifiedTaxCategory'')) of
          None \<Rightarrow> None
        | Some c \<Rightarrow> Some (cbcNumber c (str ''Percent'')))"
  by (simp add: parseLine_def Let_def)

lemma lineTaxSubtotals_code:
  "(case cacDirectElement line (str ''TaxTotal'') of
      None \<Rightarrow> []
    | Some t \<Rightarrow> parseTaxSubtotalsFromTaxTotal t) = lineTaxSubtotals line"
  by (cases "directChildren line CAC_NS (str ''TaxTotal'')")
     (simp_all add: lineTaxSubtotals_def cacDirectElement_direct parseTaxSubtotalsFromTaxTotal_direct)

lemma explicitLineTaxAmount_code:
  "(case cacDirectElement line (str ''TaxTotal'') of
      None \<Rightarrow> None
    | Some t \<Rightarrow> cbcDirectNumber t (str ''TaxAmount'')) = explicitLineTaxAmount line"
  by (cases "directChildren line CAC_NS (str ''TaxTotal'')")
     (simp_all add: explicitLineTaxAmount_def cacDirectElement_direct cbcDirectNumber_direct)

lemma parseLine_taxPercent: "UblLine.taxPercent (parseLine isCreditNote line) = lineTaxPercent line"
  unfolding parseLine_taxPercent_code lineTaxSubtotals_code
proof (cases "lineTaxSubtotals line")
  case Nil
  then show "nullish (case first (lineTaxSubtotals line) of
                        None \<Rightarrow> None
                      | Some s \<Rightarrow> Some (UblTaxSubtotal.taxPercent s))
               (case (case cacElement line (str ''Item'') of
                        None \<Rightarrow> None
                      | Some i \<Rightarrow> cacElement i (str ''ClassifiedTaxCategory'')) of
                  None \<Rightarrow> None
                | Some c \<Rightarrow> Some (cbcNumber c (str ''Percent''))) = lineTaxPercent line"
    by (cases "cacElement line (str ''Item'')") (simp_all add: lineTaxPercent_def nullish_def first_def)
next
  case (Cons s ss)
  then show "nullish (case first (lineTaxSubtotals line) of
                        None \<Rightarrow> None
                      | Some s \<Rightarrow> Some (UblTaxSubtotal.taxPercent s))
               (case (case cacElement line (str ''Item'') of
                        None \<Rightarrow> None
                      | Some i \<Rightarrow> cacElement i (str ''ClassifiedTaxCategory'')) of
                  None \<Rightarrow> None
                | Some c \<Rightarrow> Some (cbcNumber c (str ''Percent''))) = lineTaxPercent line"
    by (simp add: lineTaxPercent_def nullish_def first_def)
qed

lemma parseLine_lineExtensionAmount:
  "UblLine.lineExtensionAmount (parseLine isCreditNote line) = cbcNumber line (str ''LineExtensionAmount'')"
  by (simp add: parseLine_def Let_def)

lemma parseLine_taxAmount_code:
  "UblLine.taxAmount (parseLine isCreditNote line) =
     nullish
       (case cacDirectElement line (str ''TaxTotal'') of
          None \<Rightarrow> None
        | Some t \<Rightarrow> cbcDirectNumber t (str ''TaxAmount''))
       (if length (case cacDirectElement line (str ''TaxTotal'') of
                     None \<Rightarrow> []
                   | Some t \<Rightarrow> parseTaxSubtotalsFromTaxTotal t) > 0
        then Some (foldl (\<lambda>acc subtotal. js_add acc (UblTaxSubtotal.taxAmount subtotal)) (Fin 0)
                     (case cacDirectElement line (str ''TaxTotal'') of
                        None \<Rightarrow> []
                      | Some t \<Rightarrow> parseTaxSubtotalsFromTaxTotal t))
        else (case UblLine.taxPercent (parseLine isCreditNote line) of
                None \<Rightarrow> None
              | Some p \<Rightarrow>
                  Some (Number_toFixed 2
                          (js_div_pos (js_mul (cbcNumber line (str ''LineExtensionAmount'')) p) 100))))"
  by (simp add: parseLine_def Let_def)

lemma subtotal_sum_js_sum:
  "foldl (\<lambda>acc subtotal. js_add acc (UblTaxSubtotal.taxAmount subtotal)) (Fin 0) xs =
     js_sum (map UblTaxSubtotal.taxAmount xs)"
  unfolding js_sum_def by (rule foldl_js_add_map)

lemma parseLine_taxAmount: "UblLine.taxAmount (parseLine isCreditNote line) = resolvedTaxAmount line"
  unfolding parseLine_taxAmount_code parseLine_taxPercent lineTaxSubtotals_code
    explicitLineTaxAmount_code subtotal_sum_js_sum Number_toFixed_roundToCents
  by (cases "explicitLineTaxAmount line"; cases "lineTaxPercent line")
     (simp_all add: resolvedTaxAmount_def resolveTaxAmount_def nullish_def)

lemma lineTaxPercent_claimed:
  "lineTaxPercent line =
     (if lineTaxSubtotals line = [] \<and> categoryWithoutPercent line then Some (Fin 0)
      else claimedLineTaxPercent line)"
proof (cases "lineTaxSubtotals line")
  case Nil
  show ?thesis
  proof (cases "cacElement line (str ''Item'')")
    case None
    then show ?thesis
      using Nil by (simp add: lineTaxPercent_def claimedLineTaxPercent_def categoryWithoutPercent_def)
  next
    case (Some item)
    show ?thesis
    proof (cases "cacElement item (str ''ClassifiedTaxCategory'')")
      case None
      then show ?thesis
        using Nil Some
        by (simp add: lineTaxPercent_def claimedLineTaxPercent_def categoryWithoutPercent_def)
    next
      case c: (Some c)
      show ?thesis
        using Nil Some c
        by (cases "getElementsByTagNameNS c CBC_NS (str ''Percent'')")
           (simp_all add: lineTaxPercent_def claimedLineTaxPercent_def categoryWithoutPercent_def
             cbcNumber_missing)
    qed
  qed
next
  case (Cons s ss)
  then show ?thesis
    by (simp add: lineTaxPercent_def claimedLineTaxPercent_def)
qed

text \<open>
  C1, as amended. The tax amount of every parsed line is resolved in this order: (1) the
  explicit \<open>TaxAmount\<close> child of the line's own first \<open>TaxTotal\<close> child; (2) else the sum
  over the line's tax subtotals when there are any; (3) else, when the line has a tax
  percent, that percentage of the line extension amount, rounded to two decimal places (to
  the nearest hundredth, the one of larger magnitude of two); (4) else absent. The tax
  percent is the percent of the first line-level tax subtotal, else, when the item has a
  classified tax category, the number read from the category's \<open>Percent\<close>, which is 0 when
  the category has no \<open>Percent\<close>: such a line has the percent 0, and the computed amount 0
  when it has no explicit amount and no subtotal. An explicit amount wins, whatever the
  percent and the base are.
\<close>

theorem line_taxAmount_resolution:
  "map UblLine.taxAmount (parseLines r isCreditNote) =
     map (\<lambda>l. resolveTaxAmount (lineTaxPercent l) l)
       (cacElements r (if isCreditNote then str ''CreditNoteLine'' else str ''InvoiceLine''))
   \<and> UblLine.taxAmount (parseLine isCreditNote line) = resolveTaxAmount (lineTaxPercent line) line
   \<and> UblLine.taxPercent (parseLine isCreditNote line) = lineTaxPercent line
   \<and> UblLine.lineExtensionAmount (parseLine isCreditNote line) =
       cbcNumber line (str ''LineExtensionAmount'')
   \<and> lineTaxPercent line =
       (if lineTaxSubtotals line = [] \<and> categoryWithoutPercent line then Some (Fin 0)
        else claimedLineTaxPercent line)
   \<and> (\<forall>a. explicitLineTaxAmount line = Some a
          \<longrightarrow> UblLine.taxAmount (parseLine isCreditNote line) = Some a)
   \<and> (\<forall>x. \<bar>of_int (nearestCents x) / 100 - x\<bar> \<le> 1 / 200)
   \<and> (\<forall>x. \<bar>nearestCents x\<bar> = \<lfloor>\<bar>x\<bar> * 100 + 1 / 2\<rfloor>)"
proof -
  have "map UblLine.taxAmount (parseLines r isCreditNote) =
     map (\<lambda>l. resolveTaxAmount (lineTaxPercent l) l)
       (cacElements r (if isCreditNote then str ''CreditNoteLine'' else str ''InvoiceLine''))"
    by (simp add: parseLines_def Let_def comp_def parseLine_taxAmount resolvedTaxAmount_def)
  moreover have "\<forall>a. explicitLineTaxAmount line = Some a
          \<longrightarrow> UblLine.taxAmount (parseLine isCreditNote line) = Some a"
    by (simp add: parseLine_taxAmount resolvedTaxAmount_def resolveTaxAmount_def)
  ultimately show ?thesis
    using parseLine_taxAmount [of isCreditNote line] parseLine_taxPercent [of isCreditNote line]
      parseLine_lineExtensionAmount [of isCreditNote line] lineTaxPercent_claimed [of line]
      nearestCents_nearest nearestCents_magnitude
    by (simp only: resolvedTaxAmount_def simp_thms)
qed

lemma roundToCents_examples:
  "roundToCents (Fin 21) = Fin 21"
  "roundToCents (Fin 0) = Fin 0"
  "roundToCents (js_div_pos (js_mul (Fin (1 / 2)) (Fin 21)) 100) =
     Fin (3602879701896397 / 36028797018963968)"
  by code_simp+

lemma parseFloat_examples:
  "parseFloat (str ''0.10'') = Fin (3602879701896397 / 36028797018963968)"
  "parseFloat (str ''0.11'') = Fin (7926335344172073 / 72057594037927936)"
  "parseFloat (str ''0.105'') = Fin (7566047373982433 / 72057594037927936)"
  "parseFloat (str ''0.50'') = Fin (1 / 2)"
  "parseFloat (str ''21'') = Fin 21"
  by (simp_all add: parseFloat_def Let_def isDigit_def digitsValue_def exponentPart_def pow10_def
      text_eval)

lemma line_fixtures:
  "explicitLineTaxAmount halfAt21Line = None"
  "lineTaxSubtotals halfAt21Line = []"
  "lineTaxPercent halfAt21Line = Some (Fin 21)"
  "cbcNumber halfAt21Line (str ''LineExtensionAmount'') = Fin (1 / 2)"
  "explicitLineTaxAmount noPercentLine = None"
  "lineTaxSubtotals noPercentLine = []"
  "lineTaxPercent noPercentLine = Some (Fin 0)"
  "claimedLineTaxPercent noPercentLine = None"
  "categoryWithoutPercent noPercentLine"
  "cbcNumber noPercentLine (str ''LineExtensionAmount'') = Fin 100"
  by (simp_all add: explicitLineTaxAmount_def lineTaxSubtotals_def lineTaxPercent_def
      claimedLineTaxPercent_def categoryWithoutPercent_def halfAt21Line_def noPercentLine_def
      directChildren_def elementChildren_def dom_eval text_eval num_eval)

lemma noPercentInvoice_parsed:
  "parseUblInvoice (parseFromString (hostOf noPercentInvoice)) [] =
     Inr (Some (documentModel noPercentInvoice Invoice (str ''INV-6'')))"
  by (rule parseUblInvoice_hostOf)
     (simp_all add: noPercentInvoice_def noPercentLine_def dom_eval text_eval)

lemma documentModel_lines:
  "UblInvoiceOf.lines (documentModel r Invoice i) = parseLines r False"
  by (simp add: documentModel_def Let_def)

lemma noPercentInvoice_lines:
  "cacElements noPercentInvoice (str ''InvoiceLine'') = [noPercentLine]"
  by (simp add: noPercentInvoice_def noPercentLine_def dom_eval)

text \<open>
  With the percent taken as not determinable when the classified tax category has no
  \<open>Percent\<close> the statement fails: the line of this invoice has such a category, no tax
  total and the base 100; as stated its tax amount is absent, and the parsed line has the
  percent 0 and the tax amount 0.
\<close>

theorem line_taxAmount_counterexample:
  "parseUblInvoice (parseFromString (hostOf noPercentInvoice)) [] =
     Inr (Some (documentModel noPercentInvoice Invoice (str ''INV-6'')))
   \<and> cacElements noPercentInvoice (str ''InvoiceLine'') = [noPercentLine]
   \<and> claimedLineTaxPercent noPercentLine = None
   \<and> claimedTaxAmount noPercentLine = None
   \<and> map UblLine.taxPercent (UblInvoiceOf.lines (documentModel noPercentInvoice Invoice (str ''INV-6''))) =
       [Some (Fin 0)]
   \<and> map UblLine.taxAmount (UblInvoiceOf.lines (documentModel noPercentInvoice Invoice (str ''INV-6''))) =
       [Some (Fin 0)]
   \<and> map UblLine.taxAmount (UblInvoiceOf.lines (documentModel noPercentInvoice Invoice (str ''INV-6'')))
       \<noteq> map claimedTaxAmount (cacElements noPercentInvoice (str ''InvoiceLine''))"
proof -
  have c: "claimedTaxAmount noPercentLine = None"
    by (simp add: claimedTaxAmount_def resolveTaxAmount_def line_fixtures)
  have p: "UblLine.taxPercent (parseLine False noPercentLine) = Some (Fin 0)"
    by (simp add: parseLine_taxPercent line_fixtures)
  have "js_div_pos (js_mul (Fin 100) (Fin 0)) 100 = Fin 0"
    by (simp add: js_mul_def)
  then have t: "UblLine.taxAmount (parseLine False noPercentLine) = Some (Fin 0)"
    by (simp add: parseLine_taxAmount resolvedTaxAmount_def resolveTaxAmount_def line_fixtures
        roundToCents_examples)
  show ?thesis
    using noPercentInvoice_parsed c p t
    by (simp add: documentModel_lines parseLines_def noPercentInvoice_lines line_fixtures)
qed

theorem line_taxAmount_witness:
  "explicitLineTaxAmount explicitTaxLine = Some (Fin 20)
   \<and> map UblTaxSubtotal.taxAmount (lineTaxSubtotals explicitTaxLine) = [Fin 21]
   \<and> lineTaxPercent explicitTaxLine = Some (Fin 21)
   \<and> cbcNumber explicitTaxLine (str ''LineExtensionAmount'') = Fin 100
   \<and> UblLine.taxAmount (parseLine False explicitTaxLine) = Some (Fin 20)
   \<and> map UblLine.taxAmount (parseLines minimalInvoice False) = [Some (Fin 21)]
   \<and> map UblLine.taxAmount (parseLines idOnlyInLine False) = [None]
   \<and> cbcNumber halfAt21Line (str ''LineExtensionAmount'') = parseFloat (str ''0.50'')
   \<and> UblLine.taxPercent (parseLine False halfAt21Line) = Some (parseFloat (str ''21''))
   \<and> js_div_pos (js_mul (parseFloat (str ''0.50'')) (parseFloat (str ''21''))) 100 =
       parseFloat (str ''0.105'')
   \<and> UblLine.taxAmount (parseLine False halfAt21Line) = Some (parseFloat (str ''0.10''))
   \<and> parseFloat (str ''0.10'') \<noteq> parseFloat (str ''0.11'')
   \<and> UblLine.taxAmount (parseLine False noPercentLine) = Some (Fin 0)"
proof -
  have e: "explicitLineTaxAmount explicitTaxLine = Some (Fin 20)"
    by (simp add: explicitLineTaxAmount_def explicitTaxLine_def directChildren_def
        elementChildren_def dom_eval text_eval num_eval)
  have s: "map UblTaxSubtotal.taxAmount (lineTaxSubtotals explicitTaxLine) = [Fin 21]"
    by (simp add: lineTaxSubtotals_def explicitTaxLine_def directChildren_def
        elementChildren_def parseTaxSubtotal_def dom_eval text_eval num_eval)
  have s': "map UblTaxSubtotal.taxPercent (lineTaxSubtotals explicitTaxLine) = [Fin 21]"
    by (simp add: lineTaxSubtotals_def explicitTaxLine_def directChildren_def
        elementChildren_def parseTaxSubtotal_def dom_eval text_eval num_eval)
  have p: "lineTaxPercent explicitTaxLine = Some (Fin 21)"
    using s' by (cases "lineTaxSubtotals explicitTaxLine") (simp_all add: lineTaxPercent_def)
  have b: "cbcNumber explicitTaxLine (str ''LineExtensionAmount'') = Fin 100"
    by (simp add: explicitTaxLine_def dom_eval text_eval num_eval)
  have m: "map (\<lambda>l. resolveTaxAmount (lineTaxPercent l) l)
             (cacElements minimalInvoice (str ''InvoiceLine'')) = [Some (Fin 21)]"
    by (simp add: minimalInvoice_def resolveTaxAmount_def explicitLineTaxAmount_def
        lineTaxSubtotals_def lineTaxPercent_def directChildren_def elementChildren_def
        dom_eval text_eval num_eval js_mul_def roundToCents_examples)
  have n: "map (\<lambda>l. resolveTaxAmount (lineTaxPercent l) l)
             (cacElements idOnlyInLine (str ''InvoiceLine'')) = [None]"
    by (simp add: idOnlyInLine_def resolveTaxAmount_def explicitLineTaxAmount_def
        lineTaxSubtotals_def lineTaxPercent_def directChildren_def elementChildren_def
        dom_eval text_eval num_eval)
  have q: "js_div_pos (js_mul (Fin (1 / 2)) (Fin 21)) 100 = Fin (7566047373982433 / 72057594037927936)"
    by code_simp
  have h: "resolveTaxAmount (lineTaxPercent halfAt21Line) halfAt21Line =
             Some (Fin (3602879701896397 / 36028797018963968))"
    by (simp only: resolveTaxAmount_def line_fixtures roundToCents_examples option.case if_True
        if_False simp_thms)
  have z0: "js_div_pos (js_mul (Fin 100) (Fin 0)) 100 = Fin 0"
    by (simp add: js_mul_def)
  have z: "resolveTaxAmount (lineTaxPercent noPercentLine) noPercentLine = Some (Fin 0)"
    by (simp add: resolveTaxAmount_def line_fixtures z0 roundToCents_examples)
  note x = line_taxAmount_resolution [of minimalInvoice False explicitTaxLine]
  note y = line_taxAmount_resolution [of idOnlyInLine False halfAt21Line]
  note w = line_taxAmount_resolution [of idOnlyInLine False noPercentLine]
  have 1: "UblLine.taxAmount (parseLine False explicitTaxLine) = Some (Fin 20)"
    using x [THEN conjunct2, THEN conjunct2, THEN conjunct2, THEN conjunct2, THEN conjunct2,
        THEN conjunct1] e
    by simp
  have 2: "map UblLine.taxAmount (parseLines minimalInvoice False) = [Some (Fin 21)]"
    using x [THEN conjunct1] m by simp
  have 3: "map UblLine.taxAmount (parseLines idOnlyInLine False) = [None]"
    using y [THEN conjunct1] n by simp
  have 4: "UblLine.taxAmount (parseLine False halfAt21Line) =
             Some (Fin (3602879701896397 / 36028797018963968))"
    using y [THEN conjunct2, THEN conjunct1] h by simp
  have 5: "UblLine.taxPercent (parseLine False halfAt21Line) = Some (Fin 21)"
    using y [THEN conjunct2, THEN conjunct2, THEN conjunct1] by (simp add: line_fixtures)
  have 6: "UblLine.taxAmount (parseLine False noPercentLine) = Some (Fin 0)"
    using w [THEN conjunct2, THEN conjunct1] z by simp
  show ?thesis
    using e s p b q 1 2 3 4 5 6 by (simp add: parseFloat_examples line_fixtures)
qed

section \<open>DTO totals\<close>

lemma extracted_tax_total:
  "tax_total (InvoiceExtractionDTO.invoice (extracted h ubl d)) = toNumberOrNull (Some (sumTaxTotal ubl))"
  by (simp add: extracted_def Let_def)

lemma extracted_subtotal:
  "subtotal (InvoiceExtractionDTO.invoice (extracted h ubl d)) =
     nullish (toNumberOrNull (Some (taxExclusiveAmount (monetaryTotal ubl))))
       (toNumberOrNull (Some (UblMonetaryTotal.lineExtensionAmount (monetaryTotal ubl))))"
  by (simp add: extracted_def Let_def)

lemma extracted_total:
  "total' (InvoiceExtractionDTO.invoice (extracted h ubl d)) =
     nullish (toNumberOrNull (Some (taxInclusiveAmount (monetaryTotal ubl))))
       (toNumberOrNull (Some (payableAmount (monetaryTotal ubl))))"
  by (simp add: extracted_def Let_def)

lemma extracted_amount_due:
  "amount_due (InvoiceExtractionDTO.invoice (extracted h ubl d)) =
     toNumberOrNull (Some (payableAmount (monetaryTotal ubl)))"
  by (simp add: extracted_def Let_def)

lemma extracted_amount_paid:
  "amount_paid (InvoiceExtractionDTO.invoice (extracted h ubl d)) =
     nullish (toNumberOrNull (prepaidAmount (monetaryTotal ubl)))
       (case (total' (InvoiceExtractionDTO.invoice (extracted h ubl d)),
              amount_due (InvoiceExtractionDTO.invoice (extracted h ubl d))) of
          (Some t, Some du) \<Rightarrow> if js_gt t du then toNumberOrNull (Some (js_sub t du)) else None
        | _ \<Rightarrow> None)"
  by (simp add: extracted_def Let_def)

lemma extracted_discount_total:
  "discount_total (InvoiceExtractionDTO.invoice (extracted h ubl d)) =
     nullish (toNumberOrNull (allowanceTotalAmount (monetaryTotal ubl)))
       (if headerCharges ubl \<noteq> []
        then toNumberOrNull (Some (sumAllowanceChargesByType (UblInvoiceOf.allowanceCharges ubl) False))
        else None)"
  by (simp add: extracted_def Let_def headerCharges_def)

lemma extracted_shipping_total:
  "shipping_total (InvoiceExtractionDTO.invoice (extracted h ubl d)) =
     nullish (toNumberOrNull (chargeTotalAmount (monetaryTotal ubl)))
       (if headerCharges ubl \<noteq> []
        then toNumberOrNull (Some (sumAllowanceChargesByType (UblInvoiceOf.allowanceCharges ubl) True))
        else None)"
  by (simp add: extracted_def Let_def headerCharges_def)

lemma sumTaxTotal_headerTaxSum:
  "sumTaxTotal ubl =
     (if UblInvoiceOf.taxSubtotals ubl \<noteq> [] \<and> isFinite (headerTaxSum ubl) then headerTaxSum ubl
      else js_sub (taxInclusiveAmount (monetaryTotal ubl)) (taxExclusiveAmount (monetaryTotal ubl)))"
  by (simp add: sumTaxTotal_def Let_def headerTaxSum_def subtotal_sum_js_sum)

lemma foldl_by_indicator:
  "foldl (\<lambda>acc charge.
            if chargeIndicator charge \<noteq> indicator then acc
            else js_add acc (Math_abs (UblAllowanceCharge.amount charge))) z cs =
     foldl js_add z
       (map (\<lambda>c. Math_abs (UblAllowanceCharge.amount c))
          (filter (\<lambda>c. chargeIndicator c = indicator) cs))"
  by (induction cs arbitrary: z) simp_all

lemma sumAllowanceChargesByType_absSum:
  "sumAllowanceChargesByType (UblInvoiceOf.allowanceCharges ubl) indicator = absSumByIndicator ubl indicator"
  unfolding sumAllowanceChargesByType_def absSumByIndicator_def js_sum_def headerCharges_def
  by (rule foldl_by_indicator)

lemma toNumberOrNull_Some:
  "toNumberOrNull (Some n) = (if isFinite n then Some n else None)"
  by (simp add: toNumberOrNull_def)

lemma toNumberOrNull_None [simp]: "toNumberOrNull None = None"
  by (simp add: toNumberOrNull_def isFinite_def)

lemma documentModel_headerCharges:
  "headerCharges (documentModel r t i) = parseAllowanceCharges r"
  by (simp add: headerCharges_def documentModel_def Let_def)

lemma documentModel_monetaryTotal:
  "monetaryTotal (documentModel r t i) = parseMonetaryTotal r"
  by (simp add: documentModel_def Let_def)

lemma js_sub_Fin [simp]: "js_sub (Fin a) (Fin b) = round64 (a - b)"
  by (simp add: js_sub_def)

section \<open>Tax total\<close>

text \<open>
  C3, as amended. The DTO's tax total is the sum of the header tax subtotals when there are
  any and the sum is finite; otherwise it is the tax-inclusive amount minus the
  tax-exclusive amount when that difference is finite, and null when it is not. With no
  header tax subtotal, 100 before tax and 121 with tax, the tax total is 21, the subtotal
  100 and the total 121.
\<close>

theorem tax_total_resolution:
  "tax_total (InvoiceExtractionDTO.invoice (extracted h ubl d)) =
     (if UblInvoiceOf.taxSubtotals ubl \<noteq> [] \<and> isFinite (headerTaxSum ubl) then Some (headerTaxSum ubl)
      else if isFinite (js_sub (taxInclusiveAmount (monetaryTotal ubl))
                          (taxExclusiveAmount (monetaryTotal ubl)))
      then Some (js_sub (taxInclusiveAmount (monetaryTotal ubl))
                   (taxExclusiveAmount (monetaryTotal ubl)))
      else None)
   \<and> (UblInvoiceOf.taxSubtotals ubl = []
        \<and> taxExclusiveAmount (monetaryTotal ubl) = Fin 100
        \<and> taxInclusiveAmount (monetaryTotal ubl) = Fin 121
        \<longrightarrow> tax_total (InvoiceExtractionDTO.invoice (extracted h ubl d)) = Some (Fin 21)
            \<and> subtotal (InvoiceExtractionDTO.invoice (extracted h ubl d)) = Some (Fin 100)
            \<and> total' (InvoiceExtractionDTO.invoice (extracted h ubl d)) = Some (Fin 121))"
  by (simp add: extracted_tax_total extracted_subtotal extracted_total sumTaxTotal_headerTaxSum
      toNumberOrNull_Some nullish_def js_sub_def isFinite_def)

lemma infiniteTotalInvoice_parsed:
  "parseUblInvoice (parseFromString (hostOf infiniteTotalInvoice)) [] =
     Inr (Some (documentModel infiniteTotalInvoice Invoice (str ''INV-2'')))"
  by (rule parseUblInvoice_hostOf) (simp_all add: infiniteTotalInvoice_def dom_eval text_eval)

lemma infiniteTotalInvoice_model:
  "UblInvoiceOf.taxSubtotals (documentModel infiniteTotalInvoice Invoice i) = []"
  "taxInclusiveAmount (monetaryTotal (documentModel infiniteTotalInvoice Invoice i)) = PosInf"
  "taxExclusiveAmount (monetaryTotal (documentModel infiniteTotalInvoice Invoice i)) = Fin 100"
  by (simp_all add: documentModel_def parseTaxSubtotals_def parseMonetaryTotal_def
      infiniteTotalInvoice_def dom_eval text_eval num_eval)

text \<open>
  Without the finiteness check on the difference the statement fails: the document with
  the tax-inclusive amount \<open>Infinity\<close> is parsed, the difference is infinite, and the tax
  total of the DTO is null.
\<close>

theorem tax_total_counterexample:
  "parseUblInvoice (parseFromString (hostOf infiniteTotalInvoice)) [] =
     Inr (Some (documentModel infiniteTotalInvoice Invoice (str ''INV-2'')))
   \<and> claimedTaxTotal (documentModel infiniteTotalInvoice Invoice (str ''INV-2'')) = Some PosInf
   \<and> tax_total (InvoiceExtractionDTO.invoice
        (extracted (hostOf infiniteTotalInvoice)
           (documentModel infiniteTotalInvoice Invoice (str ''INV-2'')) (str ''doc''))) = None
   \<and> tax_total (InvoiceExtractionDTO.invoice
        (extracted (hostOf infiniteTotalInvoice)
           (documentModel infiniteTotalInvoice Invoice (str ''INV-2'')) (str ''doc'')))
       \<noteq> claimedTaxTotal (documentModel infiniteTotalInvoice Invoice (str ''INV-2''))"
  using infiniteTotalInvoice_parsed
  by (simp add: claimedTaxTotal_def extracted_tax_total sumTaxTotal_headerTaxSum
      infiniteTotalInvoice_model toNumberOrNull_Some isFinite_def js_sub_def)

lemma minimalInvoice_parsed:
  "parseUblInvoice (parseFromString (hostOf minimalInvoice)) [] =
     Inr (Some (documentModel minimalInvoice Invoice (str ''INV-1'')))"
  by (rule parseUblInvoice_hostOf) (simp_all add: minimalInvoice_def dom_eval text_eval)

lemma minimalInvoice_model:
  "UblInvoiceOf.taxSubtotals (documentModel minimalInvoice Invoice i) = []"
  "taxInclusiveAmount (monetaryTotal (documentModel minimalInvoice Invoice i)) = Fin 121"
  "taxExclusiveAmount (monetaryTotal (documentModel minimalInvoice Invoice i)) = Fin 100"
  by (simp_all add: documentModel_def parseTaxSubtotals_def parseMonetaryTotal_def
      minimalInvoice_def dom_eval text_eval num_eval)

text \<open>
  Sums in binary64: 0.1 + 0.2 is 0.30000000000000004, and \<open>1e308 + 1e308\<close> is infinite.
\<close>

lemma parseFloat_1e308: "parseFloat (str ''1e308'') = Fin (5010420900022432 * 2 ^ 971)"
  using round64_1e308
  by (simp add: parseFloat_def Let_def isDigit_def digitsValue_def exponentPart_def pow10_def
      text_eval)

lemma js_sum_fractions:
  "js_sum [Fin (3602879701896397 / 36028797018963968), Fin (3602879701896397 / 18014398509481984)] =
     Fin (1351079888211149 / 4503599627370496)"
  by code_simp

lemma js_sum_overflow:
  "js_sum [Fin (5010420900022432 * 2 ^ 971), Fin (5010420900022432 * 2 ^ 971)] = PosInf"
proof -
  have a: "round64 (5010420900022432 * 2 ^ 971) = Fin (5010420900022432 * 2 ^ 971)"
    using round64_eqI [of 1023 "5010420900022432 * 2 ^ 971" 5010420900022432]
    by (simp add: pow2_def)
  have b: "round64 (5010420900022432 * 2 ^ 971 + 5010420900022432 * 2 ^ 971) = PosInf"
    by (rule round64_overflow) simp
  show ?thesis
    by (simp only: js_sum_def foldl.simps js_add.simps add_0 a b)
qed

lemma parseFloat_fractions:
  "parseFloat (str ''0.1'') = Fin (3602879701896397 / 36028797018963968)"
  "parseFloat (str ''0.2'') = Fin (3602879701896397 / 18014398509481984)"
  "parseFloat (str ''0.3'') = Fin (5404319552844595 / 18014398509481984)"
  "parseFloat (str ''0.30000000000000004'') = Fin (1351079888211149 / 4503599627370496)"
  using tenth_plus_fifth(2)
  by (simp_all add: parseFloat_def Let_def isDigit_def digitsValue_def exponentPart_def pow10_def
      text_eval)

lemma fractionalTaxInvoice_parsed:
  "parseUblInvoice (parseFromString (hostOf fractionalTaxInvoice)) [] =
     Inr (Some (documentModel fractionalTaxInvoice Invoice (str ''INV-8'')))"
  by (rule parseUblInvoice_hostOf)
     (simp_all add: fractionalTaxInvoice_def subtotalOf_def dom_eval text_eval)

lemma overflowingTaxInvoice_parsed:
  "parseUblInvoice (parseFromString (hostOf overflowingTaxInvoice)) [] =
     Inr (Some (documentModel overflowingTaxInvoice Invoice (str ''INV-9'')))"
  by (rule parseUblInvoice_hostOf)
     (simp_all add: overflowingTaxInvoice_def subtotalOf_def dom_eval text_eval)

lemma header_amount_texts:
  "map (\<lambda>s. cbcText s (str ''TaxAmount''))
     (concat (map (\<lambda>t. directChildren t CAC_NS (str ''TaxSubtotal''))
                (directChildren fractionalTaxInvoice CAC_NS (str ''TaxTotal'')))) =
     [str ''0.1'', str ''0.2'']"
  "map (\<lambda>s. cbcText s (str ''TaxAmount''))
     (concat (map (\<lambda>t. directChildren t CAC_NS (str ''TaxSubtotal''))
                (directChildren overflowingTaxInvoice CAC_NS (str ''TaxTotal'')))) =
     [str ''1e308'', str ''1e308'']"
  by (simp_all add: fractionalTaxInvoice_def overflowingTaxInvoice_def subtotalOf_def
      directChildren_def elementChildren_def dom_eval text_eval)

lemma parseTaxSubtotals_amounts:
  "map UblTaxSubtotal.taxAmount (parseTaxSubtotals r) =
     map (\<lambda>t. let n = parseFloat t in if isNaN n then Fin 0 else n)
       (map (\<lambda>s. cbcText s (str ''TaxAmount''))
          (concat (map (\<lambda>t. directChildren t CAC_NS (str ''TaxSubtotal''))
                     (directChildren r CAC_NS (str ''TaxTotal'')))))"
  by (simp add: parseTaxSubtotals_direct map_concat comp_def parseTaxSubtotal_def Let_def
      cbcNumber_def)

lemma fractionalTaxInvoice_model:
  "map UblTaxSubtotal.taxAmount (UblInvoiceOf.taxSubtotals (documentModel fractionalTaxInvoice Invoice i)) =
     [Fin (3602879701896397 / 36028797018963968), Fin (3602879701896397 / 18014398509481984)]"
  unfolding documentModel_taxSubtotals parseTaxSubtotals_amounts header_amount_texts
  by (simp add: parseFloat_fractions isNaN_def)

lemma overflowingTaxInvoice_model:
  "map UblTaxSubtotal.taxAmount (UblInvoiceOf.taxSubtotals (documentModel overflowingTaxInvoice Invoice i)) =
     [Fin (5010420900022432 * 2 ^ 971), Fin (5010420900022432 * 2 ^ 971)]"
  "taxInclusiveAmount (monetaryTotal (documentModel overflowingTaxInvoice Invoice i)) = Fin 121"
  "taxExclusiveAmount (monetaryTotal (documentModel overflowingTaxInvoice Invoice i)) = Fin 100"
proof -
  show "map UblTaxSubtotal.taxAmount (UblInvoiceOf.taxSubtotals (documentModel overflowingTaxInvoice Invoice i)) =
     [Fin (5010420900022432 * 2 ^ 971), Fin (5010420900022432 * 2 ^ 971)]"
    unfolding documentModel_taxSubtotals parseTaxSubtotals_amounts header_amount_texts
    by (simp add: parseFloat_1e308 isNaN_def)
  show "taxInclusiveAmount (monetaryTotal (documentModel overflowingTaxInvoice Invoice i)) = Fin 121"
    "taxExclusiveAmount (monetaryTotal (documentModel overflowingTaxInvoice Invoice i)) = Fin 100"
    by (simp_all add: documentModel_monetaryTotal parseMonetaryTotal_def
        overflowingTaxInvoice_def subtotalOf_def dom_eval text_eval num_eval)
qed

lemma headerTaxSum_examples:
  "headerTaxSum (documentModel fractionalTaxInvoice Invoice i) = Fin (1351079888211149 / 4503599627370496)"
  "headerTaxSum (documentModel overflowingTaxInvoice Invoice i) = PosInf"
  unfolding headerTaxSum_def fractionalTaxInvoice_model overflowingTaxInvoice_model
  by (rule js_sum_fractions js_sum_overflow)+

theorem tax_total_witness:
  "parseUblInvoice (parseFromString (hostOf minimalInvoice)) [] =
     Inr (Some (documentModel minimalInvoice Invoice (str ''INV-1'')))
   \<and> tax_total (InvoiceExtractionDTO.invoice
        (extracted (hostOf minimalInvoice)
           (documentModel minimalInvoice Invoice (str ''INV-1'')) (str ''doc''))) = Some (Fin 21)
   \<and> subtotal (InvoiceExtractionDTO.invoice
        (extracted (hostOf minimalInvoice)
           (documentModel minimalInvoice Invoice (str ''INV-1'')) (str ''doc''))) = Some (Fin 100)
   \<and> total' (InvoiceExtractionDTO.invoice
        (extracted (hostOf minimalInvoice)
           (documentModel minimalInvoice Invoice (str ''INV-1'')) (str ''doc''))) = Some (Fin 121)
   \<and> parseUblInvoice (parseFromString (hostOf fractionalTaxInvoice)) [] =
       Inr (Some (documentModel fractionalTaxInvoice Invoice (str ''INV-8'')))
   \<and> map UblTaxSubtotal.taxAmount
        (UblInvoiceOf.taxSubtotals (documentModel fractionalTaxInvoice Invoice (str ''INV-8''))) =
       [parseFloat (str ''0.1''), parseFloat (str ''0.2'')]
   \<and> tax_total (InvoiceExtractionDTO.invoice
        (extracted (hostOf fractionalTaxInvoice)
           (documentModel fractionalTaxInvoice Invoice (str ''INV-8'')) (str ''doc''))) =
       Some (parseFloat (str ''0.30000000000000004''))
   \<and> parseFloat (str ''0.30000000000000004'') \<noteq> parseFloat (str ''0.3'')
   \<and> parseUblInvoice (parseFromString (hostOf overflowingTaxInvoice)) [] =
       Inr (Some (documentModel overflowingTaxInvoice Invoice (str ''INV-9'')))
   \<and> map UblTaxSubtotal.taxAmount
        (UblInvoiceOf.taxSubtotals (documentModel overflowingTaxInvoice Invoice (str ''INV-9''))) =
       [parseFloat (str ''1e308''), parseFloat (str ''1e308'')]
   \<and> headerTaxSum (documentModel overflowingTaxInvoice Invoice (str ''INV-9'')) = PosInf
   \<and> tax_total (InvoiceExtractionDTO.invoice
        (extracted (hostOf overflowingTaxInvoice)
           (documentModel overflowingTaxInvoice Invoice (str ''INV-9'')) (str ''doc''))) = Some (Fin 21)"
proof -
  note a = tax_total_resolution [of "hostOf minimalInvoice"
      "documentModel minimalInvoice Invoice (str ''INV-1'')" "str ''doc''"]
  note b = tax_total_resolution [of "hostOf fractionalTaxInvoice"
      "documentModel fractionalTaxInvoice Invoice (str ''INV-8'')" "str ''doc''"]
  note c = tax_total_resolution [of "hostOf overflowingTaxInvoice"
      "documentModel overflowingTaxInvoice Invoice (str ''INV-9'')" "str ''doc''"]
  have 1: "tax_total (InvoiceExtractionDTO.invoice
        (extracted (hostOf minimalInvoice)
           (documentModel minimalInvoice Invoice (str ''INV-1'')) (str ''doc''))) = Some (Fin 21)
   \<and> subtotal (InvoiceExtractionDTO.invoice
        (extracted (hostOf minimalInvoice)
           (documentModel minimalInvoice Invoice (str ''INV-1'')) (str ''doc''))) = Some (Fin 100)
   \<and> total' (InvoiceExtractionDTO.invoice
        (extracted (hostOf minimalInvoice)
           (documentModel minimalInvoice Invoice (str ''INV-1'')) (str ''doc''))) = Some (Fin 121)"
    using a [THEN conjunct2] by (simp add: minimalInvoice_model)
  have nf: "UblInvoiceOf.taxSubtotals (documentModel fractionalTaxInvoice Invoice (str ''INV-8'')) \<noteq> []"
    using fractionalTaxInvoice_model [of "str ''INV-8''"] by auto
  have no: "UblInvoiceOf.taxSubtotals (documentModel overflowingTaxInvoice Invoice (str ''INV-9'')) \<noteq> []"
    using overflowingTaxInvoice_model(1) [of "str ''INV-9''"] by auto
  have 2: "tax_total (InvoiceExtractionDTO.invoice
        (extracted (hostOf fractionalTaxInvoice)
           (documentModel fractionalTaxInvoice Invoice (str ''INV-8'')) (str ''doc''))) =
       Some (Fin (1351079888211149 / 4503599627370496))"
    using b [THEN conjunct1] nf by (simp add: headerTaxSum_examples isFinite_def)
  have 3: "tax_total (InvoiceExtractionDTO.invoice
        (extracted (hostOf overflowingTaxInvoice)
           (documentModel overflowingTaxInvoice Invoice (str ''INV-9'')) (str ''doc''))) = Some (Fin 21)"
    using c [THEN conjunct1] no
    by (simp add: headerTaxSum_examples isFinite_def overflowingTaxInvoice_model)
  have 4: "parseFloat (str ''0.30000000000000004'') \<noteq> parseFloat (str ''0.3'')"
    unfolding parseFloat_fractions by simp
  show ?thesis
    using minimalInvoice_parsed fractionalTaxInvoice_parsed overflowingTaxInvoice_parsed 1 2 3 4
      fractionalTaxInvoice_model [of "str ''INV-8''"]
      overflowingTaxInvoice_model(1) [of "str ''INV-9''"]
      headerTaxSum_examples(2) [of "str ''INV-9''"]
    by (simp only: parseFloat_fractions parseFloat_1e308 simp_thms)
qed

section \<open>Discount and shipping totals\<close>

text \<open>
  C4, as amended. The DTO's discount total is the explicit allowance total of the monetary
  total when that is present and finite; otherwise, when the document has header
  allowance/charges, it is the sum of the absolute amounts of those with a false
  indicator when that sum is finite, and null when it is not; otherwise it is null. The
  shipping total is the same with the explicit charge total and the true indicator.
\<close>

theorem discount_and_shipping_total_resolution:
  "discount_total (InvoiceExtractionDTO.invoice (extracted h ubl d)) =
     (if isFinite (case allowanceTotalAmount (monetaryTotal ubl) of None \<Rightarrow> NaN | Some n \<Rightarrow> n)
      then allowanceTotalAmount (monetaryTotal ubl)
      else if headerCharges ubl \<noteq> [] \<and> isFinite (absSumByIndicator ubl False)
      then Some (absSumByIndicator ubl False)
      else None)
   \<and> shipping_total (InvoiceExtractionDTO.invoice (extracted h ubl d)) =
     (if isFinite (case chargeTotalAmount (monetaryTotal ubl) of None \<Rightarrow> NaN | Some n \<Rightarrow> n)
      then chargeTotalAmount (monetaryTotal ubl)
      else if headerCharges ubl \<noteq> [] \<and> isFinite (absSumByIndicator ubl True)
      then Some (absSumByIndicator ubl True)
      else None)"
  by (simp add: extracted_discount_total extracted_shipping_total sumAllowanceChargesByType_absSum
      toNumberOrNull_def nullish_def isFinite_def split: option.splits)

lemma infiniteAllowanceInvoice_parsed:
  "parseUblInvoice (parseFromString (hostOf infiniteAllowanceInvoice)) [] =
     Inr (Some (documentModel infiniteAllowanceInvoice Invoice (str ''INV-4'')))"
  by (rule parseUblInvoice_hostOf) (simp_all add: infiniteAllowanceInvoice_def dom_eval text_eval)

lemma infiniteAllowanceInvoice_model:
  "map (\<lambda>c. (chargeIndicator c, UblAllowanceCharge.amount c))
     (parseAllowanceCharges infiniteAllowanceInvoice) = [(False, PosInf)]"
  "allowanceTotalAmount (parseMonetaryTotal infiniteAllowanceInvoice) = None"
  by (simp_all add: parseAllowanceCharges_def parseAllowanceCharge_def parseMonetaryTotal_def
      infiniteAllowanceInvoice_def dom_eval text_eval num_eval toLowerCase_def)

lemma absSum_from_pairs:
  "absSumByIndicator (documentModel r t i) indicator =
     js_sum (map (\<lambda>p. Math_abs (snd p))
               (filter (\<lambda>p. fst p = indicator)
                  (map (\<lambda>c. (chargeIndicator c, UblAllowanceCharge.amount c))
                     (parseAllowanceCharges r))))"
  by (simp add: absSumByIndicator_def documentModel_headerCharges filter_map comp_def)

text \<open>
  Without the finiteness check on the sum the statement fails: the document with a header
  allowance of amount \<open>Infinity\<close> is parsed, the sum is infinite, and the discount total
  of the DTO is null.
\<close>

theorem discount_total_counterexample:
  "parseUblInvoice (parseFromString (hostOf infiniteAllowanceInvoice)) [] =
     Inr (Some (documentModel infiniteAllowanceInvoice Invoice (str ''INV-4'')))
   \<and> claimedTotalByIndicator
        (allowanceTotalAmount (monetaryTotal (documentModel infiniteAllowanceInvoice Invoice (str ''INV-4''))))
        (documentModel infiniteAllowanceInvoice Invoice (str ''INV-4'')) False = Some PosInf
   \<and> discount_total (InvoiceExtractionDTO.invoice
        (extracted (hostOf infiniteAllowanceInvoice)
           (documentModel infiniteAllowanceInvoice Invoice (str ''INV-4'')) (str ''doc''))) = None"
proof -
  have c: "headerCharges (documentModel infiniteAllowanceInvoice Invoice (str ''INV-4'')) \<noteq> []"
    using infiniteAllowanceInvoice_model(1) by (auto simp: documentModel_headerCharges)
  have s: "absSumByIndicator (documentModel infiniteAllowanceInvoice Invoice (str ''INV-4'')) False = PosInf"
    by (simp add: absSum_from_pairs infiniteAllowanceInvoice_model js_sum_def)
  show ?thesis
    using infiniteAllowanceInvoice_parsed c s
    by (simp add: claimedTotalByIndicator_def extracted_discount_total
        sumAllowanceChargesByType_absSum documentModel_monetaryTotal
        infiniteAllowanceInvoice_model toNumberOrNull_Some isFinite_def nullish_def)
qed

lemma zeroTotalsInvoice_parsed:
  "parseUblInvoice (parseFromString (hostOf zeroTotalsInvoice)) [] =
     Inr (Some (documentModel zeroTotalsInvoice Invoice (str ''INV-5'')))"
  by (rule parseUblInvoice_hostOf) (simp_all add: zeroTotalsInvoice_def zeroMonetaryTotal_def dom_eval text_eval)

lemma zeroTotalsInvoice_charges:
  "map (\<lambda>c. (chargeIndicator c, UblAllowanceCharge.amount c))
     (parseAllowanceCharges zeroTotalsInvoice) = [(False, Fin 10), (True, Fin 4)]"
  by (simp add: parseAllowanceCharges_def parseAllowanceCharge_def
      zeroTotalsInvoice_def zeroMonetaryTotal_def dom_eval text_eval num_eval toLowerCase_def)

lemma zeroTotalsInvoice_totals:
  "parseMonetaryTotal zeroTotalsInvoice =
     \<lparr> UblMonetaryTotal.lineExtensionAmount = Fin 0,
       taxExclusiveAmount = Fin 100,
       taxInclusiveAmount = Fin 121,
       allowanceTotalAmount = None,
       chargeTotalAmount = None,
       prepaidAmount = None,
       payableRoundingAmount = None,
       payableAmount = Fin 100 \<rparr>"
  by (simp add: parseMonetaryTotal_def zeroTotalsInvoice_def zeroMonetaryTotal_def dom_eval
      text_eval num_eval)

lemma fractionalAllowanceInvoice_parsed:
  "parseUblInvoice (parseFromString (hostOf fractionalAllowanceInvoice)) [] =
     Inr (Some (documentModel fractionalAllowanceInvoice Invoice (str ''INV-10'')))"
  by (rule parseUblInvoice_hostOf)
     (simp_all add: fractionalAllowanceInvoice_def allowanceOf_def dom_eval text_eval)

lemma overflowingAllowanceInvoice_parsed:
  "parseUblInvoice (parseFromString (hostOf overflowingAllowanceInvoice)) [] =
     Inr (Some (documentModel overflowingAllowanceInvoice Invoice (str ''INV-11'')))"
  by (rule parseUblInvoice_hostOf)
     (simp_all add: overflowingAllowanceInvoice_def allowanceOf_def dom_eval text_eval)

lemma allowance_fixtures:
  "map (\<lambda>c. (chargeIndicator c, UblAllowanceCharge.amount c))
     (parseAllowanceCharges fractionalAllowanceInvoice) =
     [(False, Fin (3602879701896397 / 36028797018963968)),
      (False, Fin (3602879701896397 / 18014398509481984))]"
  "map (\<lambda>c. (chargeIndicator c, UblAllowanceCharge.amount c))
     (parseAllowanceCharges overflowingAllowanceInvoice) =
     [(False, Fin (5010420900022432 * 2 ^ 971)), (False, Fin (5010420900022432 * 2 ^ 971))]"
  "allowanceTotalAmount (parseMonetaryTotal fractionalAllowanceInvoice) = None"
  "allowanceTotalAmount (parseMonetaryTotal overflowingAllowanceInvoice) = None"
  by (simp_all add: parseAllowanceCharges_def parseAllowanceCharge_def parseMonetaryTotal_def
      fractionalAllowanceInvoice_def overflowingAllowanceInvoice_def allowanceOf_def
      dom_eval text_eval num_eval toLowerCase_def round64_1e308 [simplified])

lemma absSum_examples:
  "absSumByIndicator (documentModel fractionalAllowanceInvoice Invoice i) False =
     Fin (1351079888211149 / 4503599627370496)"
  "absSumByIndicator (documentModel overflowingAllowanceInvoice Invoice i) False = PosInf"
proof -
  have a: "\<bar>3602879701896397 / 36028797018963968 :: rat\<bar> = 3602879701896397 / 36028797018963968"
    "\<bar>3602879701896397 / 18014398509481984 :: rat\<bar> = 3602879701896397 / 18014398509481984"
    "\<bar>5010420900022432 * 2 ^ 971 :: rat\<bar> = 5010420900022432 * 2 ^ 971"
    by simp_all
  show "absSumByIndicator (documentModel fractionalAllowanceInvoice Invoice i) False =
     Fin (1351079888211149 / 4503599627370496)"
    unfolding absSum_from_pairs allowance_fixtures
    by (simp only: filter.simps list.map fst_conv snd_conv Math_abs.simps a simp_thms if_True
        js_sum_fractions)
  show "absSumByIndicator (documentModel overflowingAllowanceInvoice Invoice i) False = PosInf"
    unfolding absSum_from_pairs allowance_fixtures
    by (simp only: filter.simps list.map fst_conv snd_conv Math_abs.simps a simp_thms if_True
        js_sum_overflow)
qed

theorem discount_and_shipping_total_witness:
  "parseUblInvoice (parseFromString (hostOf zeroTotalsInvoice)) [] =
     Inr (Some (documentModel zeroTotalsInvoice Invoice (str ''INV-5'')))
   \<and> discount_total (InvoiceExtractionDTO.invoice
        (extracted (hostOf zeroTotalsInvoice)
           (documentModel zeroTotalsInvoice Invoice (str ''INV-5'')) (str ''doc''))) = Some (Fin 10)
   \<and> shipping_total (InvoiceExtractionDTO.invoice
        (extracted (hostOf zeroTotalsInvoice)
           (documentModel zeroTotalsInvoice Invoice (str ''INV-5'')) (str ''doc''))) = Some (Fin 4)
   \<and> discount_total (InvoiceExtractionDTO.invoice
        (extracted (hostOf minimalInvoice)
           (documentModel minimalInvoice Invoice (str ''INV-1'')) (str ''doc''))) = None
   \<and> parseUblInvoice (parseFromString (hostOf fractionalAllowanceInvoice)) [] =
       Inr (Some (documentModel fractionalAllowanceInvoice Invoice (str ''INV-10'')))
   \<and> map UblAllowanceCharge.amount
        (headerCharges (documentModel fractionalAllowanceInvoice Invoice (str ''INV-10''))) =
       [parseFloat (str ''0.1''), parseFloat (str ''0.2'')]
   \<and> discount_total (InvoiceExtractionDTO.invoice
        (extracted (hostOf fractionalAllowanceInvoice)
           (documentModel fractionalAllowanceInvoice Invoice (str ''INV-10'')) (str ''doc''))) =
       Some (parseFloat (str ''0.30000000000000004''))
   \<and> parseUblInvoice (parseFromString (hostOf overflowingAllowanceInvoice)) [] =
       Inr (Some (documentModel overflowingAllowanceInvoice Invoice (str ''INV-11'')))
   \<and> map UblAllowanceCharge.amount
        (headerCharges (documentModel overflowingAllowanceInvoice Invoice (str ''INV-11''))) =
       [parseFloat (str ''1e308''), parseFloat (str ''1e308'')]
   \<and> absSumByIndicator (documentModel overflowingAllowanceInvoice Invoice (str ''INV-11'')) False = PosInf
   \<and> discount_total (InvoiceExtractionDTO.invoice
        (extracted (hostOf overflowingAllowanceInvoice)
           (documentModel overflowingAllowanceInvoice Invoice (str ''INV-11'')) (str ''doc''))) = None"
proof -
  note x = discount_and_shipping_total_resolution [of "hostOf zeroTotalsInvoice"
      "documentModel zeroTotalsInvoice Invoice (str ''INV-5'')" "str ''doc''"]
  note y = discount_and_shipping_total_resolution [of "hostOf minimalInvoice"
      "documentModel minimalInvoice Invoice (str ''INV-1'')" "str ''doc''"]
  note f = discount_and_shipping_total_resolution [of "hostOf fractionalAllowanceInvoice"
      "documentModel fractionalAllowanceInvoice Invoice (str ''INV-10'')" "str ''doc''"]
  note g = discount_and_shipping_total_resolution [of "hostOf overflowingAllowanceInvoice"
      "documentModel overflowingAllowanceInvoice Invoice (str ''INV-11'')" "str ''doc''"]
  have c: "headerCharges (documentModel zeroTotalsInvoice Invoice (str ''INV-5'')) \<noteq> []"
    using zeroTotalsInvoice_charges by (auto simp: documentModel_headerCharges)
  have s: "absSumByIndicator (documentModel zeroTotalsInvoice Invoice (str ''INV-5'')) False = Fin 10"
    "absSumByIndicator (documentModel zeroTotalsInvoice Invoice (str ''INV-5'')) True = Fin 4"
    by (simp_all add: absSum_from_pairs zeroTotalsInvoice_charges js_sum_def)
  have m: "headerCharges (documentModel minimalInvoice Invoice (str ''INV-1'')) = []"
    "allowanceTotalAmount (parseMonetaryTotal minimalInvoice) = None"
    by (simp_all add: documentModel_headerCharges parseAllowanceCharges_def parseMonetaryTotal_def
        minimalInvoice_def dom_eval text_eval num_eval)
  have 1: "discount_total (InvoiceExtractionDTO.invoice
        (extracted (hostOf zeroTotalsInvoice)
           (documentModel zeroTotalsInvoice Invoice (str ''INV-5'')) (str ''doc''))) = Some (Fin 10)"
    "shipping_total (InvoiceExtractionDTO.invoice
        (extracted (hostOf zeroTotalsInvoice)
           (documentModel zeroTotalsInvoice Invoice (str ''INV-5'')) (str ''doc''))) = Some (Fin 4)"
    using x c s by (simp_all add: documentModel_monetaryTotal zeroTotalsInvoice_totals isFinite_def)
  have 2: "discount_total (InvoiceExtractionDTO.invoice
        (extracted (hostOf minimalInvoice)
           (documentModel minimalInvoice Invoice (str ''INV-1'')) (str ''doc''))) = None"
    using y m by (simp add: documentModel_monetaryTotal isFinite_def)
  have af: "map UblAllowanceCharge.amount
        (headerCharges (documentModel fractionalAllowanceInvoice Invoice (str ''INV-10''))) =
       [Fin (3602879701896397 / 36028797018963968), Fin (3602879701896397 / 18014398509481984)]"
    using arg_cong [OF allowance_fixtures(1), of "map snd"]
    by (simp add: documentModel_headerCharges comp_def)
  have ao: "map UblAllowanceCharge.amount
        (headerCharges (documentModel overflowingAllowanceInvoice Invoice (str ''INV-11''))) =
       [Fin (5010420900022432 * 2 ^ 971), Fin (5010420900022432 * 2 ^ 971)]"
    using arg_cong [OF allowance_fixtures(2), of "map snd"]
    by (simp add: documentModel_headerCharges comp_def)
  have nf: "headerCharges (documentModel fractionalAllowanceInvoice Invoice (str ''INV-10'')) \<noteq> []"
    using af by auto
  have no: "headerCharges (documentModel overflowingAllowanceInvoice Invoice (str ''INV-11'')) \<noteq> []"
    using ao by auto
  have 3: "discount_total (InvoiceExtractionDTO.invoice
        (extracted (hostOf fractionalAllowanceInvoice)
           (documentModel fractionalAllowanceInvoice Invoice (str ''INV-10'')) (str ''doc''))) =
       Some (Fin (1351079888211149 / 4503599627370496))"
    using f [THEN conjunct1] nf
    by (simp add: documentModel_monetaryTotal allowance_fixtures absSum_examples isFinite_def)
  have 4: "discount_total (InvoiceExtractionDTO.invoice
        (extracted (hostOf overflowingAllowanceInvoice)
           (documentModel overflowingAllowanceInvoice Invoice (str ''INV-11'')) (str ''doc''))) = None"
    using g [THEN conjunct1] no
    by (simp add: documentModel_monetaryTotal allowance_fixtures absSum_examples isFinite_def)
  show ?thesis
    using zeroTotalsInvoice_parsed fractionalAllowanceInvoice_parsed overflowingAllowanceInvoice_parsed
      1 2 3 4 af ao absSum_examples(2) [of "str ''INV-11''"]
    by (simp only: parseFloat_fractions parseFloat_1e308 simp_thms)
qed

section \<open>Explicit zero totals\<close>

lemma parseMonetaryTotal_optional:
  assumes "cacDirectElement r (str ''LegalMonetaryTotal'') = Some t"
  shows "allowanceTotalAmount (parseMonetaryTotal r) =
           numOrUndefined (cbcNumber t (str ''AllowanceTotalAmount''))"
    and "chargeTotalAmount (parseMonetaryTotal r) =
           numOrUndefined (cbcNumber t (str ''ChargeTotalAmount''))"
    and "prepaidAmount (parseMonetaryTotal r) = numOrUndefined (cbcNumber t (str ''PrepaidAmount''))"
    and "payableRoundingAmount (parseMonetaryTotal r) =
           numOrUndefined (cbcNumber t (str ''PayableRoundingAmount''))"
  using assms by (simp_all add: parseMonetaryTotal_def)

text \<open>
  C9. When the monetary total element reads 0 for the allowance total, the charge total,
  the prepaid amount or the rounding amount, the parsed field is absent, as it is when the
  element is missing (a missing element reads 0 as well); and with the field absent the
  DTO's discount total, shipping total and amount paid are what their fallbacks give.
\<close>

theorem explicit_zero_totals_absent:
  "(cacDirectElement r (str ''LegalMonetaryTotal'') = Some t \<longrightarrow>
      (cbcNumber t (str ''AllowanceTotalAmount'') = Fin 0
         \<longrightarrow> allowanceTotalAmount (parseMonetaryTotal r) = None)
      \<and> (cbcNumber t (str ''ChargeTotalAmount'') = Fin 0
         \<longrightarrow> chargeTotalAmount (parseMonetaryTotal r) = None)
      \<and> (cbcNumber t (str ''PrepaidAmount'') = Fin 0
         \<longrightarrow> prepaidAmount (parseMonetaryTotal r) = None)
      \<and> (cbcNumber t (str ''PayableRoundingAmount'') = Fin 0
         \<longrightarrow> payableRoundingAmount (parseMonetaryTotal r) = None)
      \<and> (\<forall>tag. getElementsByTagNameNS t CBC_NS tag = [] \<longrightarrow> cbcNumber t tag = Fin 0))
   \<and> (allowanceTotalAmount (monetaryTotal ubl) = None \<longrightarrow>
        discount_total (InvoiceExtractionDTO.invoice (extracted h ubl d)) =
          (if headerCharges ubl \<noteq> []
           then toNumberOrNull (Some (sumAllowanceChargesByType (UblInvoiceOf.allowanceCharges ubl) False))
           else None))
   \<and> (chargeTotalAmount (monetaryTotal ubl) = None \<longrightarrow>
        shipping_total (InvoiceExtractionDTO.invoice (extracted h ubl d)) =
          (if headerCharges ubl \<noteq> []
           then toNumberOrNull (Some (sumAllowanceChargesByType (UblInvoiceOf.allowanceCharges ubl) True))
           else None))
   \<and> (prepaidAmount (monetaryTotal ubl) = None \<longrightarrow>
        amount_paid (InvoiceExtractionDTO.invoice (extracted h ubl d)) =
          (case (total' (InvoiceExtractionDTO.invoice (extracted h ubl d)),
                 amount_due (InvoiceExtractionDTO.invoice (extracted h ubl d))) of
             (Some t, Some du) \<Rightarrow> if js_gt t du then toNumberOrNull (Some (js_sub t du)) else None
           | _ \<Rightarrow> None))"
proof (intro conjI impI allI)
  assume a: "cacDirectElement r (str ''LegalMonetaryTotal'') = Some t"
  {
    assume "cbcNumber t (str ''AllowanceTotalAmount'') = Fin 0"
    then show "allowanceTotalAmount (parseMonetaryTotal r) = None"
      by (simp add: parseMonetaryTotal_optional [OF a] numOrUndefined_def)
  next
    assume "cbcNumber t (str ''ChargeTotalAmount'') = Fin 0"
    then show "chargeTotalAmount (parseMonetaryTotal r) = None"
      by (simp add: parseMonetaryTotal_optional [OF a] numOrUndefined_def)
  next
    assume "cbcNumber t (str ''PrepaidAmount'') = Fin 0"
    then show "prepaidAmount (parseMonetaryTotal r) = None"
      by (simp add: parseMonetaryTotal_optional [OF a] numOrUndefined_def)
  next
    assume "cbcNumber t (str ''PayableRoundingAmount'') = Fin 0"
    then show "payableRoundingAmount (parseMonetaryTotal r) = None"
      by (simp add: parseMonetaryTotal_optional [OF a] numOrUndefined_def)
  next
    fix tag
    assume "getElementsByTagNameNS t CBC_NS tag = []"
    then show "cbcNumber t tag = Fin 0"
      by (rule cbcNumber_missing)
  }
next
  assume "allowanceTotalAmount (monetaryTotal ubl) = None"
  then show "discount_total (InvoiceExtractionDTO.invoice (extracted h ubl d)) =
          (if headerCharges ubl \<noteq> []
           then toNumberOrNull (Some (sumAllowanceChargesByType (UblInvoiceOf.allowanceCharges ubl) False))
           else None)"
    by (simp add: extracted_discount_total nullish_def)
next
  assume "chargeTotalAmount (monetaryTotal ubl) = None"
  then show "shipping_total (InvoiceExtractionDTO.invoice (extracted h ubl d)) =
          (if headerCharges ubl \<noteq> []
           then toNumberOrNull (Some (sumAllowanceChargesByType (UblInvoiceOf.allowanceCharges ubl) True))
           else None)"
    by (simp add: extracted_shipping_total nullish_def)
next
  assume "prepaidAmount (monetaryTotal ubl) = None"
  then show "amount_paid (InvoiceExtractionDTO.invoice (extracted h ubl d)) =
          (case (total' (InvoiceExtractionDTO.invoice (extracted h ubl d)),
                 amount_due (InvoiceExtractionDTO.invoice (extracted h ubl d))) of
             (Some t, Some du) \<Rightarrow> if js_gt t du then toNumberOrNull (Some (js_sub t du)) else None
           | _ \<Rightarrow> None)"
    by (subst extracted_amount_paid) (simp add: nullish_def)
qed

theorem explicit_zero_totals_witness:
  "cacDirectElement zeroTotalsInvoice (str ''LegalMonetaryTotal'') = Some (elementOf zeroMonetaryTotal)
   \<and> cbcText (elementOf zeroMonetaryTotal) (str ''AllowanceTotalAmount'') = str ''0.00''
   \<and> allowanceTotalAmount (parseMonetaryTotal zeroTotalsInvoice) = None
   \<and> chargeTotalAmount (parseMonetaryTotal zeroTotalsInvoice) = None
   \<and> prepaidAmount (parseMonetaryTotal zeroTotalsInvoice) = None
   \<and> payableRoundingAmount (parseMonetaryTotal zeroTotalsInvoice) = None
   \<and> allowanceTotalAmount (parseMonetaryTotal minimalInvoice) = None
   \<and> discount_total (InvoiceExtractionDTO.invoice
        (extracted (hostOf zeroTotalsInvoice)
           (documentModel zeroTotalsInvoice Invoice (str ''INV-5'')) (str ''doc''))) = Some (Fin 10)
   \<and> shipping_total (InvoiceExtractionDTO.invoice
        (extracted (hostOf zeroTotalsInvoice)
           (documentModel zeroTotalsInvoice Invoice (str ''INV-5'')) (str ''doc''))) = Some (Fin 4)
   \<and> amount_paid (InvoiceExtractionDTO.invoice
        (extracted (hostOf zeroTotalsInvoice)
           (documentModel zeroTotalsInvoice Invoice (str ''INV-5'')) (str ''doc''))) = Some (Fin 21)"
proof -
  let ?u = "documentModel zeroTotalsInvoice Invoice (str ''INV-5'')"
  let ?h = "hostOf zeroTotalsInvoice"
  have t: "cacDirectElement zeroTotalsInvoice (str ''LegalMonetaryTotal'') = Some (elementOf zeroMonetaryTotal)"
    by (simp add: zeroTotalsInvoice_def zeroMonetaryTotal_def dom_eval)
  have x: "cbcText (elementOf zeroMonetaryTotal) (str ''AllowanceTotalAmount'') = str ''0.00''"
    by (simp add: zeroMonetaryTotal_def dom_eval text_eval)
  have z: "cbcNumber (elementOf zeroMonetaryTotal) (str ''AllowanceTotalAmount'') = Fin 0"
    "cbcNumber (elementOf zeroMonetaryTotal) (str ''ChargeTotalAmount'') = Fin 0"
    "cbcNumber (elementOf zeroMonetaryTotal) (str ''PrepaidAmount'') = Fin 0"
    "cbcNumber (elementOf zeroMonetaryTotal) (str ''PayableRoundingAmount'') = Fin 0"
    by (simp_all add: zeroMonetaryTotal_def dom_eval text_eval num_eval)
  have m: "allowanceTotalAmount (parseMonetaryTotal minimalInvoice) = None"
    by (simp add: parseMonetaryTotal_def minimalInvoice_def dom_eval text_eval num_eval)
  have c: "headerCharges ?u \<noteq> []"
    using zeroTotalsInvoice_charges by (auto simp: documentModel_headerCharges)
  have s: "sumAllowanceChargesByType (UblInvoiceOf.allowanceCharges ?u) False = Fin 10"
    "sumAllowanceChargesByType (UblInvoiceOf.allowanceCharges ?u) True = Fin 4"
    by (simp_all add: sumAllowanceChargesByType_absSum absSum_from_pairs zeroTotalsInvoice_charges
        js_sum_def)
  have p: "total' (InvoiceExtractionDTO.invoice (extracted ?h ?u (str ''doc''))) = Some (Fin 121)"
    "amount_due (InvoiceExtractionDTO.invoice (extracted ?h ?u (str ''doc''))) = Some (Fin 100)"
    by (simp_all add: extracted_total extracted_amount_due documentModel_monetaryTotal
        zeroTotalsInvoice_totals toNumberOrNull_Some isFinite_def nullish_def)
  have n: "monetaryTotal ?u = parseMonetaryTotal zeroTotalsInvoice"
    by (rule documentModel_monetaryTotal)
  show ?thesis
    using t x z m c s p n
      explicit_zero_totals_absent [of zeroTotalsInvoice "elementOf zeroMonetaryTotal" ?u ?h "str ''doc''"]
    by (simp add: toNumberOrNull_Some isFinite_def)
qed

section \<open>Failure of the parse\<close>

text \<open>
  \<open>normalizeUblResponse\<close> fails, with the fixed message, exactly when \<open>parseUblInvoice\<close>
  returns null.
\<close>

lemma normalize_error_iff:
  "normalizeUblResponse h xml d = Inl (Error (str ''Failed to parse UBL invoice XML''))
     \<longleftrightarrow> parseUblInvoice (parseFromString h) xml = Inr None"
proof -
  obtain res where "parseUblInvoice (parseFromString h) xml = Inr res"
    by (cases "parseUblInvoice_body (parseFromString h) xml")
       (auto simp: parseUblInvoice_def try_catch_def)
  then show ?thesis
    by (cases res) (simp_all add: normalizeUblResponse_def)
qed

lemma idOnlyInLine_parsed:
  "parseUblInvoice (parseFromString (hostOf idOnlyInLine)) [] =
     Inr (Some (documentModel idOnlyInLine Invoice (str ''1'')))"
  by (rule parseUblInvoice_hostOf) (simp_all add: idOnlyInLine_def dom_eval text_eval)

text \<open>
  C2. The statement is that \<open>parseUblInvoice\<close> returns null when the root lacks a non-empty
  \<open>ID\<close>. The code looks for the \<open>ID\<close> anywhere below the root: the invoice whose root has
  no \<open>ID\<close> child and whose line has the \<open>ID\<close> 1 is not reported as an error by the XML
  parser and has the root \<open>Invoice\<close>, and \<open>parseUblInvoice\<close> returns a document for it, with
  the id of the line; \<open>normalizeUblResponse\<close> returns a DTO with the invoice number 1
  where the fixed error is stated.
\<close>

theorem parse_nested_id_taken:
  "\<not> parserReportsError (parseFromString (hostOf idOnlyInLine) [])
   \<and> localName idOnlyInLine = str ''Invoice''
   \<and> directChildren idOnlyInLine CBC_NS (str ''ID'') = []
   \<and> \<not> rootHasId idOnlyInLine
   \<and> parseUblInvoice (parseFromString (hostOf idOnlyInLine)) [] =
       Inr (Some (documentModel idOnlyInLine Invoice (str ''1'')))
   \<and> parseUblInvoice (parseFromString (hostOf idOnlyInLine)) [] \<noteq> Inr None
   \<and> UblInvoiceOf.id' (documentModel idOnlyInLine Invoice (str ''1'')) = str ''1''
   \<and> map UblLine.id' (UblInvoiceOf.lines (documentModel idOnlyInLine Invoice (str ''1''))) = [str ''1'']
   \<and> normalizeUblResponse (hostOf idOnlyInLine) [] (str ''doc'') =
       Inr (extracted (hostOf idOnlyInLine) (documentModel idOnlyInLine Invoice (str ''1'')) (str ''doc''),
            \<lparr> format = str ''ubl_xml'',
              RawPayload.invoice = sanitizeRawUbl (documentModel idOnlyInLine Invoice (str ''1'')) \<rparr>)
   \<and> invoice_number (InvoiceExtractionDTO.invoice
        (extracted (hostOf idOnlyInLine) (documentModel idOnlyInLine Invoice (str ''1'')) (str ''doc''))) =
       Some (str ''1'')"
proof -
  have a: "\<not> parserReportsError (parseFromString (hostOf idOnlyInLine) [])"
    by (simp add: parserReportsError_def hostOf_def idOnlyInLine_def dom_eval text_eval)
  have b: "directChildren idOnlyInLine CBC_NS (str ''ID'') = []"
    by (simp add: idOnlyInLine_def directChildren_def elementChildren_def dom_eval)
  have l: "map UblLine.id' (parseLines idOnlyInLine False) = [str ''1'']"
    by (simp add: parseLines_def parseLine_def Let_def idOnlyInLine_def dom_eval text_eval)
  have n: "normalizeText (Some (str ''1'')) = Some (str ''1'')"
    by (simp add: normalizeText_def toUpperCase_def Let_def text_eval)
  have r: "normalizeUblResponse (hostOf idOnlyInLine) [] (str ''doc'') =
       Inr (extracted (hostOf idOnlyInLine) (documentModel idOnlyInLine Invoice (str ''1'')) (str ''doc''),
            \<lparr> format = str ''ubl_xml'',
              RawPayload.invoice = sanitizeRawUbl (documentModel idOnlyInLine Invoice (str ''1'')) \<rparr>)"
    using idOnlyInLine_parsed by (simp add: normalizeUblResponse_def)
  have i: "localName idOnlyInLine = str ''Invoice''"
    by (simp add: idOnlyInLine_def invoiceRoot_def)
  show ?thesis
    using idOnlyInLine_parsed a b l n r i
    by (simp add: rootHasId_def documentModel_texts documentModel_lines extracted_invoice_texts)
qed

end
